theory Spec2Isabelle
  imports Main "HOL-Library.Word"
begin

unbundle bit_operations_syntax

chapter \<open>The model of sprite_store.cpp\<close>

section \<open>The RCD file reader\<close>

text \<open>
  \<^verbatim>\<open>sprite_store.cpp\<close> reads every block through an \<^verbatim>\<open>RcdFileReader\<close>. The class
  lives in \<^verbatim>\<open>rcdfile.cpp\<close>, which is not among the sources; its operations are
  modelled below from section 4.1 and 4.2 of the specification. The reader holds the
  header of the current block (\<^verbatim>\<open>name\<close>, \<^verbatim>\<open>version\<close>, \<^verbatim>\<open>size\<close>) and the bytes of the
  file that have not been consumed yet.
\<close>

type_synonym byte = "8 word"
type_synonym uint16 = "16 word"
type_synonym uint32 = "32 word"

record RcdFileReader =
  filename :: string
  name :: string
  version :: uint32
  size :: uint32
  fp :: "byte list"

text \<open>
  Modelled from the spec: \<^verbatim>\<open>RcdFileReader::GetUInt8\<close>, \<^verbatim>\<open>GetUInt16\<close>, \<^verbatim>\<open>GetUInt32\<close>,
  \<^verbatim>\<open>GetInt16\<close>, \<^verbatim>\<open>GetBlob\<close>, \<^verbatim>\<open>SkipBytes\<close> and \<^verbatim>\<open>ReadBlockHeader\<close> (all in the missing
  \<^verbatim>\<open>rcdfile.cpp\<close>). A read consumes a fixed number of bytes and advances the
  stream; a read past the end of the stream returns no value (\<open>None\<close>) and the
  operation that asked for it fails as a whole. Multi-byte integers are taken
  least significant byte first; only the concrete examples depend on that choice.
\<close>

definition GetUInt8 :: "RcdFileReader \<Rightarrow> (byte \<times> RcdFileReader) option" where
  "GetUInt8 r = (case fp r of [] \<Rightarrow> None | b # bs \<Rightarrow> Some (b, r\<lparr>fp := bs\<rparr>))"

definition GetUInt16 :: "RcdFileReader \<Rightarrow> (uint16 \<times> RcdFileReader) option" where
  "GetUInt16 r =
     (case fp r of
        b0 # b1 # bs \<Rightarrow> Some (word_of_nat (unat b0 + 256 * unat b1), r\<lparr>fp := bs\<rparr>)
      | _ \<Rightarrow> None)"

definition GetUInt32 :: "RcdFileReader \<Rightarrow> (uint32 \<times> RcdFileReader) option" where
  "GetUInt32 r =
     (case fp r of
        b0 # b1 # b2 # b3 # bs \<Rightarrow>
          Some (word_of_nat (unat b0 + 256 * unat b1 + 65536 * unat b2 + 16777216 * unat b3),
                r\<lparr>fp := bs\<rparr>)
      | _ \<Rightarrow> None)"

text \<open>\<^verbatim>\<open>GetInt16\<close> returns the same two bytes; its callers read them as a signed value (\<open>sint\<close>).\<close>

definition GetInt16 :: "RcdFileReader \<Rightarrow> (uint16 \<times> RcdFileReader) option" where
  "GetInt16 r = GetUInt16 r"

definition GetBlob :: "RcdFileReader \<Rightarrow> nat \<Rightarrow> (byte list \<times> RcdFileReader) option" where
  "GetBlob r n =
     (if n \<le> length (fp r) then Some (take n (fp r), r\<lparr>fp := drop n (fp r)\<rparr>) else None)"

definition SkipBytes :: "RcdFileReader \<Rightarrow> uint32 \<Rightarrow> RcdFileReader option" where
  "SkipBytes r count =
     (if unat count \<le> length (fp r) then Some (r\<lparr>fp := drop (unat count) (fp r)\<rparr>) else None)"

definition tag_of_bytes :: "byte list \<Rightarrow> string" where
  "tag_of_bytes bs = map (\<lambda>b. char_of (unat b)) bs"

text \<open>
  \<^verbatim>\<open>ReadBlockHeader\<close> reads the 4-byte tag, the version and the length of the next
  block. It reports the end of the stream (\<open>None\<close>) when no complete header is left.
\<close>

definition ReadBlockHeader :: "RcdFileReader \<Rightarrow> RcdFileReader option" where
  "ReadBlockHeader r =
     (case GetBlob r 4 of
        None \<Rightarrow> None
      | Some (nm, r1) \<Rightarrow>
          (case GetUInt32 r1 of
             None \<Rightarrow> None
           | Some (v, r2) \<Rightarrow>
               (case GetUInt32 r2 of
                  None \<Rightarrow> None
                | Some (sz, r3) \<Rightarrow>
                    Some (r3\<lparr>name := tag_of_bytes nm, version := v, size := sz\<rparr>))))"

section \<open>Cross references to sprites and texts\<close>

text \<open>
  A pointer is modelled as an option: \<open>None\<close> is \<^verbatim>\<open>nullptr\<close>. An \<^verbatim>\<open>ImageData\<close> object is
  decoded by \<^verbatim>\<open>LoadImage\<close> (not among the sources) and is known here only by its
  address. \<^verbatim>\<open>ImageMap\<close> and \<^verbatim>\<open>TextMap\<close> are the per-file tables from block numbers to the
  objects loaded from those blocks.
\<close>

type_synonym ImageData_ptr = "nat option"
type_synonym ImageMap = "uint32 \<rightharpoonup> ImageData_ptr"

record TextString =
  str_name :: "nat option"
  languages :: "nat \<rightharpoonup> nat"

record TextData =
  strings :: "TextString list"
  string_count :: nat
  text_data :: "byte list"

type_synonym TextData_ptr = "TextData option"
type_synonym TextMap = "uint32 \<rightharpoonup> TextData_ptr"

text \<open>
  \<^verbatim>\<open>LoadSpriteFromFile\<close> and \<^verbatim>\<open>LoadTextFromFile\<close> return \<^verbatim>\<open>false\<close> (\<open>None\<close>) or write the
  resolved pointer to their out-parameter (\<open>Some (pointer, reader)\<close>).
\<close>

definition LoadSpriteFromFile ::
  "RcdFileReader \<Rightarrow> ImageMap \<Rightarrow> (ImageData_ptr \<times> RcdFileReader) option" where
  "LoadSpriteFromFile rcd_file sprites =
     (case GetUInt32 rcd_file of
        None \<Rightarrow> None
      | Some (val, r) \<Rightarrow>
          if val = 0 then Some (None, r)
          else (case sprites val of None \<Rightarrow> None | Some spr \<Rightarrow> Some (spr, r)))"

definition LoadTextFromFile ::
  "RcdFileReader \<Rightarrow> TextMap \<Rightarrow> (TextData_ptr \<times> RcdFileReader) option" where
  "LoadTextFromFile rcd_file texts =
     (case GetUInt32 rcd_file of
        None \<Rightarrow> None
      | Some (val, r) \<Rightarrow>
          if val = 0 then Some (None, r)
          else (case texts val of None \<Rightarrow> None | Some txt \<Rightarrow> Some (txt, r)))"

section \<open>Constants and types declared in headers\<close>

text \<open>
  The array lengths and the numeric values of the enumerations that
  \<^verbatim>\<open>sprite_store.cpp\<close> uses are declared in headers that are not among the sources.
  They are parameters of the model: every function that depends on one takes a
  record of them, and every theorem holds for all values of the record.
\<close>

record Headers =
  NUM_SLOPE_SPRITES :: nat
  PATH_COUNT :: nat
  FENCE_COUNT :: nat
  FENCE_TYPE_COUNT :: nat
  EDGE_COUNT :: nat
  VOR_NUM_ORIENT :: nat
  SSP_COUNT :: nat
  FOUNDATION_SPRITES :: nat
  PLATFORM_RAMP :: nat
  PLATFORM_RIGHT_RAMP :: nat
  PLATFORM_LEFT_RAMP :: nat
  BUILD_ARROWS :: nat
  GTP_GRASS0 :: byte
  GTP_GRASS1 :: byte
  GTP_GRASS2 :: byte
  GTP_GRASS3 :: byte
  GTP_UNDERGROUND :: byte
  GTP_DESERT :: byte
  GTP_CURSOR_TEST :: byte
  GTP_CURSOR_EDGE_TEST :: byte
  GTP_COUNT :: nat
  GTP_INVALID :: byte
  FDT_GROUND :: uint16
  FDT_WOOD :: uint16
  FDT_BRICK :: uint16
  FDT_COUNT :: nat
  FDT_INVALID :: uint16
  ANIM_BEGIN :: nat
  ANIM_LAST :: nat
  ANIM_INVALID :: nat
  LANGUAGE_COUNT :: nat
  WBS_COUNT :: nat
  WCS_COUNT :: nat
  WSS_COUNT :: nat
  WLS_COUNT :: nat
  TSL_STRAIGHT_DOWN :: byte
  TSL_STEEP_DOWN :: byte
  TSL_DOWN :: byte
  TSL_FLAT :: byte
  TSL_UP :: byte
  TSL_STEEP_UP :: byte
  TSL_STRAIGHT_UP :: byte
  TBN_COUNT :: nat
  TPB_COUNT :: nat
  TC_END :: nat
  WTP_COUNT :: nat
  TOOLBAR_IMAGES :: nat

text \<open>
  \<open>FOUNDATION_SPRITES\<close>, \<open>PLATFORM_RAMP\<close>, \<open>PLATFORM_RIGHT_RAMP\<close>, \<open>PLATFORM_LEFT_RAMP\<close> and
  \<open>BUILD_ARROWS\<close> stand for \<^verbatim>\<open>lengthof(fn->sprites)\<close>, \<^verbatim>\<open>lengthof(plat->ramp)\<close>,
  \<^verbatim>\<open>lengthof(plat->right_ramp)\<close>, \<^verbatim>\<open>lengthof(plat->left_ramp)\<close> and
  \<^verbatim>\<open>lengthof(dob->sprites)\<close>, and \<open>TOOLBAR_IMAGES\<close> for
  \<^verbatim>\<open>lengthof(this->toolbar_images)\<close> of the GUI sprites.
\<close>

datatype PathType = PAT_INVALID | PAT_WOOD | PAT_TILED | PAT_ASPHALT | PAT_CONCRETE

datatype PathStatus = PAS_UNUSED | PAS_NORMAL_PATH | PAS_QUEUE_PATH

datatype PersonType =
  PERSON_ANY | PERSON_GUEST | PERSON_HANDYMAN | PERSON_MECHANIC | PERSON_GUARD
  | PERSON_ENTERTAINER | PERSON_INVALID

section \<open>The sprite storage\<close>

text \<open>
  A fixed-size array of sprite pointers is a function from indices to pointers; the
  handlers below index it only with a loop counter below the array length. An array
  indexed by an enumeration is a function of the enumeration.
\<close>

type_synonym sprite_array = "nat \<Rightarrow> ImageData_ptr"

record Path =
  path_status :: PathStatus
  path_sprites_of :: sprite_array

record PathDecoration =
  litterbin :: sprite_array
  overflow_bin :: sprite_array
  demolished_bin :: sprite_array
  lamp_post :: sprite_array
  demolished_lamp :: sprite_array
  bench :: sprite_array
  demolished_bench :: sprite_array
  flat_litter :: sprite_array
  ramp_litter :: "nat \<Rightarrow> sprite_array"
  flat_vomit :: sprite_array
  ramp_vomit :: "nat \<Rightarrow> sprite_array"
  flat_litter_count :: nat
  flat_vomit_count :: nat
  ramp_litter_count :: "nat \<Rightarrow> nat"
  ramp_vomit_count :: "nat \<Rightarrow> nat"

record Platform =
  flat :: sprite_array
  ramp :: sprite_array
  right_ramp :: sprite_array
  left_ramp :: sprite_array

record Fence =
  fence_type :: uint16
  fence_width :: uint16
  fence_sprites :: sprite_array

record AnimationFrame =
  duration :: uint16
  dx :: int
  dy :: int

record Animation =
  frame_count :: uint16
  person_type :: PersonType
  anim_type :: nat
  frames :: "AnimationFrame list"

record AnimationSprites =
  ansp_width :: uint16
  ansp_frame_count :: uint16
  ansp_person_type :: PersonType
  ansp_anim_type :: nat
  ansp_sprites :: sprite_array

record FrameSet =
  fset_width :: uint16
  width_x :: byte
  width_y :: byte
  fset_sprites :: "nat \<Rightarrow> sprite_array"

record TimedAnimation =
  tima_frames :: uint32
  durations :: "uint32 list"
  views :: "FrameSet option list"

type_synonym ImageSetKey = "string \<times> uint32"

record SpriteStorage =
  surface :: "nat \<Rightarrow> sprite_array"
  tile_select :: sprite_array
  path_sprites :: "PathType \<Rightarrow> Path"
  path_decoration :: PathDecoration
  tile_corners :: "nat \<Rightarrow> sprite_array"
  foundation :: "nat \<Rightarrow> sprite_array"
  platform :: Platform
  support :: sprite_array
  build_arrows :: sprite_array
  fence :: "nat \<Rightarrow> Fence option"
  store_animations :: "(nat \<times> AnimationSprites) list"
  frame_sets :: "ImageSetKey \<rightharpoonup> FrameSet"
  timed_animations :: "ImageSetKey \<rightharpoonup> TimedAnimation"

datatype RcdBlock =
  FenceBlock Fence | AnimationBlock Animation | AnimationSpritesBlock AnimationSprites
  | TextBlock TextData

record SpriteManager =
  store :: SpriteStorage
  blocks :: "RcdBlock list"
  animations :: "(nat \<times> Animation) list"

text \<open>\<^verbatim>\<open>SpriteManager::GetSpriteStore\<close>: the only store is the one for tile width 64.\<close>

definition GetSpriteStore :: "SpriteManager \<Rightarrow> uint16 \<Rightarrow> SpriteStorage option" where
  "GetSpriteStore this width = (if width = 64 then Some (store this) else None)"

text \<open>
  The loop \<^verbatim>\<open>for (sprnum = first; ...; sprnum++) if (!LoadSpriteFromFile(rcd_file,
  sprites, &arr[sprnum])) return false;\<close> with \<open>n\<close> iterations left. The array is
  written in place, so the sprites resolved before a failure stay in it.
\<close>

fun LoadSprites ::
  "nat \<Rightarrow> nat \<Rightarrow> RcdFileReader \<Rightarrow> ImageMap \<Rightarrow> sprite_array \<Rightarrow>
   bool \<times> RcdFileReader \<times> sprite_array" where
  "LoadSprites 0 sprnum r sprites arr = (True, r, arr)"
| "LoadSprites (Suc n) sprnum r sprites arr =
     (case LoadSpriteFromFile r sprites of
        None \<Rightarrow> (False, r, arr)
      | Some (spr, r') \<Rightarrow> LoadSprites n (Suc sprnum) r' sprites (arr(sprnum := spr)))"

text \<open>The same loop nested in a loop over the rows of a two-dimensional array.\<close>

fun LoadSpriteRows ::
  "nat \<Rightarrow> nat \<Rightarrow> nat \<Rightarrow> RcdFileReader \<Rightarrow> ImageMap \<Rightarrow> (nat \<Rightarrow> sprite_array) \<Rightarrow>
   bool \<times> RcdFileReader \<times> (nat \<Rightarrow> sprite_array)" where
  "LoadSpriteRows 0 v cols r sprites arr = (True, r, arr)"
| "LoadSpriteRows (Suc n) v cols r sprites arr =
     (case LoadSprites cols 0 r sprites (arr v) of
        (ok, r', row) \<Rightarrow>
          if ok then LoadSpriteRows n (Suc v) cols r' sprites (arr(v := row))
          else (False, r', arr(v := row)))"

text \<open>
  A sequence of in-place loading steps: a step runs only when the steps before it
  returned \<^verbatim>\<open>true\<close>; the object being filled is kept either way.
\<close>

fun load_all ::
  "(RcdFileReader \<Rightarrow> 's \<Rightarrow> bool \<times> RcdFileReader \<times> 's) list \<Rightarrow> RcdFileReader \<Rightarrow> 's \<Rightarrow>
   bool \<times> RcdFileReader \<times> 's" where
  "load_all [] r s = (True, r, s)"
| "load_all (f # fs) r s =
     (case f r s of (ok, r', s') \<Rightarrow> if ok then load_all fs r' s' else (False, r', s'))"

definition load_into ::
  "nat \<Rightarrow> ('s \<Rightarrow> sprite_array) \<Rightarrow> (sprite_array \<Rightarrow> 's \<Rightarrow> 's) \<Rightarrow> ImageMap \<Rightarrow>
   RcdFileReader \<Rightarrow> 's \<Rightarrow> bool \<times> RcdFileReader \<times> 's" where
  "load_into n get put sprites r s =
     (case LoadSprites n 0 r sprites (get s) of (ok, r', arr) \<Rightarrow> (ok, r', put arr s))"

definition load_rows_into ::
  "nat \<Rightarrow> nat \<Rightarrow> ('s \<Rightarrow> nat \<Rightarrow> sprite_array) \<Rightarrow> ((nat \<Rightarrow> sprite_array) \<Rightarrow> 's \<Rightarrow> 's) \<Rightarrow>
   ImageMap \<Rightarrow> RcdFileReader \<Rightarrow> 's \<Rightarrow> bool \<times> RcdFileReader \<times> 's" where
  "load_rows_into n cols get put sprites r s =
     (case LoadSpriteRows n 0 cols r sprites (get s) of (ok, r', arr) \<Rightarrow> (ok, r', put arr s))"


section \<open>Handlers that load sprites into the sprite storage\<close>

text \<open>
  Each handler is a member function of \<^verbatim>\<open>SpriteManager\<close> returning \<^verbatim>\<open>bool\<close>. It writes
  into the storage while it reads, so the model returns the manager as the handler
  left it together with the result and the reader, also when the result is \<^verbatim>\<open>false\<close>.
\<close>

text \<open>The ground type that \<^verbatim>\<open>LoadSURF\<close> decodes from the ground type bytes \<open>gt\<close>.\<close>

definition SURF_ground_type :: "Headers \<Rightarrow> uint16 \<Rightarrow> byte" where
  "SURF_ground_type c gt =
     (let type = GTP_INVALID c;
          type = (if gt = 16 then GTP_GRASS0 c else type);
          type = (if gt = 17 then GTP_GRASS1 c else type);
          type = (if gt = 18 then GTP_GRASS2 c else type);
          type = (if gt = 19 then GTP_GRASS3 c else type);
          type = (if gt = 20 then GTP_UNDERGROUND c else type);
          type = (if gt = 32 then GTP_DESERT c else type);
          type = (if gt = 48 then GTP_CURSOR_TEST c else type);
          type = (if gt = 49 then GTP_CURSOR_EDGE_TEST c else type)
      in type)"

definition LoadSURF ::
  "Headers \<Rightarrow> RcdFileReader \<Rightarrow> ImageMap \<Rightarrow> SpriteManager \<Rightarrow>
   bool \<times> RcdFileReader \<times> SpriteManager" where
  "LoadSURF c rcd_file sprites this =
     (if version rcd_file \<noteq> 6 \<or>
         size rcd_file \<noteq> word_of_nat (2 + 2 + 2 + 4 * NUM_SLOPE_SPRITES c)
      then (False, rcd_file, this)
      else case GetUInt16 rcd_file of
        None \<Rightarrow> (False, rcd_file, this)
      | Some (gt, r1) \<Rightarrow>
          let type = SURF_ground_type c gt
          in if type = GTP_INVALID c then (False, r1, this)
             else case GetUInt16 r1 of
               None \<Rightarrow> (False, r1, this)
             | Some (width, r2) \<Rightarrow>
                 (case GetUInt16 r2 of
                    None \<Rightarrow> (False, r2, this)
                  | Some (height, r3) \<Rightarrow>
                      (case GetSpriteStore this width of
                         None \<Rightarrow> (False, r3, this)
                       | Some ss \<Rightarrow>
                           if unat type \<ge> GTP_COUNT c then (False, r3, this)
                           else case LoadSprites (NUM_SLOPE_SPRITES c) 0 r3 sprites
                                       (surface ss (unat type)) of
                             (ok, r4, sd) \<Rightarrow>
                               (ok, r4, this\<lparr>store :=
                                  ss\<lparr>surface := (surface ss)(unat type := sd)\<rparr>\<rparr>))))"

definition LoadTSEL ::
  "Headers \<Rightarrow> RcdFileReader \<Rightarrow> ImageMap \<Rightarrow> SpriteManager \<Rightarrow>
   bool \<times> RcdFileReader \<times> SpriteManager" where
  "LoadTSEL c rcd_file sprites this =
     (if version rcd_file \<noteq> 2 \<or>
         size rcd_file \<noteq> word_of_nat (2 + 2 + 4 * NUM_SLOPE_SPRITES c)
      then (False, rcd_file, this)
      else case GetUInt16 rcd_file of
        None \<Rightarrow> (False, rcd_file, this)
      | Some (width, r1) \<Rightarrow>
          (case GetUInt16 r1 of
             None \<Rightarrow> (False, r1, this)
           | Some (height, r2) \<Rightarrow>
               (case GetSpriteStore this width of
                  None \<Rightarrow> (False, r2, this)
                | Some ss \<Rightarrow>
                    (case LoadSprites (NUM_SLOPE_SPRITES c) 0 r2 sprites (tile_select ss) of
                       (ok, r3, ts) \<Rightarrow> (ok, r3, this\<lparr>store := ss\<lparr>tile_select := ts\<rparr>\<rparr>)))))"

text \<open>
  The \<^verbatim>\<open>switch (type & 0x7FFF)\<close> of \<^verbatim>\<open>LoadPATH\<close>; its \<^verbatim>\<open>default\<close> case, which returns
  \<^verbatim>\<open>false\<close>, is the value \<open>PAT_INVALID\<close> that \<open>pt\<close> is initialised with.
\<close>

definition PATH_path_type :: "uint16 \<Rightarrow> PathType" where
  "PATH_path_type type =
     (if type AND 0x7FFF = 4 then PAT_WOOD
      else if type AND 0x7FFF = 8 then PAT_TILED
      else if type AND 0x7FFF = 12 then PAT_ASPHALT
      else if type AND 0x7FFF = 16 then PAT_CONCRETE
      else PAT_INVALID)"

definition LoadPATH ::
  "Headers \<Rightarrow> RcdFileReader \<Rightarrow> ImageMap \<Rightarrow> SpriteManager \<Rightarrow>
   bool \<times> RcdFileReader \<times> SpriteManager" where
  "LoadPATH c rcd_file sprites this =
     (if version rcd_file \<noteq> 3 \<or>
         size rcd_file \<noteq> word_of_nat (2 + 2 + 2 + 4 * PATH_COUNT c)
      then (False, rcd_file, this)
      else case GetUInt16 rcd_file of
        None \<Rightarrow> (False, rcd_file, this)
      | Some (type, r1) \<Rightarrow>
          let pt = PATH_path_type type
          in if pt = PAT_INVALID then (False, r1, this)
             else case GetUInt16 r1 of
               None \<Rightarrow> (False, r1, this)
             | Some (width, r2) \<Rightarrow>
                 (case GetUInt16 r2 of
                    None \<Rightarrow> (False, r2, this)
                  | Some (height, r3) \<Rightarrow>
                      (case GetSpriteStore this width of
                         None \<Rightarrow> (False, r3, this)
                       | Some ss \<Rightarrow>
                           (case LoadSprites (PATH_COUNT c) 0 r3 sprites
                                   (path_sprites_of (path_sprites ss pt)) of
                              (ok, r4, arr) \<Rightarrow>
                                let path = (path_sprites ss pt)\<lparr>path_sprites_of := arr\<rparr>;
                                    path = (if ok
                                            then path\<lparr>path_status :=
                                              (if type AND 0x8000 \<noteq> 0 then PAS_QUEUE_PATH
                                               else PAS_NORMAL_PATH)\<rparr>
                                            else path)
                                in (ok, r4, this\<lparr>store :=
                                      ss\<lparr>path_sprites := (path_sprites ss)(pt := path)\<rparr>\<rparr>)))))"

text \<open>The counts set up at the end of \<^verbatim>\<open>LoadPDEC\<close>: the number of leading non-null sprites, at most 4.\<close>

definition leading_sprites :: "sprite_array \<Rightarrow> nat" where
  "leading_sprites arr = length (takeWhile (\<lambda>i. arr i \<noteq> None) [0..<4])"

definition LoadPDEC_sprites ::
  "Headers \<Rightarrow> ImageMap \<Rightarrow> RcdFileReader \<Rightarrow> PathDecoration \<Rightarrow>
   bool \<times> RcdFileReader \<times> PathDecoration" where
  "LoadPDEC_sprites c sprites =
     load_all
       [load_into (EDGE_COUNT c) litterbin (\<lambda>a. litterbin_update (\<lambda>_. a)) sprites,
        load_into (EDGE_COUNT c) overflow_bin (\<lambda>a. overflow_bin_update (\<lambda>_. a)) sprites,
        load_into (EDGE_COUNT c) demolished_bin (\<lambda>a. demolished_bin_update (\<lambda>_. a)) sprites,
        load_into (EDGE_COUNT c) lamp_post (\<lambda>a. lamp_post_update (\<lambda>_. a)) sprites,
        load_into (EDGE_COUNT c) demolished_lamp (\<lambda>a. demolished_lamp_update (\<lambda>_. a)) sprites,
        load_into (EDGE_COUNT c) bench (\<lambda>a. bench_update (\<lambda>_. a)) sprites,
        load_into (EDGE_COUNT c) demolished_bench (\<lambda>a. demolished_bench_update (\<lambda>_. a)) sprites,
        load_into 4 flat_litter (\<lambda>a. flat_litter_update (\<lambda>_. a)) sprites,
        load_rows_into (EDGE_COUNT c) 4 ramp_litter (\<lambda>a. ramp_litter_update (\<lambda>_. a)) sprites,
        load_into 4 flat_vomit (\<lambda>a. flat_vomit_update (\<lambda>_. a)) sprites,
        load_rows_into (EDGE_COUNT c) 4 ramp_vomit (\<lambda>a. ramp_vomit_update (\<lambda>_. a)) sprites]"

definition LoadPDEC ::
  "Headers \<Rightarrow> RcdFileReader \<Rightarrow> ImageMap \<Rightarrow> SpriteManager \<Rightarrow>
   bool \<times> RcdFileReader \<times> SpriteManager" where
  "LoadPDEC c rcd_file sprites this =
     (if version rcd_file \<noteq> 1 \<or>
         size rcd_file \<noteq> word_of_nat (2 + 7 * 4 * 4 + 2 * (1 + 4) * 4 * 4)
      then (False, rcd_file, this)
      else case GetUInt16 rcd_file of
        None \<Rightarrow> (False, rcd_file, this)
      | Some (width, r1) \<Rightarrow>
          (case GetSpriteStore this width of
             None \<Rightarrow> (False, r1, this)
           | Some ss \<Rightarrow>
               (case LoadPDEC_sprites c sprites r1 (path_decoration ss) of
                  (ok, r2, pdec) \<Rightarrow>
                    let pdec = (if ok
                                then pdec\<lparr>flat_litter_count := leading_sprites (flat_litter pdec),
                                          ramp_litter_count :=
                                            (\<lambda>edge. if edge < EDGE_COUNT c
                                                     then leading_sprites (ramp_litter pdec edge)
                                                     else ramp_litter_count pdec edge),
                                          flat_vomit_count := leading_sprites (flat_vomit pdec),
                                          ramp_vomit_count :=
                                            (\<lambda>edge. if edge < EDGE_COUNT c
                                                     then leading_sprites (ramp_vomit pdec edge)
                                                     else ramp_vomit_count pdec edge)\<rparr>
                                else pdec)
                    in (ok, r2, this\<lparr>store := ss\<lparr>path_decoration := pdec\<rparr>\<rparr>))))"

definition LoadTCOR ::
  "Headers \<Rightarrow> RcdFileReader \<Rightarrow> ImageMap \<Rightarrow> SpriteManager \<Rightarrow>
   bool \<times> RcdFileReader \<times> SpriteManager" where
  "LoadTCOR c rcd_file sprites this =
     (if version rcd_file \<noteq> 2 \<or>
         size rcd_file \<noteq> word_of_nat (2 + 2 + 4 * VOR_NUM_ORIENT c * NUM_SLOPE_SPRITES c)
      then (False, rcd_file, this)
      else case GetUInt16 rcd_file of
        None \<Rightarrow> (False, rcd_file, this)
      | Some (width, r1) \<Rightarrow>
          (case GetUInt16 r1 of
             None \<Rightarrow> (False, r1, this)
           | Some (height, r2) \<Rightarrow>
               (case GetSpriteStore this width of
                  None \<Rightarrow> (False, r2, this)
                | Some ss \<Rightarrow>
                    (case LoadSpriteRows (VOR_NUM_ORIENT c) 0 (NUM_SLOPE_SPRITES c) r2 sprites
                            (tile_corners ss) of
                       (ok, r3, tc) \<Rightarrow> (ok, r3, this\<lparr>store := ss\<lparr>tile_corners := tc\<rparr>\<rparr>)))))"

definition FUND_type :: "Headers \<Rightarrow> uint16 \<Rightarrow> uint16" where
  "FUND_type c tp =
     (let type = FDT_INVALID c;
          type = (if tp = 16 then FDT_GROUND c else type);
          type = (if tp = 32 then FDT_WOOD c else type);
          type = (if tp = 48 then FDT_BRICK c else type)
      in type)"

definition LoadFUND ::
  "Headers \<Rightarrow> RcdFileReader \<Rightarrow> ImageMap \<Rightarrow> SpriteManager \<Rightarrow>
   bool \<times> RcdFileReader \<times> SpriteManager" where
  "LoadFUND c rcd_file sprites this =
     (if version rcd_file \<noteq> 1 \<or> size rcd_file \<noteq> word_of_nat (2 + 2 + 2 + 4 * 6)
      then (False, rcd_file, this)
      else case GetUInt16 rcd_file of
        None \<Rightarrow> (False, rcd_file, this)
      | Some (tp, r1) \<Rightarrow>
          let type = FUND_type c tp
          in if type = FDT_INVALID c then (False, r1, this)
             else case GetUInt16 r1 of
               None \<Rightarrow> (False, r1, this)
             | Some (width, r2) \<Rightarrow>
                 (case GetUInt16 r2 of
                    None \<Rightarrow> (False, r2, this)
                  | Some (height, r3) \<Rightarrow>
                      (case GetSpriteStore this width of
                         None \<Rightarrow> (False, r3, this)
                       | Some ss \<Rightarrow>
                           if unat type \<ge> FDT_COUNT c then (False, r3, this)
                           else case LoadSprites (FOUNDATION_SPRITES c) 0 r3 sprites
                                       (foundation ss (unat type)) of
                             (ok, r4, fn) \<Rightarrow>
                               (ok, r4, this\<lparr>store :=
                                  ss\<lparr>foundation := (foundation ss)(unat type := fn)\<rparr>\<rparr>))))"

definition LoadPLAT_sprites ::
  "Headers \<Rightarrow> ImageMap \<Rightarrow> RcdFileReader \<Rightarrow> Platform \<Rightarrow> bool \<times> RcdFileReader \<times> Platform" where
  "LoadPLAT_sprites c sprites =
     load_all
       [load_into 2 flat (\<lambda>a. flat_update (\<lambda>_. a)) sprites,
        load_into (PLATFORM_RAMP c) ramp (\<lambda>a. ramp_update (\<lambda>_. a)) sprites,
        load_into (PLATFORM_RIGHT_RAMP c) right_ramp (\<lambda>a. right_ramp_update (\<lambda>_. a)) sprites,
        load_into (PLATFORM_LEFT_RAMP c) left_ramp (\<lambda>a. left_ramp_update (\<lambda>_. a)) sprites]"

definition LoadPLAT ::
  "Headers \<Rightarrow> RcdFileReader \<Rightarrow> ImageMap \<Rightarrow> SpriteManager \<Rightarrow>
   bool \<times> RcdFileReader \<times> SpriteManager" where
  "LoadPLAT c rcd_file sprites this =
     (if version rcd_file \<noteq> 2 \<or>
         size rcd_file \<noteq> word_of_nat (2 + 2 + 2 + 2 * 4 + 12 * 4)
      then (False, rcd_file, this)
      else case GetUInt16 rcd_file of
        None \<Rightarrow> (False, rcd_file, this)
      | Some (width, r1) \<Rightarrow>
          (case GetUInt16 r1 of
             None \<Rightarrow> (False, r1, this)
           | Some (height, r2) \<Rightarrow>
               (case GetUInt16 r2 of
                  None \<Rightarrow> (False, r2, this)
                | Some (type, r3) \<Rightarrow>
                    if type \<noteq> 16 then (False, r3, this)
                    else case GetSpriteStore this width of
                      None \<Rightarrow> (False, r3, this)
                    | Some ss \<Rightarrow>
                        (case LoadPLAT_sprites c sprites r3 (platform ss) of
                           (ok, r4, plat) \<Rightarrow> (ok, r4, this\<lparr>store := ss\<lparr>platform := plat\<rparr>\<rparr>)))))"

definition LoadSUPP ::
  "Headers \<Rightarrow> RcdFileReader \<Rightarrow> ImageMap \<Rightarrow> SpriteManager \<Rightarrow>
   bool \<times> RcdFileReader \<times> SpriteManager" where
  "LoadSUPP c rcd_file sprites this =
     (if version rcd_file \<noteq> 1 \<or> size rcd_file \<noteq> word_of_nat (2 + 2 + 2 + SSP_COUNT c * 4)
      then (False, rcd_file, this)
      else case GetUInt16 rcd_file of
        None \<Rightarrow> (False, rcd_file, this)
      | Some (type, r1) \<Rightarrow>
          if type \<noteq> 16 then (False, r1, this)
          else case GetUInt16 r1 of
            None \<Rightarrow> (False, r1, this)
          | Some (width, r2) \<Rightarrow>
              (case GetUInt16 r2 of
                 None \<Rightarrow> (False, r2, this)
               | Some (height, r3) \<Rightarrow>
                   (case GetSpriteStore this width of
                      None \<Rightarrow> (False, r3, this)
                    | Some ss \<Rightarrow>
                        (case LoadSprites (SSP_COUNT c) 0 r3 sprites (support ss) of
                           (ok, r4, supp) \<Rightarrow> (ok, r4, this\<lparr>store := ss\<lparr>support := supp\<rparr>\<rparr>)))))"

definition LoadBDIR ::
  "Headers \<Rightarrow> RcdFileReader \<Rightarrow> ImageMap \<Rightarrow> SpriteManager \<Rightarrow>
   bool \<times> RcdFileReader \<times> SpriteManager" where
  "LoadBDIR c rcd_file sprites this =
     (if version rcd_file \<noteq> 1 \<or> size rcd_file \<noteq> word_of_nat (2 + 4 * 4)
      then (False, rcd_file, this)
      else case GetUInt16 rcd_file of
        None \<Rightarrow> (False, rcd_file, this)
      | Some (width, r1) \<Rightarrow>
          (case GetSpriteStore this width of
             None \<Rightarrow> (False, r1, this)
           | Some ss \<Rightarrow>
               (case LoadSprites (BUILD_ARROWS c) 0 r1 sprites (build_arrows ss) of
                  (ok, r2, dob) \<Rightarrow> (ok, r2, this\<lparr>store := ss\<lparr>build_arrows := dob\<rparr>\<rparr>))))"


section \<open>Blocks that are decoded into an object of their own\<close>

text \<open>
  \<^verbatim>\<open>Fence::Load\<close>, \<^verbatim>\<open>Animation::Load\<close>, \<^verbatim>\<open>AnimationSprites::Load\<close>, \<^verbatim>\<open>FrameSet::Load\<close> and
  \<^verbatim>\<open>TimedAnimation::Load\<close> fill a freshly constructed object. \<^verbatim>\<open>SpriteManager::Load\<close>
  throws the object away when the result is \<^verbatim>\<open>false\<close>, so the model returns the
  object and the reader on success and \<open>None\<close> otherwise.
\<close>

definition Fence_Load ::
  "Headers \<Rightarrow> RcdFileReader \<Rightarrow> ImageMap \<Rightarrow> (Fence \<times> RcdFileReader) option" where
  "Fence_Load c rcd_file sprites =
     (if version rcd_file \<noteq> 2 \<or> size rcd_file \<noteq> word_of_nat (2 + 2 + 4 * FENCE_COUNT c)
      then None
      else case GetUInt16 rcd_file of
        None \<Rightarrow> None
      | Some (width, r1) \<Rightarrow>
          (case GetUInt16 r1 of
             None \<Rightarrow> None
           | Some (type, r2) \<Rightarrow>
               if unat type \<ge> FENCE_TYPE_COUNT c then None
               else case LoadSprites (FENCE_COUNT c) 0 r2 sprites (\<lambda>_. None) of
                 (ok, r3, arr) \<Rightarrow>
                   if ok
                   then Some (\<lparr>fence_type = type, fence_width = width, fence_sprites = arr\<rparr>, r3)
                   else None))"

definition DecodePersonType :: "byte \<Rightarrow> PersonType" where
  "DecodePersonType pt =
     (if pt = 0 then PERSON_ANY
      else if pt = 8 \<or> pt = 16 then PERSON_GUEST
      else if pt = 17 then PERSON_HANDYMAN
      else if pt = 18 then PERSON_MECHANIC
      else if pt = 19 then PERSON_GUARD
      else if pt = 20 then PERSON_ENTERTAINER
      else PERSON_INVALID)"

text \<open>The loop over the frames of \<^verbatim>\<open>Animation::Load\<close>, with \<open>n\<close> frames left to read.\<close>

fun LoadFrames :: "nat \<Rightarrow> RcdFileReader \<Rightarrow> (AnimationFrame list \<times> RcdFileReader) option" where
  "LoadFrames 0 r = Some ([], r)"
| "LoadFrames (Suc n) r =
     (case GetUInt16 r of
        None \<Rightarrow> None
      | Some (d, r1) \<Rightarrow>
          if d = 0 \<or> d \<ge> 5000 then None
          else case GetInt16 r1 of
            None \<Rightarrow> None
          | Some (x, r2) \<Rightarrow>
              if sint x < -100 \<or> sint x > 100 then None
              else case GetInt16 r2 of
                None \<Rightarrow> None
              | Some (y, r3) \<Rightarrow>
                  if sint y < -100 \<or> sint y > 100 then None
                  else case LoadFrames n r3 of
                    None \<Rightarrow> None
                  | Some (fs, r4) \<Rightarrow>
                      Some (\<lparr>duration = d, dx = sint x, dy = sint y\<rparr> # fs, r4))"

definition Animation_Load ::
  "Headers \<Rightarrow> RcdFileReader \<Rightarrow> (Animation \<times> RcdFileReader) option" where
  "Animation_Load c rcd_file =
     (let BASE_LENGTH = 1 + 2 + 2; length = unat (size rcd_file)
      in if version rcd_file \<noteq> 4 \<or> length < BASE_LENGTH then None
         else case GetUInt8 rcd_file of
           None \<Rightarrow> None
         | Some (pt, r1) \<Rightarrow>
             if DecodePersonType pt = PERSON_INVALID then None
             else case GetUInt16 r1 of
               None \<Rightarrow> None
             | Some (at, r2) \<Rightarrow>
                 if unat at < ANIM_BEGIN c \<or> unat at > ANIM_LAST c then None
                 else case GetUInt16 r2 of
                   None \<Rightarrow> None
                 | Some (fc, r3) \<Rightarrow>
                     if length \<noteq> BASE_LENGTH + unat fc * 6 then None
                     else if fc = 0 then None
                     else case LoadFrames (unat fc) r3 of
                       None \<Rightarrow> None
                     | Some (fs, r4) \<Rightarrow>
                         Some (\<lparr>frame_count = fc, person_type = DecodePersonType pt,
                                 anim_type = unat at, frames = fs\<rparr>, r4))"

definition AnimationSprites_Load ::
  "Headers \<Rightarrow> RcdFileReader \<Rightarrow> ImageMap \<Rightarrow> (AnimationSprites \<times> RcdFileReader) option" where
  "AnimationSprites_Load c rcd_file sprites =
     (let BASE_LENGTH = 2 + 1 + 2 + 2; length = unat (size rcd_file)
      in if version rcd_file \<noteq> 3 \<or> length < BASE_LENGTH then None
         else case GetUInt16 rcd_file of
           None \<Rightarrow> None
         | Some (width, r0) \<Rightarrow>
            (case GetUInt8 r0 of
               None \<Rightarrow> None
             | Some (pt, r1) \<Rightarrow>
                 if DecodePersonType pt = PERSON_INVALID then None
                 else case GetUInt16 r1 of
                   None \<Rightarrow> None
                 | Some (at, r2) \<Rightarrow>
                     if unat at < ANIM_BEGIN c \<or> unat at > ANIM_LAST c then None
                     else case GetUInt16 r2 of
                       None \<Rightarrow> None
                     | Some (fc, r3) \<Rightarrow>
                         if length \<noteq> BASE_LENGTH + unat fc * 4 then None
                         else if fc = 0 then None
                         else case LoadSprites (unat fc) 0 r3 sprites (\<lambda>_. None) of
                           (ok, r4, arr) \<Rightarrow>
                             if ok
                             then Some (\<lparr>ansp_width = width, ansp_frame_count = fc,
                                          ansp_person_type = DecodePersonType pt,
                                          ansp_anim_type = unat at, ansp_sprites = arr\<rparr>, r4)
                             else None))"

text \<open>
  \<^verbatim>\<open>FrameSet::Load\<close>. For each of the 4 views the loops over \<open>x\<close> and \<open>y\<close> fill the
  entries \<open>x * width_y + y\<close>, that is the entries \<open>0, 1, ...\<close> in this order. A frame
  set of a width other than 64 reads its sprites and stores none: its arrays stay as
  \<^verbatim>\<open>new\<close> left them, which the model leaves unspecified.
\<close>

definition FrameSet_Load ::
  "RcdFileReader \<Rightarrow> ImageMap \<Rightarrow> (FrameSet \<times> RcdFileReader) option" where
  "FrameSet_Load rcd_file sprites =
     (if version rcd_file \<noteq> 1 \<or> size rcd_file < 4 then None
      else case GetUInt16 rcd_file of
        None \<Rightarrow> None
      | Some (width, r1) \<Rightarrow>
          (case GetUInt8 r1 of
             None \<Rightarrow> None
           | Some (wx, r2) \<Rightarrow>
               (case GetUInt8 r2 of
                  None \<Rightarrow> None
                | Some (wy, r3) \<Rightarrow>
                    if sint (size rcd_file) \<noteq> 4 + 16 * int (unat wx) * int (unat wy) then None
                    else case LoadSpriteRows 4 0 (unat wx * unat wy) r3 sprites (\<lambda>_ _. None) of
                      (ok, r4, arr) \<Rightarrow>
                        if ok
                        then Some (\<lparr>fset_width = width, width_x = wx, width_y = wy,
                                     fset_sprites = (if width = 64 then arr else undefined)\<rparr>, r4)
                        else None)))"

fun GetUInt32s :: "nat \<Rightarrow> RcdFileReader \<Rightarrow> (uint32 list \<times> RcdFileReader) option" where
  "GetUInt32s 0 r = Some ([], r)"
| "GetUInt32s (Suc n) r =
     (case GetUInt32 r of
        None \<Rightarrow> None
      | Some (v, r1) \<Rightarrow>
          (case GetUInt32s n r1 of None \<Rightarrow> None | Some (vs, r2) \<Rightarrow> Some (v # vs, r2)))"

text \<open>\<^verbatim>\<open>SpriteManager::GetFrameSet\<close>.\<close>

definition GetFrameSet :: "SpriteManager \<Rightarrow> ImageSetKey \<Rightarrow> FrameSet option" where
  "GetFrameSet this key = frame_sets (store this) key"

text \<open>
  \<^verbatim>\<open>TimedAnimation::Load\<close>. The number of frames is kept in an \<^verbatim>\<open>int\<close>. The size check
  \<^verbatim>\<open>static_cast<int>(size) != 4 + 8 * frames\<close> is computed in \<^verbatim>\<open>int\<close>, where the product
  and the sum wrap around. For a negative number of frames \<^verbatim>\<open>new int[frames]\<close> throws
  an exception that nothing catches, and the program stops (\<open>TimaThrown\<close>).
\<close>

datatype TimedAnimation_result =
  TimaLoaded TimedAnimation RcdFileReader | TimaFailed | TimaThrown

definition TimedAnimation_Load ::
  "RcdFileReader \<Rightarrow> ImageMap \<Rightarrow> SpriteManager \<Rightarrow> TimedAnimation_result" where
  "TimedAnimation_Load rcd_file sprites sprite_manager =
     (if version rcd_file \<noteq> 1 \<or> size rcd_file < 4 then TimaFailed
      else case GetUInt32 rcd_file of
        None \<Rightarrow> TimaFailed
      | Some (n, r1) \<Rightarrow>
          if sint (size rcd_file) \<noteq> sint (4 + 8 * n) then TimaFailed
          else if sint n < 0 then TimaThrown
          else case GetUInt32s (unat n) r1 of
            None \<Rightarrow> TimaFailed
          | Some (ds, r2) \<Rightarrow>
              (case GetUInt32s (unat n) r2 of
                 None \<Rightarrow> TimaFailed
               | Some (ids, r3) \<Rightarrow>
                   TimaLoaded
                     \<lparr>tima_frames = n, durations = ds,
                      views = map (\<lambda>i. GetFrameSet sprite_manager (filename rcd_file, i)) ids\<rparr>
                     r3))"


section \<open>The TEXT block decoder\<close>

text \<open>
  The result of a step of the text decoder: it succeeded with a value, it returned
  \<^verbatim>\<open>false\<close>, it would write outside a fixed-size array (undefined behaviour in C++),
  or one of its \<^verbatim>\<open>assert\<close>s would fail.
\<close>

datatype 'a outcome = Success 'a | Failure | OutOfBounds | AssertionFailed

text \<open>
  \<^verbatim>\<open>DecodeUtf8Char\<close> (in \<^verbatim>\<open>string_func.cpp\<close>) and \<^verbatim>\<open>GetLanguageIndex\<close> (in
  \<^verbatim>\<open>language.cpp\<close>) are not among the sources; they are parameters of the decoder.
  \<^verbatim>\<open>DecodeUtf8Char(start, real_size, &code_point)\<close> is given the bytes from \<^verbatim>\<open>start\<close>
  to the end of the text and returns the number of bytes of the first character (0
  when it cannot decode one) and its code point. \<^verbatim>\<open>GetLanguageIndex\<close> is given the
  language name and returns its index, negative for an unknown language.
\<close>

definition on_success :: "'a outcome \<Rightarrow> ('a \<Rightarrow> 'b outcome) \<Rightarrow> 'b outcome" where
  "on_success m f =
     (case m of
        Success x \<Rightarrow> f x
      | Failure \<Rightarrow> Failure
      | OutOfBounds \<Rightarrow> OutOfBounds
      | AssertionFailed \<Rightarrow> AssertionFailed)"

type_synonym utf8_decoder = "byte list \<Rightarrow> nat \<times> uint32"
type_synonym language_index = "byte list \<Rightarrow> int"

text \<open>
  The loop of \<^verbatim>\<open>ReadUtf8Text\<close> over the characters of the text: \<open>None\<close> when it
  returns \<^verbatim>\<open>false\<close>, otherwise \<^verbatim>\<open>real_size\<close> at the \<^verbatim>\<open>break\<close>.
\<close>

function Utf8Loop :: "utf8_decoder \<Rightarrow> byte list \<Rightarrow> nat option" where
  "Utf8Loop DecodeUtf8Char start =
     (case DecodeUtf8Char start of
        (sz, code_point) \<Rightarrow>
          if sz = 0 \<or> sz > length start then None
          else if code_point = 0 then Some (length start - sz)
          else Utf8Loop DecodeUtf8Char (drop sz start))"
  by pat_completeness auto
termination
  by (relation "measure (\<lambda>(d, start). length start)") auto

declare Utf8Loop.simps [simp del]

text \<open>
  \<^verbatim>\<open>ReadUtf8Text\<close>. The array \<^verbatim>\<open>buffer\<close> is given by its first \<^verbatim>\<open>*used_size\<close> bytes and
  by the number of bytes the array has room for (\<open>capacity\<close>); \<^verbatim>\<open>buf_length\<close> is the
  length the caller states. On success the buffer holds the bytes read after the
  ones it held, and \<^verbatim>\<open>*used_size\<close> has grown by \<^verbatim>\<open>expected_length\<close>.
\<close>

definition ReadUtf8Text ::
  "utf8_decoder \<Rightarrow> RcdFileReader \<Rightarrow> nat \<Rightarrow> byte list \<Rightarrow> nat \<Rightarrow> nat \<Rightarrow>
   (byte list \<times> RcdFileReader) outcome" where
  "ReadUtf8Text DecodeUtf8Char rcd_file expected_length buffer capacity buf_length =
     (if buf_length < length buffer + expected_length then Failure
      else if capacity < length buffer + expected_length then OutOfBounds
      else case GetBlob rcd_file expected_length of
        None \<Rightarrow> Failure
      | Some (text, r) \<Rightarrow>
          (case Utf8Loop DecodeUtf8Char text of
             None \<Rightarrow> Failure
           | Some real_size \<Rightarrow>
               if real_size \<noteq> 0 then Failure else Success (buffer @ text, r)))"

definition MAX_NUM_TEXT_STRINGS :: nat where
  "MAX_NUM_TEXT_STRINGS = 512"

text \<open>The sizes of the arrays \<^verbatim>\<open>buffer\<close> and \<^verbatim>\<open>lang_buffer\<close> of \<^verbatim>\<open>TextData::Load\<close>.\<close>

definition BUFFER_SIZE :: nat where
  "BUFFER_SIZE = 64 * 1024"

definition LANG_BUFFER_SIZE :: nat where
  "LANG_BUFFER_SIZE = 1000"

lemma GetUInt8_length:
  "GetUInt8 r = Some (v, r') \<Longrightarrow> length (fp r') < length (fp r)"
  by (auto simp: GetUInt8_def split: list.splits)

lemma GetUInt16_length:
  "GetUInt16 r = Some (v, r') \<Longrightarrow> length (fp r') < length (fp r)"
  by (auto simp: GetUInt16_def split: list.splits)

lemma GetUInt32_length:
  "GetUInt32 r = Some (v, r') \<Longrightarrow> length (fp r') < length (fp r)"
  by (auto simp: GetUInt32_def split: list.splits)

lemma GetBlob_length:
  "GetBlob r n = Some (bs, r') \<Longrightarrow> length (fp r') \<le> length (fp r)"
  by (auto simp: GetBlob_def split: if_splits)

lemma ReadUtf8Text_length:
  "ReadUtf8Text D r n buffer capacity buf_length = Success (buffer', r') \<Longrightarrow>
   length (fp r') \<le> length (fp r)"
  by (auto simp: ReadUtf8Text_def dest: GetBlob_length split: if_splits option.splits)

text \<open>
  One iteration of the inner loop of \<^verbatim>\<open>TextData::Load\<close>, which reads one
  translation. \<open>length'\<close> is the \<^verbatim>\<open>uint32\<close> count of bytes left in the block,
  \<open>trs_length\<close> the \<^verbatim>\<open>int\<close> count of bytes left in the string, \<open>buffer\<close> the used part
  of the text buffer and \<open>str\<close> the entry \<^verbatim>\<open>strings[used_strings]\<close>. A pointer into
  the buffer is the offset it points to. The iteration returns the variables as it
  leaves them.
\<close>

definition LoadTranslation ::
  "utf8_decoder \<Rightarrow> language_index \<Rightarrow> RcdFileReader \<Rightarrow> uint32 \<Rightarrow> int \<Rightarrow> byte list \<Rightarrow>
   TextString \<Rightarrow> (RcdFileReader \<times> uint32 \<times> int \<times> byte list \<times> TextString) outcome" where
  "LoadTranslation D GetLanguageIndex rcd_file length' trs_length buffer str =
     (if length' < 3 then Failure
      else case GetUInt16 rcd_file of
        None \<Rightarrow> Failure
      | Some (tr_length, r1) \<Rightarrow>
          (case GetUInt8 r1 of
             None \<Rightarrow> Failure
           | Some (lang_length, r2) \<Rightarrow>
               if int (unat tr_length) > trs_length then Failure
               else if unat lang_length + 2 + 1 \<ge> unat tr_length then Failure
               else
                 let text_length = unat tr_length - (unat lang_length + 2 + 1)
                 in on_success
                      (ReadUtf8Text D r2 (unat lang_length) [] LANG_BUFFER_SIZE LANG_BUFFER_SIZE)
                      (\<lambda>(lang_buffer, r3).
                         let lang_idx = GetLanguageIndex lang_buffer
                         in on_success
                              (if lang_idx \<ge> 0
                               then on_success
                                      (ReadUtf8Text D r3 text_length buffer BUFFER_SIZE BUFFER_SIZE)
                                      (\<lambda>(buffer', r4).
                                         Success (r4, buffer',
                                           str\<lparr>languages :=
                                             (languages str)(nat lang_idx \<mapsto> length buffer)\<rparr>))
                               else on_success
                                      (ReadUtf8Text D r3 text_length [] LANG_BUFFER_SIZE
                                         LANG_BUFFER_SIZE)
                                      (\<lambda>(dummy, r4). Success (r4, buffer, str)))
                              (\<lambda>(r4, buffer', str').
                                 Success (r4,
                                   length' - 3 - ucast lang_length - word_of_nat text_length,
                                   trs_length - int (3 + unat lang_length + text_length),
                                   buffer', str')))))"

lemma on_success_Success:
  "on_success m f = Success y \<longleftrightarrow> (\<exists>x. m = Success x \<and> f x = Success y)"
  by (cases m) (simp_all add: on_success_def)

lemma LoadTranslation_length:
  "LoadTranslation D G r len trs buffer str = Success (r', len', trs', buffer', str') \<Longrightarrow>
   length (fp r') < length (fp r)"
  by (auto simp: LoadTranslation_def Let_def on_success_Success
      split: if_splits option.splits
      dest!: GetUInt16_length GetUInt8_length ReadUtf8Text_length)

text \<open>The inner loop: \<^verbatim>\<open>while (trs_length > 0) { ... } assert(trs_length == 0);\<close>\<close>

function LoadTranslations ::
  "utf8_decoder \<Rightarrow> language_index \<Rightarrow> RcdFileReader \<Rightarrow> uint32 \<Rightarrow> int \<Rightarrow> byte list \<Rightarrow>
   TextString \<Rightarrow> (RcdFileReader \<times> uint32 \<times> byte list \<times> TextString) outcome" where
  "LoadTranslations D GetLanguageIndex rcd_file length' trs_length buffer str =
     (if trs_length > 0 then
        case LoadTranslation D GetLanguageIndex rcd_file length' trs_length buffer str of
          Success (r, len, trs, buffer', str') \<Rightarrow>
            LoadTranslations D GetLanguageIndex r len trs buffer' str'
        | Failure \<Rightarrow> Failure
        | OutOfBounds \<Rightarrow> OutOfBounds
        | AssertionFailed \<Rightarrow> AssertionFailed
      else if trs_length = 0 then Success (rcd_file, length', buffer, str)
      else AssertionFailed)"
  by pat_completeness auto
termination
  by (relation "measure (\<lambda>(D, G, r, len, trs, buffer, str). length (fp r))")
    (auto dest!: LoadTranslation_length)

declare LoadTranslations.simps [simp del]

lemma LoadTranslations_length:
  "LoadTranslations D G r len trs buffer str = Success (r', len', buffer', str') \<Longrightarrow>
   length (fp r') \<le> length (fp r)"
proof (induction D G r len trs buffer str rule: LoadTranslations.induct)
  case (1 D G r len trs buffer str)
  show ?case
  proof (cases "trs > 0")
    case False
    with "1.prems" show ?thesis
      by (simp add: LoadTranslations.simps [of D G r] split: if_splits)
  next
    case True
    with "1.prems" obtain r1 len1 trs1 b1 s1 where
      step: "LoadTranslation D G r len trs buffer str = Success (r1, len1, trs1, b1, s1)"
      and rest: "LoadTranslations D G r1 len1 trs1 b1 s1 = Success (r', len', buffer', str')"
      by (auto simp: LoadTranslations.simps [of D G r] split: outcome.splits)
    from "1.IH" [OF True step refl refl refl refl rest] LoadTranslation_length [OF step]
    show ?thesis by simp
  qed
qed

text \<open>
  One iteration of the outer loop of \<^verbatim>\<open>TextData::Load\<close>, which reads one string with
  its translations. \<open>strings'\<close> holds the entries \<^verbatim>\<open>strings[0] ...
  strings[used_strings - 1]\<close>, so \<^verbatim>\<open>used_strings\<close> is its length; the array has room for
  \<open>MAX_NUM_TEXT_STRINGS\<close> entries.
\<close>

definition LoadString ::
  "utf8_decoder \<Rightarrow> language_index \<Rightarrow> RcdFileReader \<Rightarrow> uint32 \<Rightarrow> byte list \<Rightarrow>
   TextString list \<Rightarrow> (RcdFileReader \<times> uint32 \<times> byte list \<times> TextString list) outcome" where
  "LoadString D GetLanguageIndex rcd_file length' buffer strings' =
     (if length strings' \<ge> MAX_NUM_TEXT_STRINGS then Failure
      else if length' < 3 then Failure
      else case GetUInt16 rcd_file of
        None \<Rightarrow> Failure
      | Some (str_length, r1) \<Rightarrow>
          (case GetUInt8 r1 of
             None \<Rightarrow> Failure
           | Some (ident_length, r2) \<Rightarrow>
               if ucast str_length > length' then Failure
               else if unat ident_length + 2 + 1 \<ge> unat str_length then Failure
               else
                 let trs_length = int (unat str_length) - int (unat ident_length + 2 + 1)
                 in if MAX_NUM_TEXT_STRINGS \<le> length strings' then OutOfBounds
                    else on_success
                      (ReadUtf8Text D r2 (unat ident_length) buffer BUFFER_SIZE BUFFER_SIZE)
                      (\<lambda>(buffer', r3).
                         on_success
                           (LoadTranslations D GetLanguageIndex r3
                              (length' - 3 - ucast ident_length) trs_length buffer'
                              \<lparr>str_name = Some (length buffer), languages = Map.empty\<rparr>)
                           (\<lambda>(r4, length'', buffer'', str).
                              Success (r4, length'', buffer'', strings' @ [str])))))"

lemma LoadString_length:
  "LoadString D G r len buffer strs = Success (r', len', buffer', strs') \<Longrightarrow>
   length (fp r') < length (fp r)"
  by (auto simp: LoadString_def Let_def on_success_Success
      split: if_splits option.splits
      dest!: GetUInt16_length GetUInt8_length ReadUtf8Text_length LoadTranslations_length)

text \<open>The outer loop: \<^verbatim>\<open>while (length > 0) { ... } assert(length == 0);\<close>\<close>

function LoadStrings ::
  "utf8_decoder \<Rightarrow> language_index \<Rightarrow> RcdFileReader \<Rightarrow> uint32 \<Rightarrow> byte list \<Rightarrow>
   TextString list \<Rightarrow> (RcdFileReader \<times> byte list \<times> TextString list) outcome" where
  "LoadStrings D GetLanguageIndex rcd_file length' buffer strings' =
     (if length' > 0 then
        case LoadString D GetLanguageIndex rcd_file length' buffer strings' of
          Success (r, len, buffer', strings'') \<Rightarrow>
            LoadStrings D GetLanguageIndex r len buffer' strings''
        | Failure \<Rightarrow> Failure
        | OutOfBounds \<Rightarrow> OutOfBounds
        | AssertionFailed \<Rightarrow> AssertionFailed
      else if length' = 0 then Success (rcd_file, buffer, strings')
      else AssertionFailed)"
  by pat_completeness auto
termination
  by (relation "measure (\<lambda>(D, G, r, len, buffer, strs). length (fp r))")
    (auto dest!: LoadString_length)

declare LoadStrings.simps [simp del]

text \<open>
  \<^verbatim>\<open>TextData::Load\<close>. After the loops the strings and the used part of the buffer are
  copied into the object, every pointer keeping its offset.
\<close>

definition TextData_Load ::
  "utf8_decoder \<Rightarrow> language_index \<Rightarrow> RcdFileReader \<Rightarrow> (TextData \<times> RcdFileReader) outcome" where
  "TextData_Load D GetLanguageIndex rcd_file =
     (if version rcd_file \<noteq> 2 then Failure
      else on_success (LoadStrings D GetLanguageIndex rcd_file (size rcd_file) [] [])
             (\<lambda>(r, buffer, used).
                Success (\<lparr>strings = used, string_count = length used, text_data = buffer\<rparr>, r)))"


section \<open>The GUI sprites\<close>

text \<open>
  The classes \<^verbatim>\<open>BorderSpriteData\<close>, \<^verbatim>\<open>CheckableWidgetSpriteData\<close>, \<^verbatim>\<open>SliderSpriteData\<close>,
  \<^verbatim>\<open>ScrollbarSpriteData\<close> and \<^verbatim>\<open>GuiSprites\<close> with the members that the loaders of
  \<^verbatim>\<open>sprite_store.cpp\<close> write. The members \<^verbatim>\<open>normal\<close>, \<^verbatim>\<open>pressed\<close>, \<^verbatim>\<open>shaded\<close>, \<^verbatim>\<open>sprites\<close>,
  \<^verbatim>\<open>width\<close>, \<^verbatim>\<open>height\<close> and \<^verbatim>\<open>stepsize\<close> carry the initials of their class, and the member
  \<^verbatim>\<open>text\<close> of \<^verbatim>\<open>GuiSprites\<close> is \<open>gui_text\<close>.
\<close>

record BorderSpriteData =
  border_top :: byte
  border_left :: byte
  border_right :: byte
  border_bottom :: byte
  min_width :: byte
  min_height :: byte
  hor_stepsize :: byte
  vert_stepsize :: byte
  bsd_normal :: sprite_array
  bsd_pressed :: sprite_array

record CheckableWidgetSpriteData =
  cws_width :: uint16
  cws_height :: uint16
  cws_sprites :: sprite_array

record SliderSpriteData =
  min_bar_length :: byte
  ssd_stepsize :: byte
  ssd_height :: byte
  ssd_normal :: sprite_array
  ssd_shaded :: sprite_array

record ScrollbarSpriteData =
  min_length_all :: byte
  min_length_slider :: byte
  stepsize_bar :: byte
  stepsize_slider :: byte
  scr_height :: uint16
  scr_normal :: sprite_array
  scr_shaded :: sprite_array

record GuiSprites =
  titlebar :: BorderSpriteData
  button :: BorderSpriteData
  left_tabbar :: BorderSpriteData
  tab_tabbar :: BorderSpriteData
  right_tabbar :: BorderSpriteData
  tabbar_panel :: BorderSpriteData
  panel :: BorderSpriteData
  checkbox :: CheckableWidgetSpriteData
  radio_button :: CheckableWidgetSpriteData
  hor_slider :: SliderSpriteData
  vert_slider :: SliderSpriteData
  hor_scroll :: ScrollbarSpriteData
  vert_scroll :: ScrollbarSpriteData
  slope_select :: sprite_array
  bend_select :: sprite_array
  bank_select :: sprite_array
  triangle_left :: ImageData_ptr
  triangle_right :: ImageData_ptr
  triangle_up :: ImageData_ptr
  triangle_down :: ImageData_ptr
  platform_select :: sprite_array
  power_select :: sprite_array
  disabled :: ImageData_ptr
  compass :: sprite_array
  bulldozer :: ImageData_ptr
  weather :: sprite_array
  lights_rog :: sprite_array
  lights_rg :: sprite_array
  rot_2d_pos :: ImageData_ptr
  rot_2d_neg :: ImageData_ptr
  rot_3d_pos :: ImageData_ptr
  rot_3d_neg :: ImageData_ptr
  close_sprite :: ImageData_ptr
  dot_sprite :: ImageData_ptr
  message_goto :: ImageData_ptr
  message_park :: ImageData_ptr
  message_guest :: ImageData_ptr
  message_ride :: ImageData_ptr
  message_ride_type :: ImageData_ptr
  toolbar_images :: sprite_array
  gui_text :: TextData_ptr
  mainmenu_splash_duration :: uint32
  mainmenu_logo :: ImageData_ptr
  mainmenu_splash :: ImageData_ptr
  mainmenu_new :: ImageData_ptr
  mainmenu_load :: ImageData_ptr
  mainmenu_settings :: ImageData_ptr
  mainmenu_quit :: ImageData_ptr

text \<open>
  Steps of a loader that read one value and store it in a member of the object
  being filled: \<^verbatim>\<open>obj->member = rcd_file->GetUInt8();\<close>, the same with \<^verbatim>\<open>GetUInt32\<close>,
  \<^verbatim>\<open>if (!LoadSpriteFromFile(rcd_file, sprites, &obj->member)) return false;\<close> and the
  same with \<^verbatim>\<open>LoadTextFromFile\<close>. \<open>put\<close> is the assignment to the member.
\<close>

definition load_u8 ::
  "(byte \<Rightarrow> 's \<Rightarrow> 's) \<Rightarrow> RcdFileReader \<Rightarrow> 's \<Rightarrow> bool \<times> RcdFileReader \<times> 's" where
  "load_u8 put r s =
     (case GetUInt8 r of None \<Rightarrow> (False, r, s) | Some (v, r') \<Rightarrow> (True, r', put v s))"

definition load_u32 ::
  "(uint32 \<Rightarrow> 's \<Rightarrow> 's) \<Rightarrow> RcdFileReader \<Rightarrow> 's \<Rightarrow> bool \<times> RcdFileReader \<times> 's" where
  "load_u32 put r s =
     (case GetUInt32 r of None \<Rightarrow> (False, r, s) | Some (v, r') \<Rightarrow> (True, r', put v s))"

definition load_sprite ::
  "(ImageData_ptr \<Rightarrow> 's \<Rightarrow> 's) \<Rightarrow> ImageMap \<Rightarrow> RcdFileReader \<Rightarrow> 's \<Rightarrow>
   bool \<times> RcdFileReader \<times> 's" where
  "load_sprite put sprites r s =
     (case LoadSpriteFromFile r sprites of
        None \<Rightarrow> (False, r, s)
      | Some (spr, r') \<Rightarrow> (True, r', put spr s))"

definition load_text ::
  "(TextData_ptr \<Rightarrow> 's \<Rightarrow> 's) \<Rightarrow> TextMap \<Rightarrow> RcdFileReader \<Rightarrow> 's \<Rightarrow>
   bool \<times> RcdFileReader \<times> 's" where
  "load_text put texts r s =
     (case LoadTextFromFile r texts of
        None \<Rightarrow> (False, r, s)
      | Some (t, r') \<Rightarrow> (True, r', put t s))"

text \<open>
  The \<^verbatim>\<open>switch (tp)\<close> of \<^verbatim>\<open>LoadGBOR\<close>: the object that \<^verbatim>\<open>sprdata\<close> points to, given by
  the member of \<^verbatim>\<open>GuiSprites\<close> and the assignment to it, and \<^verbatim>\<open>pressed\<close>; \<open>None\<close> in
  the \<^verbatim>\<open>default\<close> case.
\<close>

definition GBOR_sprdata ::
  "uint16 \<Rightarrow> ((GuiSprites \<Rightarrow> BorderSpriteData) \<times>
              (BorderSpriteData \<Rightarrow> GuiSprites \<Rightarrow> GuiSprites) \<times> bool) option" where
  "GBOR_sprdata tp =
     (if tp = 1 then Some (left_tabbar, \<lambda>d. left_tabbar_update (\<lambda>_. d), False)
      else if tp = 2 then Some (tab_tabbar, \<lambda>d. tab_tabbar_update (\<lambda>_. d), True)
      else if tp = 3 then Some (tab_tabbar, \<lambda>d. tab_tabbar_update (\<lambda>_. d), False)
      else if tp = 4 then Some (right_tabbar, \<lambda>d. right_tabbar_update (\<lambda>_. d), False)
      else if tp = 5 then Some (tabbar_panel, \<lambda>d. tabbar_panel_update (\<lambda>_. d), False)
      else if tp = 6 then Some (titlebar, \<lambda>d. titlebar_update (\<lambda>_. d), False)
      else if tp = 7 then Some (button, \<lambda>d. button_update (\<lambda>_. d), False)
      else if tp = 8 then Some (button, \<lambda>d. button_update (\<lambda>_. d), True)
      else if tp = 9 then Some (panel, \<lambda>d. panel_update (\<lambda>_. d), False)
      else None)"

text \<open>
  The statements of \<^verbatim>\<open>LoadGBOR\<close> after the \<^verbatim>\<open>switch\<close>, on the object that \<^verbatim>\<open>sprdata\<close>
  points to.
\<close>

definition LoadGBOR_sprdata ::
  "Headers \<Rightarrow> bool \<Rightarrow> ImageMap \<Rightarrow> RcdFileReader \<Rightarrow> BorderSpriteData \<Rightarrow>
   bool \<times> RcdFileReader \<times> BorderSpriteData" where
  "LoadGBOR_sprdata c is_pressed sprites =
     load_all
       [load_u8 (\<lambda>v. border_top_update (\<lambda>_. v)),
        load_u8 (\<lambda>v. border_left_update (\<lambda>_. v)),
        load_u8 (\<lambda>v. border_right_update (\<lambda>_. v)),
        load_u8 (\<lambda>v. border_bottom_update (\<lambda>_. v)),
        load_u8 (\<lambda>v. min_width_update (\<lambda>_. v)),
        load_u8 (\<lambda>v. min_height_update (\<lambda>_. v)),
        load_u8 (\<lambda>v. hor_stepsize_update (\<lambda>_. v)),
        load_u8 (\<lambda>v. vert_stepsize_update (\<lambda>_. v)),
        if is_pressed
        then load_into (WBS_COUNT c) bsd_pressed (\<lambda>a. bsd_pressed_update (\<lambda>_. a)) sprites
        else load_into (WBS_COUNT c) bsd_normal (\<lambda>a. bsd_normal_update (\<lambda>_. a)) sprites]"

definition LoadGBOR ::
  "Headers \<Rightarrow> RcdFileReader \<Rightarrow> ImageMap \<Rightarrow> GuiSprites \<Rightarrow> bool \<times> RcdFileReader \<times> GuiSprites" where
  "LoadGBOR c rcd_file sprites gui =
     (if version rcd_file \<noteq> 2 \<or> size rcd_file \<noteq> word_of_nat (2 + 8 * 1 + WBS_COUNT c * 4)
      then (False, rcd_file, gui)
      else case GetUInt16 rcd_file of
        None \<Rightarrow> (False, rcd_file, gui)
      | Some (tp, r1) \<Rightarrow>
          (case GBOR_sprdata tp of
             None \<Rightarrow> (False, r1, gui)
           | Some (get, put, is_pressed) \<Rightarrow>
               (case LoadGBOR_sprdata c is_pressed sprites r1 (get gui) of
                  (ok, r2, sprdata) \<Rightarrow> (ok, r2, put sprdata gui))))"

text \<open>
  \<^verbatim>\<open>LoadGCHK\<close>. \<^verbatim>\<open>ImageData\<close> is declared in a header that is not among the sources;
  the members \<^verbatim>\<open>width\<close> and \<^verbatim>\<open>height\<close> of the image at an address are the parameters
  \<open>img_width\<close> and \<open>img_height\<close>. \<open>GCHK_store\<close> is the body of the loop after
  \<^verbatim>\<open>LoadSpriteFromFile\<close> has returned \<^verbatim>\<open>true\<close>.
\<close>

definition GCHK_sprdata ::
  "uint16 \<Rightarrow> ((GuiSprites \<Rightarrow> CheckableWidgetSpriteData) \<times>
              (CheckableWidgetSpriteData \<Rightarrow> GuiSprites \<Rightarrow> GuiSprites)) option" where
  "GCHK_sprdata tp =
     (if tp = 96 then Some (checkbox, \<lambda>d. checkbox_update (\<lambda>_. d))
      else if tp = 112 then Some (radio_button, \<lambda>d. radio_button_update (\<lambda>_. d))
      else None)"

definition GCHK_store ::
  "(nat \<Rightarrow> uint16) \<Rightarrow> (nat \<Rightarrow> uint16) \<Rightarrow> nat \<Rightarrow> ImageData_ptr \<Rightarrow>
   CheckableWidgetSpriteData \<Rightarrow> CheckableWidgetSpriteData" where
  "GCHK_store img_width img_height sprnum spr sprdata =
     (let sprdata = sprdata\<lparr>cws_sprites := (cws_sprites sprdata)(sprnum := spr)\<rparr>
      in case spr of
           None \<Rightarrow> sprdata
         | Some a \<Rightarrow>
             sprdata\<lparr>cws_width := max (cws_width sprdata) (img_width a),
                     cws_height := max (cws_height sprdata) (img_height a)\<rparr>)"

definition LoadGCHK ::
  "Headers \<Rightarrow> (nat \<Rightarrow> uint16) \<Rightarrow> (nat \<Rightarrow> uint16) \<Rightarrow> RcdFileReader \<Rightarrow> ImageMap \<Rightarrow> GuiSprites \<Rightarrow>
   bool \<times> RcdFileReader \<times> GuiSprites" where
  "LoadGCHK c img_width img_height rcd_file sprites gui =
     (if version rcd_file \<noteq> 1 \<or> size rcd_file \<noteq> word_of_nat (2 + WCS_COUNT c * 4)
      then (False, rcd_file, gui)
      else case GetUInt16 rcd_file of
        None \<Rightarrow> (False, rcd_file, gui)
      | Some (tp, r1) \<Rightarrow>
          (case GCHK_sprdata tp of
             None \<Rightarrow> (False, r1, gui)
           | Some (get, put) \<Rightarrow>
               (case load_all
                       (map (\<lambda>sprnum. load_sprite (GCHK_store img_width img_height sprnum) sprites)
                          [0..<WCS_COUNT c])
                       r1 ((get gui)\<lparr>cws_width := 0, cws_height := 0\<rparr>) of
                  (ok, r2, sprdata) \<Rightarrow> (ok, r2, put sprdata gui))))"

text \<open>
  \<^verbatim>\<open>LoadGSLI\<close>: the three bytes and the widget type are read into local variables
  before anything is stored.
\<close>

definition GSLI_sprdata ::
  "uint16 \<Rightarrow> ((GuiSprites \<Rightarrow> SliderSpriteData) \<times>
              (SliderSpriteData \<Rightarrow> GuiSprites \<Rightarrow> GuiSprites) \<times> bool) option" where
  "GSLI_sprdata tp =
     (if tp = 128 then Some (hor_slider, \<lambda>d. hor_slider_update (\<lambda>_. d), False)
      else if tp = 129 then Some (hor_slider, \<lambda>d. hor_slider_update (\<lambda>_. d), True)
      else if tp = 144 then Some (vert_slider, \<lambda>d. vert_slider_update (\<lambda>_. d), False)
      else if tp = 145 then Some (vert_slider, \<lambda>d. vert_slider_update (\<lambda>_. d), True)
      else None)"

definition LoadGSLI ::
  "Headers \<Rightarrow> RcdFileReader \<Rightarrow> ImageMap \<Rightarrow> GuiSprites \<Rightarrow> bool \<times> RcdFileReader \<times> GuiSprites" where
  "LoadGSLI c rcd_file sprites gui =
     (if version rcd_file \<noteq> 1 \<or> size rcd_file \<noteq> word_of_nat (3 * 1 + 2 + WSS_COUNT c * 4)
      then (False, rcd_file, gui)
      else case GetUInt8 rcd_file of
        None \<Rightarrow> (False, rcd_file, gui)
      | Some (min_length, r1) \<Rightarrow>
      (case GetUInt8 r1 of
        None \<Rightarrow> (False, r1, gui)
      | Some (stepsize, r2) \<Rightarrow>
      (case GetUInt8 r2 of
        None \<Rightarrow> (False, r2, gui)
      | Some (height, r3) \<Rightarrow>
      (case GetUInt16 r3 of
        None \<Rightarrow> (False, r3, gui)
      | Some (tp, r4) \<Rightarrow>
          (case GSLI_sprdata tp of
             None \<Rightarrow> (False, r4, gui)
           | Some (get, put, is_shaded) \<Rightarrow>
               (case (if is_shaded
                      then load_into (WSS_COUNT c) ssd_shaded (\<lambda>a. ssd_shaded_update (\<lambda>_. a)) sprites
                      else load_into (WSS_COUNT c) ssd_normal (\<lambda>a. ssd_normal_update (\<lambda>_. a)) sprites)
                       r4 ((get gui)\<lparr>min_bar_length := min_length, ssd_stepsize := stepsize,
                                      ssd_height := height\<rparr>) of
                  (ok, r5, sprdata) \<Rightarrow> (ok, r5, put sprdata gui)))))))"

text \<open>
  \<^verbatim>\<open>LoadGSCL\<close>. The object of the loop is \<^verbatim>\<open>*sprdata\<close> with the local variables
  \<^verbatim>\<open>max_width\<close> and \<^verbatim>\<open>max_height\<close>; \<open>GSCL_store\<close> is the body of the loop after
  \<^verbatim>\<open>LoadSpriteFromFile\<close> has returned \<^verbatim>\<open>true\<close>. The member \<^verbatim>\<open>height\<close> is set after the loop.
\<close>

definition GSCL_sprdata ::
  "uint16 \<Rightarrow> ((GuiSprites \<Rightarrow> ScrollbarSpriteData) \<times>
              (ScrollbarSpriteData \<Rightarrow> GuiSprites \<Rightarrow> GuiSprites) \<times> bool \<times> bool) option" where
  "GSCL_sprdata tp =
     (if tp = 160 then Some (hor_scroll, \<lambda>d. hor_scroll_update (\<lambda>_. d), False, False)
      else if tp = 161 then Some (hor_scroll, \<lambda>d. hor_scroll_update (\<lambda>_. d), True, False)
      else if tp = 176 then Some (vert_scroll, \<lambda>d. vert_scroll_update (\<lambda>_. d), False, True)
      else if tp = 177 then Some (vert_scroll, \<lambda>d. vert_scroll_update (\<lambda>_. d), True, True)
      else None)"

definition GSCL_store ::
  "(nat \<Rightarrow> uint16) \<Rightarrow> (nat \<Rightarrow> uint16) \<Rightarrow> bool \<Rightarrow> nat \<Rightarrow> ImageData_ptr \<Rightarrow>
   ScrollbarSpriteData \<times> uint16 \<times> uint16 \<Rightarrow> ScrollbarSpriteData \<times> uint16 \<times> uint16" where
  "GSCL_store img_width img_height is_shaded sprnum spr obj =
     (case obj of
        (sprdata, max_width, max_height) \<Rightarrow>
          let sprdata = (if is_shaded
                         then sprdata\<lparr>scr_shaded := (scr_shaded sprdata)(sprnum := spr)\<rparr>
                         else sprdata\<lparr>scr_normal := (scr_normal sprdata)(sprnum := spr)\<rparr>)
          in case spr of
               None \<Rightarrow> (sprdata, max_width, max_height)
             | Some a \<Rightarrow> (sprdata, max max_width (img_width a), max max_height (img_height a)))"

definition LoadGSCL ::
  "Headers \<Rightarrow> (nat \<Rightarrow> uint16) \<Rightarrow> (nat \<Rightarrow> uint16) \<Rightarrow> RcdFileReader \<Rightarrow> ImageMap \<Rightarrow> GuiSprites \<Rightarrow>
   bool \<times> RcdFileReader \<times> GuiSprites" where
  "LoadGSCL c img_width img_height rcd_file sprites gui =
     (if version rcd_file \<noteq> 1 \<or> size rcd_file \<noteq> word_of_nat (4 * 1 + 2 + WLS_COUNT c * 4)
      then (False, rcd_file, gui)
      else case GetUInt8 rcd_file of
        None \<Rightarrow> (False, rcd_file, gui)
      | Some (min_length_bar, r1) \<Rightarrow>
      (case GetUInt8 r1 of
        None \<Rightarrow> (False, r1, gui)
      | Some (stepsize_back, r2) \<Rightarrow>
      (case GetUInt8 r2 of
        None \<Rightarrow> (False, r2, gui)
      | Some (min_slider, r3) \<Rightarrow>
      (case GetUInt8 r3 of
        None \<Rightarrow> (False, r3, gui)
      | Some (stepsize_slider', r4) \<Rightarrow>
      (case GetUInt16 r4 of
        None \<Rightarrow> (False, r4, gui)
      | Some (tp, r5) \<Rightarrow>
          (case GSCL_sprdata tp of
             None \<Rightarrow> (False, r5, gui)
           | Some (get, put, is_shaded, vertical) \<Rightarrow>
               (case load_all
                       (map (\<lambda>sprnum. load_sprite
                                        (GSCL_store img_width img_height is_shaded sprnum) sprites)
                          [0..<WLS_COUNT c])
                       r5 ((get gui)\<lparr>min_length_all := min_length_bar,
                                      stepsize_bar := stepsize_back,
                                      min_length_slider := min_slider,
                                      stepsize_slider := stepsize_slider'\<rparr>, 0, 0) of
                  (ok, r6, sprdata, max_width, max_height) \<Rightarrow>
                    if ok
                    then (True, r6,
                          put (sprdata\<lparr>scr_height :=
                                 (if vertical then max_width else max_height)\<rparr>) gui)
                    else (False, r6, put sprdata gui))))))))"

text \<open>
  \<^verbatim>\<open>LoadGSLP\<close>. \<^verbatim>\<open>lengthof\<close> gives a \<^verbatim>\<open>size_t\<close>, so the size of the block is compared with
  a sum of \<^verbatim>\<open>size_t\<close>, which does not wrap. \<open>GSLP_sprites\<close> are the statements from the
  first loop to \<^verbatim>\<open>LoadTextFromFile\<close>. The call \<^verbatim>\<open>_language.RegisterStrings(*this->text,
  ...)\<close> is a parameter: it changes the registries outside this file, and it is given
  a text, so the program stops when the text reference of the block was 0 and
  \<^verbatim>\<open>this->text\<close> is null (the result \<open>None\<close>).
\<close>

definition GSLP_sprites ::
  "Headers \<Rightarrow> ImageMap \<Rightarrow> TextMap \<Rightarrow> RcdFileReader \<Rightarrow> GuiSprites \<Rightarrow>
   bool \<times> RcdFileReader \<times> GuiSprites" where
  "GSLP_sprites c sprites texts =
     load_all
       (map (\<lambda>idx. load_sprite
                      (\<lambda>spr gui. gui\<lparr>slope_select := (slope_select gui)(unat idx := spr)\<rparr>)
                      sprites)
          [TSL_STRAIGHT_DOWN c, TSL_STEEP_DOWN c, TSL_DOWN c, TSL_FLAT c, TSL_UP c,
           TSL_STEEP_UP c, TSL_STRAIGHT_UP c] @
        [load_into (TBN_COUNT c) bend_select (\<lambda>a. bend_select_update (\<lambda>_. a)) sprites,
         load_into (TPB_COUNT c) bank_select (\<lambda>a. bank_select_update (\<lambda>_. a)) sprites,
         load_sprite (\<lambda>spr. triangle_left_update (\<lambda>_. spr)) sprites,
         load_sprite (\<lambda>spr. triangle_right_update (\<lambda>_. spr)) sprites,
         load_sprite (\<lambda>spr. triangle_up_update (\<lambda>_. spr)) sprites,
         load_sprite (\<lambda>spr. triangle_down_update (\<lambda>_. spr)) sprites,
         load_into 2 platform_select (\<lambda>a. platform_select_update (\<lambda>_. a)) sprites,
         load_into 2 power_select (\<lambda>a. power_select_update (\<lambda>_. a)) sprites,
         load_sprite (\<lambda>spr. disabled_update (\<lambda>_. spr)) sprites,
         load_into (TC_END c) compass (\<lambda>a. compass_update (\<lambda>_. a)) sprites,
         load_sprite (\<lambda>spr. bulldozer_update (\<lambda>_. spr)) sprites,
         load_into (WTP_COUNT c) weather (\<lambda>a. weather_update (\<lambda>_. a)) sprites,
         load_into 4 lights_rog (\<lambda>a. lights_rog_update (\<lambda>_. a)) sprites,
         load_into 3 lights_rg (\<lambda>a. lights_rg_update (\<lambda>_. a)) sprites,
         load_sprite (\<lambda>spr. rot_2d_pos_update (\<lambda>_. spr)) sprites,
         load_sprite (\<lambda>spr. rot_2d_neg_update (\<lambda>_. spr)) sprites,
         load_sprite (\<lambda>spr. rot_3d_pos_update (\<lambda>_. spr)) sprites,
         load_sprite (\<lambda>spr. rot_3d_neg_update (\<lambda>_. spr)) sprites,
         load_sprite (\<lambda>spr. close_sprite_update (\<lambda>_. spr)) sprites,
         load_sprite (\<lambda>spr. dot_sprite_update (\<lambda>_. spr)) sprites,
         load_sprite (\<lambda>spr. message_goto_update (\<lambda>_. spr)) sprites,
         load_sprite (\<lambda>spr. message_park_update (\<lambda>_. spr)) sprites,
         load_sprite (\<lambda>spr. message_guest_update (\<lambda>_. spr)) sprites,
         load_sprite (\<lambda>spr. message_ride_update (\<lambda>_. spr)) sprites,
         load_sprite (\<lambda>spr. message_ride_type_update (\<lambda>_. spr)) sprites,
         load_into (TOOLBAR_IMAGES c) toolbar_images (\<lambda>a. toolbar_images_update (\<lambda>_. a)) sprites,
         load_text (\<lambda>t. gui_text_update (\<lambda>_. t)) texts])"

definition LoadGSLP ::
  "Headers \<Rightarrow> (TextData \<Rightarrow> 'x \<Rightarrow> 'x) \<Rightarrow> RcdFileReader \<Rightarrow> ImageMap \<Rightarrow> TextMap \<Rightarrow> GuiSprites \<Rightarrow> 'x \<Rightarrow>
   (bool \<times> RcdFileReader \<times> GuiSprites \<times> 'x) option" where
  "LoadGSLP c RegisterStrings rcd_file sprites texts gui g =
     (if version rcd_file \<noteq> 11 \<or>
         unat (size rcd_file) \<noteq>
           (7 + TBN_COUNT c + TPB_COUNT c + 4 + 2 + 2 + 1 + TC_END c + 1 + WTP_COUNT c + 4 + 3 +
            4 + 2) * 4 + 4 + 4 * 5 + 4 * TOOLBAR_IMAGES c
      then Some (False, rcd_file, gui, g)
      else case GSLP_sprites c sprites texts rcd_file gui of
        (ok, r, gui') \<Rightarrow>
          if \<not> ok then Some (False, r, gui', g)
          else (case gui_text gui' of
                  None \<Rightarrow> None
                | Some t \<Rightarrow> Some (True, r, gui', RegisterStrings t g)))"

text \<open>\<^verbatim>\<open>LoadMENU\<close>; \<open>MENU_sprites\<close> are its statements after the check of the header.\<close>

definition MENU_sprites ::
  "ImageMap \<Rightarrow> RcdFileReader \<Rightarrow> GuiSprites \<Rightarrow> bool \<times> RcdFileReader \<times> GuiSprites" where
  "MENU_sprites sprites =
     load_all
       [load_u32 (\<lambda>v. mainmenu_splash_duration_update (\<lambda>_. v)),
        load_sprite (\<lambda>spr. mainmenu_logo_update (\<lambda>_. spr)) sprites,
        load_sprite (\<lambda>spr. mainmenu_splash_update (\<lambda>_. spr)) sprites,
        load_sprite (\<lambda>spr. mainmenu_new_update (\<lambda>_. spr)) sprites,
        load_sprite (\<lambda>spr. mainmenu_load_update (\<lambda>_. spr)) sprites,
        load_sprite (\<lambda>spr. mainmenu_settings_update (\<lambda>_. spr)) sprites,
        load_sprite (\<lambda>spr. mainmenu_quit_update (\<lambda>_. spr)) sprites]"

definition LoadMENU ::
  "RcdFileReader \<Rightarrow> ImageMap \<Rightarrow> GuiSprites \<Rightarrow> bool \<times> RcdFileReader \<times> GuiSprites" where
  "LoadMENU rcd_file sprites gui =
     (if version rcd_file \<noteq> 1 \<or> size rcd_file \<noteq> 40 - 12 then (False, rcd_file, gui)
      else MENU_sprites sprites rcd_file gui)"


section \<open>The block dispatcher \<^verbatim>\<open>SpriteManager::Load\<close>\<close>

text \<open>
  \<^verbatim>\<open>SpriteManager::Load\<close> calls loaders that are defined in other files of the
  repository (\<^verbatim>\<open>LoadImage\<close>, \<^verbatim>\<open>LoadPRSG\<close>, \<^verbatim>\<open>ShopType::Load\<close>, ...). They are parameters
  of the model, with the members \<^verbatim>\<open>width\<close> and \<^verbatim>\<open>height\<close> of \<^verbatim>\<open>ImageData\<close> and
  \<^verbatim>\<open>Language::RegisterStrings\<close>. The state they work on (\<^verbatim>\<open>_language\<close>, \<^verbatim>\<open>_rides_manager\<close>,
  \<^verbatim>\<open>_scenery\<close>, the car types, the person graphics, the coaster platforms and the image
  storage) is one value of an arbitrary type \<open>'x\<close>. A loader is given the reader and
  the tables it is passed in the source; it returns its result, the number of bytes
  it consumed and the new state. An object decoded by such a loader is known by a
  handle.
\<close>

type_synonym TrackPiecesMap = "uint32 \<rightharpoonup> nat"
type_synonym 'x sprite_loader = "RcdFileReader \<Rightarrow> ImageMap \<Rightarrow> 'x \<Rightarrow> bool \<times> nat \<times> 'x"
type_synonym 'x type_loader =
  "RcdFileReader \<Rightarrow> ImageMap \<Rightarrow> TextMap \<Rightarrow> 'x \<Rightarrow> nat option \<times> nat \<times> 'x"

record 'x Externals =
  DecodeUtf8Char :: utf8_decoder
  GetLanguageIndex :: language_index
  LoadImage :: "RcdFileReader \<Rightarrow> 'x \<Rightarrow> ImageData_ptr \<times> nat \<times> 'x"
  ImageData_width :: "nat \<Rightarrow> uint16"
  ImageData_height :: "nat \<Rightarrow> uint16"
  RegisterStrings :: "TextData \<Rightarrow> 'x \<Rightarrow> 'x"
  LoadPRSG :: "RcdFileReader \<Rightarrow> 'x \<Rightarrow> bool \<times> nat \<times> 'x"
  ShopType_Load :: "'x type_loader"
  SceneryType_Load :: "'x type_loader"
  RideEntranceExitType_Load :: "'x type_loader"
  GentleThrillRideType_Load :: "'x type_loader"
  TrackPiece_Load :: "RcdFileReader \<Rightarrow> ImageMap \<Rightarrow> 'x \<Rightarrow> nat option \<times> nat \<times> 'x"
  CoasterType_Load ::
    "RcdFileReader \<Rightarrow> TextMap \<Rightarrow> TrackPiecesMap \<Rightarrow> 'x \<Rightarrow> nat option \<times> nat \<times> 'x"
  LoadCoasterPlatform :: "'x sprite_loader"
  GetNewCarType :: "'x \<Rightarrow> nat option \<times> 'x"
  CarType_Load :: "nat \<Rightarrow> 'x sprite_loader"
  AddRideType :: "nat \<Rightarrow> 'x \<Rightarrow> 'x"
  AddSceneryType :: "nat \<Rightarrow> 'x \<Rightarrow> 'x"
  AddRideEntranceExitType :: "nat \<Rightarrow> 'x \<Rightarrow> 'x"

text \<open>
  The state of a run of \<^verbatim>\<open>SpriteManager::Load\<close>: its local variables (the reader and
  the three per-file tables), the sprite manager \<^verbatim>\<open>*this\<close>, the GUI sprites
  \<^verbatim>\<open>_gui_sprites\<close>, the other global registries, and the lines written to \<^verbatim>\<open>stderr\<close>.
\<close>

record 'x LoadState =
  ls_rcd_file :: RcdFileReader
  ls_sprites :: ImageMap
  ls_texts :: TextMap
  ls_track_pieces :: TrackPiecesMap
  ls_this :: SpriteManager
  ls_gui :: GuiSprites
  ls_globals :: 'x
  ls_stderr :: "(string \<times> uint32) list"

text \<open>
  What the body of the loop does with one block: it goes on to the next block
  (\<^verbatim>\<open>continue\<close>), it returns an error message, or the program stops at a failed
  \<^verbatim>\<open>assert\<close> or at a write outside an array. After an error message the reader is
  not read again, and the state holds it as it was before the read that failed.
\<close>

datatype 'x step = Next "'x LoadState" | Stop string "'x LoadState" | Crashed "'x LoadState"

definition advance :: "RcdFileReader \<Rightarrow> nat \<Rightarrow> RcdFileReader" where
  "advance r n = r\<lparr>fp := drop n (fp r)\<rparr>"

text \<open>\<^verbatim>\<open>std::map::insert\<close> adds the pair unless the key is present.\<close>

definition map_insert :: "('k \<rightharpoonup> 'v) \<Rightarrow> 'k \<Rightarrow> 'v \<Rightarrow> ('k \<rightharpoonup> 'v)" where
  "map_insert m k v = (case m k of None \<Rightarrow> m(k \<mapsto> v) | Some old \<Rightarrow> m)"

text \<open>
  \<^verbatim>\<open>std::multimap::insert\<close>: the multimap is the list of its pairs in key order, and
  a new pair goes behind the pairs with the same key.
\<close>

definition multimap_insert :: "(nat \<times> 'v) list \<Rightarrow> nat \<Rightarrow> 'v \<Rightarrow> (nat \<times> 'v) list" where
  "multimap_insert m k v =
     takeWhile (\<lambda>(k', v'). k' \<le> k) m @ (k, v) # dropWhile (\<lambda>(k', v'). k' \<le> k) m"

text \<open>\<^verbatim>\<open>SpriteStorage::RemoveAnimations\<close>: the loop, from the first pair with the key \<open>anim_type'\<close>.\<close>

fun RemoveAnimations_from ::
  "nat \<Rightarrow> PersonType \<Rightarrow> (nat \<times> AnimationSprites) list \<Rightarrow> (nat \<times> AnimationSprites) list" where
  "RemoveAnimations_from anim_type' pers_type [] = []"
| "RemoveAnimations_from anim_type' pers_type ((k, an_spr) # rest) =
     (if ansp_anim_type an_spr \<noteq> anim_type' then (k, an_spr) # rest
      else if ansp_person_type an_spr = pers_type
        then RemoveAnimations_from anim_type' pers_type rest
        else (k, an_spr) # RemoveAnimations_from anim_type' pers_type rest)"

definition RemoveAnimations :: "nat \<Rightarrow> PersonType \<Rightarrow> SpriteStorage \<Rightarrow> SpriteStorage" where
  "RemoveAnimations anim_type' pers_type ss =
     ss\<lparr>store_animations :=
          takeWhile (\<lambda>(k, a). k \<noteq> anim_type') (store_animations ss) @
          RemoveAnimations_from anim_type' pers_type
            (dropWhile (\<lambda>(k, a). k \<noteq> anim_type') (store_animations ss))\<rparr>"

text \<open>
  The result of a handler that loads into the sprite manager in place: the manager
  is the one the handler left, whether it returned \<^verbatim>\<open>true\<close> or \<^verbatim>\<open>false\<close>.
\<close>

definition in_place ::
  "string \<Rightarrow> bool \<times> RcdFileReader \<times> SpriteManager \<Rightarrow> 'x LoadState \<Rightarrow> 'x step" where
  "in_place msg res s =
     (case res of
        (ok, r, this) \<Rightarrow>
          if ok then Next (s\<lparr>ls_rcd_file := r, ls_this := this\<rparr>)
          else Stop msg (s\<lparr>ls_rcd_file := r, ls_this := this\<rparr>))"

text \<open>The same for a loader of the GUI sprites, which loads into \<^verbatim>\<open>_gui_sprites\<close> in place.\<close>

definition gui_in_place ::
  "string \<Rightarrow> bool \<times> RcdFileReader \<times> GuiSprites \<Rightarrow> 'x LoadState \<Rightarrow> 'x step" where
  "gui_in_place msg res s =
     (case res of
        (ok, r, gui) \<Rightarrow>
          if ok then Next (s\<lparr>ls_rcd_file := r, ls_gui := gui\<rparr>)
          else Stop msg (s\<lparr>ls_rcd_file := r, ls_gui := gui\<rparr>))"

text \<open>The result of a loader that is a parameter and returns \<^verbatim>\<open>bool\<close>.\<close>

definition external ::
  "string \<Rightarrow> bool \<times> nat \<times> 'x \<Rightarrow> 'x LoadState \<Rightarrow> 'x step" where
  "external msg res s =
     (case res of
        (ok, n, g) \<Rightarrow>
          if ok then Next (s\<lparr>ls_rcd_file := advance (ls_rcd_file s) n, ls_globals := g\<rparr>)
          else Stop msg (s\<lparr>ls_rcd_file := advance (ls_rcd_file s) n, ls_globals := g\<rparr>))"

text \<open>
  The result of a loader that is a parameter and fills a new object, which \<open>add\<close>
  then hands to its registry.
\<close>

definition external_type ::
  "string \<Rightarrow> (nat \<Rightarrow> 'x \<Rightarrow> 'x) \<Rightarrow> nat option \<times> nat \<times> 'x \<Rightarrow> 'x LoadState \<Rightarrow> 'x step" where
  "external_type msg add res s =
     (case res of
        (obj, n, g) \<Rightarrow>
          (case obj of
             None \<Rightarrow> Stop msg (s\<lparr>ls_rcd_file := advance (ls_rcd_file s) n, ls_globals := g\<rparr>)
           | Some h \<Rightarrow>
               Next (s\<lparr>ls_rcd_file := advance (ls_rcd_file s) n, ls_globals := add h g\<rparr>)))"


text \<open>
  The body of the loop of \<^verbatim>\<open>SpriteManager::Load\<close>, after \<^verbatim>\<open>ReadBlockHeader\<close> has read
  the header of block number \<open>blk_num\<close> into the reader. The store of the sprite
  manager is constructed with \<^verbatim>\<open>size\<close> 64, which \<^verbatim>\<open>AddFence\<close> and \<^verbatim>\<open>AddAnimationSprites\<close>
  assert the width of their argument to be.
\<close>

definition Load_block ::
  "Headers \<Rightarrow> 'x Externals \<Rightarrow> uint32 \<Rightarrow> 'x LoadState \<Rightarrow> 'x step" where
  "Load_block c e blk_num s =
     (let rcd_file = ls_rcd_file s; sprites = ls_sprites s; texts = ls_texts s;
          track_pieces = ls_track_pieces s; this = ls_this s; gui = ls_gui s;
          g = ls_globals s
      in
      if name rcd_file = ''INFO'' then
        (case SkipBytes rcd_file (size rcd_file) of
           None \<Rightarrow> Stop ''Invalid INFO block.'' s
         | Some r \<Rightarrow> Next (s\<lparr>ls_rcd_file := r\<rparr>))
      else if name rcd_file = ''8PXL'' \<or> name rcd_file = ''32PX'' then
        (case LoadImage e rcd_file g of
           (imd, n, g') \<Rightarrow>
             if imd = None
             then Stop ''Image data loading failed''
                    (s\<lparr>ls_rcd_file := advance rcd_file n, ls_globals := g'\<rparr>)
             else Next (s\<lparr>ls_rcd_file := advance rcd_file n,
                          ls_sprites := map_insert sprites blk_num imd, ls_globals := g'\<rparr>))
      else if name rcd_file = ''SURF'' then
        in_place ''Surface block loading failed.'' (LoadSURF c rcd_file sprites this) s
      else if name rcd_file = ''TSEL'' then
        in_place ''Tile-selection block loading failed.'' (LoadTSEL c rcd_file sprites this) s
      else if name rcd_file = ''PATH'' then
        in_place ''Path-sprites block loading failed.'' (LoadPATH c rcd_file sprites this) s
      else if name rcd_file = ''PDEC'' then
        in_place ''Path decoration block loading failed.'' (LoadPDEC c rcd_file sprites this) s
      else if name rcd_file = ''TCOR'' then
        in_place ''Tile-corners block loading failed.'' (LoadTCOR c rcd_file sprites this) s
      else if name rcd_file = ''FENC'' then
        (case Fence_Load c rcd_file sprites of
           None \<Rightarrow> Stop ''Fence block loading failed.'' s
         | Some (block, r) \<Rightarrow>
             if fence_width block \<noteq> 64 \<or> \<not> unat (fence_type block) < FENCE_TYPE_COUNT c
             then Crashed (s\<lparr>ls_rcd_file := r\<rparr>)
             else Next (s\<lparr>ls_rcd_file := r,
                          ls_this := this\<lparr>store := (store this)\<lparr>fence :=
                                             (fence (store this))
                                               (unat (fence_type block) := Some block)\<rparr>,
                                           blocks := blocks this @ [FenceBlock block]\<rparr>\<rparr>))
      else if name rcd_file = ''FUND'' then
        in_place ''Foundation block loading failed.'' (LoadFUND c rcd_file sprites this) s
      else if name rcd_file = ''PLAT'' then
        in_place ''Platform block loading failed.'' (LoadPLAT c rcd_file sprites this) s
      else if name rcd_file = ''SUPP'' then
        in_place ''Support block loading failed.'' (LoadSUPP c rcd_file sprites this) s
      else if name rcd_file = ''BDIR'' then
        in_place ''Build arrows block loading failed.'' (LoadBDIR c rcd_file sprites this) s
      else if name rcd_file = ''GCHK'' then
        gui_in_place ''Loading Checkable GUI sprites failed.''
          (LoadGCHK c (ImageData_width e) (ImageData_height e) rcd_file sprites gui) s
      else if name rcd_file = ''GBOR'' then
        gui_in_place ''Loading Border GUI sprites failed.'' (LoadGBOR c rcd_file sprites gui) s
      else if name rcd_file = ''GSLI'' then
        gui_in_place ''Loading Slider bar GUI sprites failed.''
          (LoadGSLI c rcd_file sprites gui) s
      else if name rcd_file = ''GSCL'' then
        gui_in_place ''Loading Scrollbar GUI sprites failed.''
          (LoadGSCL c (ImageData_width e) (ImageData_height e) rcd_file sprites gui) s
      else if name rcd_file = ''GSLP'' then
        (case LoadGSLP c (RegisterStrings e) rcd_file sprites texts gui g of
           None \<Rightarrow> Crashed s
         | Some (ok, r, gui', g') \<Rightarrow>
             if ok then Next (s\<lparr>ls_rcd_file := r, ls_gui := gui', ls_globals := g'\<rparr>)
             else Stop ''Loading slope selection GUI sprites failed.''
                    (s\<lparr>ls_rcd_file := r, ls_gui := gui', ls_globals := g'\<rparr>))
      else if name rcd_file = ''MENU'' then
        gui_in_place ''Loading main menu sprites failed.'' (LoadMENU rcd_file sprites gui) s
      else if name rcd_file = ''ANIM'' then
        (case Animation_Load c rcd_file of
           None \<Rightarrow> Stop ''Animation failed to load.'' s
         | Some (anim, r) \<Rightarrow>
             if person_type anim = PERSON_INVALID \<or> anim_type anim = ANIM_INVALID c
             then Stop ''Unknown animation.'' (s\<lparr>ls_rcd_file := r\<rparr>)
             else Next (s\<lparr>ls_rcd_file := r,
                          ls_this := this\<lparr>
                            animations := multimap_insert (animations this) (anim_type anim) anim,
                            store := RemoveAnimations (anim_type anim) (person_type anim)
                                       (store this),
                            blocks := blocks this @ [AnimationBlock anim]\<rparr>\<rparr>))
      else if name rcd_file = ''ANSP'' then
        (case AnimationSprites_Load c rcd_file sprites of
           None \<Rightarrow> Stop ''Animation sprites failed to load.'' s
         | Some (an_spr, r) \<Rightarrow>
             if ansp_person_type an_spr = PERSON_INVALID \<or> ansp_anim_type an_spr = ANIM_INVALID c
             then Stop ''Unknown animation.'' (s\<lparr>ls_rcd_file := r\<rparr>)
             else if ansp_width an_spr \<noteq> 64 then Crashed (s\<lparr>ls_rcd_file := r\<rparr>)
             else Next (s\<lparr>ls_rcd_file := r,
                          ls_this := this\<lparr>store := (store this)\<lparr>store_animations :=
                                             multimap_insert (store_animations (store this))
                                               (ansp_anim_type an_spr) an_spr\<rparr>,
                                           blocks := blocks this @ [AnimationSpritesBlock an_spr]\<rparr>\<rparr>))
      else if name rcd_file = ''PRSG'' then
        external ''Graphics Person type data failed to load.'' (LoadPRSG e rcd_file g) s
      else if name rcd_file = ''TEXT'' then
        (case TextData_Load (DecodeUtf8Char e) (GetLanguageIndex e) rcd_file of
           Failure \<Rightarrow> Stop ''Text block failed to load.'' s
         | OutOfBounds \<Rightarrow> Crashed s
         | AssertionFailed \<Rightarrow> Crashed s
         | Success (txt, r) \<Rightarrow>
             Next (s\<lparr>ls_rcd_file := r,
                     ls_texts := map_insert texts blk_num (Some txt),
                     ls_this := this\<lparr>blocks := blocks this @ [TextBlock txt]\<rparr>\<rparr>))
      else if name rcd_file = ''SHOP'' then
        external_type ''Shop type failed to load.'' (AddRideType e)
          (ShopType_Load e rcd_file sprites texts g) s
      else if name rcd_file = ''FSET'' then
        (case FrameSet_Load rcd_file sprites of
           None \<Rightarrow> Stop ''Frame set failed to load.'' s
         | Some (fset, r) \<Rightarrow>
             Next (s\<lparr>ls_rcd_file := r,
                     ls_this := this\<lparr>store := (store this)\<lparr>frame_sets :=
                       (frame_sets (store this))((filename rcd_file, blk_num) \<mapsto> fset)\<rparr>\<rparr>\<rparr>))
      else if name rcd_file = ''TIMA'' then
        (case TimedAnimation_Load rcd_file sprites this of
           TimaFailed \<Rightarrow> Stop ''Timed animation failed to load.'' s
         | TimaThrown \<Rightarrow> Crashed s
         | TimaLoaded anim r \<Rightarrow>
             Next (s\<lparr>ls_rcd_file := r,
                     ls_this := this\<lparr>store := (store this)\<lparr>timed_animations :=
                       (timed_animations (store this))((filename rcd_file, blk_num) \<mapsto> anim)\<rparr>\<rparr>\<rparr>))
      else if name rcd_file = ''SCNY'' then
        external_type ''Scenery type failed to load.'' (AddSceneryType e)
          (SceneryType_Load e rcd_file sprites texts g) s
      else if name rcd_file = ''RIEE'' then
        external_type ''Entrance/Exit failed to load.'' (AddRideEntranceExitType e)
          (RideEntranceExitType_Load e rcd_file sprites texts g) s
      else if name rcd_file = ''FGTR'' then
        external_type ''Gentle/Thrill ride type failed to load.'' (AddRideType e)
          (GentleThrillRideType_Load e rcd_file sprites texts g) s
      else if name rcd_file = ''TRCK'' then
        (case TrackPiece_Load e rcd_file sprites g of
           (tp, n, g') \<Rightarrow>
             (case tp of
                None \<Rightarrow> Stop ''Track piece failed to load.''
                          (s\<lparr>ls_rcd_file := advance rcd_file n, ls_globals := g'\<rparr>)
              | Some h \<Rightarrow>
                  Next (s\<lparr>ls_rcd_file := advance rcd_file n,
                          ls_track_pieces := map_insert track_pieces blk_num h,
                          ls_globals := g'\<rparr>)))
      else if name rcd_file = ''RCST'' then
        external_type ''Coaster type failed to load.'' (AddRideType e)
          (CoasterType_Load e rcd_file texts track_pieces g) s
      else if name rcd_file = ''CSPL'' then
        external ''Coaster platform failed to load.'' (LoadCoasterPlatform e rcd_file sprites g) s
      else if name rcd_file = ''CARS'' then
        (case GetNewCarType e g of
           (ct, g') \<Rightarrow>
             (case ct of
                None \<Rightarrow> Stop ''No room to store a car type.'' (s\<lparr>ls_globals := g'\<rparr>)
              | Some h \<Rightarrow>
                  external ''Car type failed to load.'' (CarType_Load e h rcd_file sprites g')
                    (s\<lparr>ls_globals := g'\<rparr>)))
      else
        (case SkipBytes rcd_file (size rcd_file) of
           None \<Rightarrow>
             Stop ''Error skipping unknown block.''
               (s\<lparr>ls_stderr := ls_stderr s @ [(name rcd_file, version rcd_file)]\<rparr>)
         | Some r \<Rightarrow>
             Next (s\<lparr>ls_rcd_file := r,
                     ls_stderr := ls_stderr s @ [(name rcd_file, version rcd_file)]\<rparr>)))"


text \<open>No handler moves the reader backwards; the loop of \<^verbatim>\<open>SpriteManager::Load\<close> ends for this reason.\<close>

lemma LoadSpriteFromFile_length:
  "LoadSpriteFromFile r sprites = Some (spr, r') \<Longrightarrow> length (fp r') < length (fp r)"
  by (auto simp: LoadSpriteFromFile_def split: option.splits if_splits dest!: GetUInt32_length)

lemma LoadSprites_length:
  "LoadSprites n i r sprites arr = (ok, r', arr') \<Longrightarrow> length (fp r') \<le> length (fp r)"
proof (induction n arbitrary: i r arr)
  case 0
  then show ?case by simp
next
  case (Suc n)
  show ?case
  proof (cases "LoadSpriteFromFile r sprites")
    case None
    with Suc.prems show ?thesis by simp
  next
    case (Some a)
    obtain spr r1 where a: "a = (spr, r1)" by (cases a)
    from Suc.prems Some a have "LoadSprites n (Suc i) r1 sprites (arr(i := spr)) = (ok, r', arr')"
      by simp
    from Suc.IH [OF this] LoadSpriteFromFile_length [of r sprites spr r1] Some a
    show ?thesis by simp
  qed
qed

lemma LoadSpriteRows_length:
  "LoadSpriteRows n v cols r sprites arr = (ok, r', arr') \<Longrightarrow> length (fp r') \<le> length (fp r)"
proof (induction n arbitrary: v r arr)
  case 0
  then show ?case by simp
next
  case (Suc n)
  obtain ok1 r1 row where row: "LoadSprites cols 0 r sprites (arr v) = (ok1, r1, row)"
    by (cases "LoadSprites cols 0 r sprites (arr v)") auto
  note le1 = LoadSprites_length [OF row]
  show ?case
  proof (cases ok1)
    case True
    with Suc.prems row
    have "LoadSpriteRows n (Suc v) cols r1 sprites (arr(v := row)) = (ok, r', arr')"
      by simp
    from Suc.IH [OF this] le1 show ?thesis by simp
  next
    case False
    with Suc.prems row le1 show ?thesis by auto
  qed
qed

lemma load_into_length:
  "load_into n get put sprites r s = (ok, r', s') \<Longrightarrow> length (fp r') \<le> length (fp r)"
  by (auto simp: load_into_def split: prod.splits dest: LoadSprites_length)

lemma load_rows_into_length:
  "load_rows_into n cols get put sprites r s = (ok, r', s') \<Longrightarrow>
   length (fp r') \<le> length (fp r)"
  by (auto simp: load_rows_into_def split: prod.splits dest: LoadSpriteRows_length)

lemma load_all_length:
  assumes "\<And>f r s ok r' s'. f \<in> set fs \<Longrightarrow> f r s = (ok, r', s') \<Longrightarrow>
             length (fp r') \<le> length (fp r)"
    and "load_all fs r s = (ok, r', s')"
  shows "length (fp r') \<le> length (fp r)"
  using assms
proof (induction fs arbitrary: r s)
  case Nil
  then show ?case by simp
next
  case (Cons f fs)
  obtain ok1 r1 s1 where f: "f r s = (ok1, r1, s1)"
    by (cases "f r s") auto
  have le1: "length (fp r1) \<le> length (fp r)"
    using Cons.prems(1) [of f r s ok1 r1 s1] f by simp
  show ?case
  proof (cases ok1)
    case True
    with Cons.prems(2) f have "load_all fs r1 s1 = (ok, r', s')" by simp
    then have "length (fp r') \<le> length (fp r1)"
      using Cons.IH Cons.prems(1) by (metis list.set_intros(2))
    with le1 show ?thesis by simp
  next
    case False
    with Cons.prems(2) f le1 show ?thesis by auto
  qed
qed

lemma LoadPDEC_sprites_length:
  "LoadPDEC_sprites c sprites r pdec = (ok, r', pdec') \<Longrightarrow> length (fp r') \<le> length (fp r)"
  unfolding LoadPDEC_sprites_def
  by (erule load_all_length [rotated]) (auto dest: load_into_length load_rows_into_length)

lemma LoadPLAT_sprites_length:
  "LoadPLAT_sprites c sprites r plat = (ok, r', plat') \<Longrightarrow> length (fp r') \<le> length (fp r)"
  unfolding LoadPLAT_sprites_def
  by (erule load_all_length [rotated]) (auto dest: load_into_length load_rows_into_length)

lemma LoadSURF_length:
  "LoadSURF c r sprites this = (ok, r', this') \<Longrightarrow> length (fp r') \<le> length (fp r)"
  by (auto simp: LoadSURF_def Let_def split: if_splits option.splits prod.splits
      dest!: GetUInt16_length LoadSprites_length)

lemma LoadTSEL_length:
  "LoadTSEL c r sprites this = (ok, r', this') \<Longrightarrow> length (fp r') \<le> length (fp r)"
  by (auto simp: LoadTSEL_def Let_def split: if_splits option.splits prod.splits
      dest!: GetUInt16_length LoadSprites_length)

lemma LoadPATH_length:
  "LoadPATH c r sprites this = (ok, r', this') \<Longrightarrow> length (fp r') \<le> length (fp r)"
  by (auto simp: LoadPATH_def Let_def split: if_splits option.splits prod.splits
      dest!: GetUInt16_length LoadSprites_length)

lemma LoadPDEC_length:
  "LoadPDEC c r sprites this = (ok, r', this') \<Longrightarrow> length (fp r') \<le> length (fp r)"
  by (auto simp: LoadPDEC_def Let_def split: if_splits option.splits prod.splits
      dest!: GetUInt16_length LoadPDEC_sprites_length)

lemma LoadTCOR_length:
  "LoadTCOR c r sprites this = (ok, r', this') \<Longrightarrow> length (fp r') \<le> length (fp r)"
  by (auto simp: LoadTCOR_def Let_def split: if_splits option.splits prod.splits
      dest!: GetUInt16_length LoadSpriteRows_length)

lemma LoadFUND_length:
  "LoadFUND c r sprites this = (ok, r', this') \<Longrightarrow> length (fp r') \<le> length (fp r)"
  by (auto simp: LoadFUND_def Let_def split: if_splits option.splits prod.splits
      dest!: GetUInt16_length LoadSprites_length)

lemma LoadPLAT_length:
  "LoadPLAT c r sprites this = (ok, r', this') \<Longrightarrow> length (fp r') \<le> length (fp r)"
  by (auto simp: LoadPLAT_def Let_def split: if_splits option.splits prod.splits
      dest!: GetUInt16_length LoadPLAT_sprites_length)

lemma LoadSUPP_length:
  "LoadSUPP c r sprites this = (ok, r', this') \<Longrightarrow> length (fp r') \<le> length (fp r)"
  by (auto simp: LoadSUPP_def Let_def split: if_splits option.splits prod.splits
      dest!: GetUInt16_length LoadSprites_length)

lemma LoadBDIR_length:
  "LoadBDIR c r sprites this = (ok, r', this') \<Longrightarrow> length (fp r') \<le> length (fp r)"
  by (auto simp: LoadBDIR_def Let_def split: if_splits option.splits prod.splits
      dest!: GetUInt16_length LoadSprites_length)

lemma Fence_Load_length:
  "Fence_Load c r sprites = Some (block, r') \<Longrightarrow> length (fp r') \<le> length (fp r)"
  by (auto simp: Fence_Load_def Let_def split: if_splits option.splits prod.splits
      dest!: GetUInt16_length LoadSprites_length)

lemma LoadFrames_length:
  "LoadFrames n r = Some (fs, r') \<Longrightarrow> length (fp r') \<le> length (fp r)"
proof (induction n arbitrary: r fs)
  case 0
  then show ?case by simp
next
  case (Suc n)
  from Suc.prems obtain d r1 x r2 y r3 fs' where
    g: "GetUInt16 r = Some (d, r1)" "GetInt16 r1 = Some (x, r2)" "GetInt16 r2 = Some (y, r3)"
      "LoadFrames n r3 = Some (fs', r')"
    by (auto split: option.splits if_splits)
  from Suc.IH [OF g(4)] GetUInt16_length [OF g(1)]
    GetUInt16_length [OF g(2) [unfolded GetInt16_def]]
    GetUInt16_length [OF g(3) [unfolded GetInt16_def]]
  show ?case by simp
qed

lemma Animation_Load_length:
  "Animation_Load c r = Some (anim, r') \<Longrightarrow> length (fp r') \<le> length (fp r)"
  by (auto simp: Animation_Load_def Let_def split: if_splits option.splits prod.splits
      dest!: GetUInt16_length GetUInt8_length LoadFrames_length)

lemma AnimationSprites_Load_length:
  "AnimationSprites_Load c r sprites = Some (an_spr, r') \<Longrightarrow>
   length (fp r') \<le> length (fp r)"
  by (auto simp: AnimationSprites_Load_def Let_def split: if_splits option.splits prod.splits
      dest!: GetUInt16_length GetUInt8_length LoadSprites_length)

lemma FrameSet_Load_length:
  "FrameSet_Load r sprites = Some (fset, r') \<Longrightarrow> length (fp r') \<le> length (fp r)"
  by (auto simp: FrameSet_Load_def Let_def split: if_splits option.splits prod.splits
      dest!: GetUInt16_length GetUInt8_length LoadSpriteRows_length)

lemma GetUInt32s_length:
  "GetUInt32s n r = Some (vs, r') \<Longrightarrow> length (fp r') \<le> length (fp r)"
proof (induction n arbitrary: r vs)
  case 0
  then show ?case by simp
next
  case (Suc n)
  from Suc.prems obtain v r1 vs' where
    g: "GetUInt32 r = Some (v, r1)" "GetUInt32s n r1 = Some (vs', r')"
    by (auto split: option.splits)
  from Suc.IH [OF g(2)] GetUInt32_length [OF g(1)] show ?case by simp
qed

lemma TimedAnimation_Load_length:
  "TimedAnimation_Load r sprites this = TimaLoaded anim r' \<Longrightarrow>
   length (fp r') \<le> length (fp r)"
  by (auto simp: TimedAnimation_Load_def Let_def split: if_splits option.splits prod.splits
      dest!: GetUInt32_length GetUInt32s_length)

lemma LoadStrings_length:
  "LoadStrings D G r len buffer strs = Success (r', buffer', strs') \<Longrightarrow>
   length (fp r') \<le> length (fp r)"
proof (induction D G r len buffer strs rule: LoadStrings.induct)
  case (1 D G r len buffer strs)
  show ?case
  proof (cases "len > 0")
    case False
    with "1.prems" show ?thesis
      by (simp add: LoadStrings.simps [of D G r] split: if_splits)
  next
    case True
    with "1.prems" obtain r1 len1 b1 s1 where
      step: "LoadString D G r len buffer strs = Success (r1, len1, b1, s1)"
      and rest: "LoadStrings D G r1 len1 b1 s1 = Success (r', buffer', strs')"
      by (auto simp: LoadStrings.simps [of D G r] split: outcome.splits)
    from "1.IH" [OF True step refl refl refl rest] LoadString_length [OF step]
    show ?thesis by simp
  qed
qed

lemma TextData_Load_length:
  "TextData_Load D G r = Success (txt, r') \<Longrightarrow> length (fp r') \<le> length (fp r)"
  by (auto simp: TextData_Load_def on_success_Success split: if_splits
      dest!: LoadStrings_length)

lemma SkipBytes_length:
  "SkipBytes r n = Some r' \<Longrightarrow> length (fp r') \<le> length (fp r)"
  by (auto simp: SkipBytes_def split: if_splits)

lemma advance_length: "length (fp (advance r n)) \<le> length (fp r)"
  by (simp add: advance_def)


lemma load_steps_length:
  "load_u8 put8 r s = (ok, r', s') \<Longrightarrow> length (fp r') \<le> length (fp r)"
  "load_u32 put32 r s = (ok, r', s') \<Longrightarrow> length (fp r') \<le> length (fp r)"
  "load_sprite puts sprites r s = (ok, r', s') \<Longrightarrow> length (fp r') \<le> length (fp r)"
  "load_text putt texts r s = (ok, r', s') \<Longrightarrow> length (fp r') \<le> length (fp r)"
  by (auto simp: load_u8_def load_u32_def load_sprite_def load_text_def LoadSpriteFromFile_def
      LoadTextFromFile_def split: option.splits if_splits
      dest!: GetUInt8_length GetUInt32_length)

lemma LoadGBOR_length:
  "LoadGBOR c r sprites gui = (ok, r', gui') \<Longrightarrow> length (fp r') \<le> length (fp r)"
proof -
  have "length (fp r2) \<le> length (fp r1)"
    if "LoadGBOR_sprdata c p sprites r1 d = (ok2, r2, d')" for p r1 d ok2 r2 d'
    using that unfolding LoadGBOR_sprdata_def
    by (erule_tac load_all_length [rotated])
      (auto dest: load_steps_length load_into_length split: if_splits)
  then show "LoadGBOR c r sprites gui = (ok, r', gui') \<Longrightarrow> length (fp r') \<le> length (fp r)"
    by (fastforce simp: LoadGBOR_def split: if_splits option.splits prod.splits
        dest!: GetUInt16_length)
qed

lemma LoadGCHK_length:
  "LoadGCHK c iw ih r sprites gui = (ok, r', gui') \<Longrightarrow> length (fp r') \<le> length (fp r)"
proof -
  have "length (fp r2) \<le> length (fp r1)"
    if "load_all (map (\<lambda>sprnum. load_sprite (GCHK_store iw ih sprnum) sprites) [0..<n]) r1 d
          = (ok2, r2, d')" for n r1 d ok2 r2 d'
    using that by (erule_tac load_all_length [rotated]) (auto dest: load_steps_length)
  then show "LoadGCHK c iw ih r sprites gui = (ok, r', gui') \<Longrightarrow>
      length (fp r') \<le> length (fp r)"
    by (fastforce simp: LoadGCHK_def split: if_splits option.splits prod.splits
        dest!: GetUInt16_length)
qed

lemma LoadGSLI_length:
  "LoadGSLI c r sprites gui = (ok, r', gui') \<Longrightarrow> length (fp r') \<le> length (fp r)"
  by (fastforce simp: LoadGSLI_def split: if_splits option.splits prod.splits
      dest!: GetUInt16_length GetUInt8_length load_into_length)

lemma LoadGSCL_length:
  "LoadGSCL c iw ih r sprites gui = (ok, r', gui') \<Longrightarrow> length (fp r') \<le> length (fp r)"
proof -
  have "length (fp r2) \<le> length (fp r1)"
    if "load_all (map (\<lambda>sprnum. load_sprite (GSCL_store iw ih p sprnum) sprites) [0..<n]) r1 d
          = (ok2, r2, d')" for p n r1 d ok2 r2 d'
    using that by (erule_tac load_all_length [rotated]) (auto dest: load_steps_length)
  then show "LoadGSCL c iw ih r sprites gui = (ok, r', gui') \<Longrightarrow>
      length (fp r') \<le> length (fp r)"
    by (fastforce simp: LoadGSCL_def split: if_splits option.splits prod.splits
        dest!: GetUInt16_length GetUInt8_length)
qed

lemma GSLP_sprites_length:
  "GSLP_sprites c sprites texts r gui = (ok, r', gui') \<Longrightarrow> length (fp r') \<le> length (fp r)"
  unfolding GSLP_sprites_def
  by (erule load_all_length [rotated]) (auto dest: load_steps_length load_into_length)

lemma LoadGSLP_length:
  "LoadGSLP c reg r sprites texts gui g = Some (ok, r', gui', g') \<Longrightarrow>
   length (fp r') \<le> length (fp r)"
  by (auto simp: LoadGSLP_def split: if_splits option.splits prod.splits
      dest!: GSLP_sprites_length)

lemma MENU_sprites_length:
  "MENU_sprites sprites r gui = (ok, r', gui') \<Longrightarrow> length (fp r') \<le> length (fp r)"
  unfolding MENU_sprites_def
  by (erule load_all_length [rotated]) (auto dest: load_steps_length)

lemma LoadMENU_length:
  "LoadMENU r sprites gui = (ok, r', gui') \<Longrightarrow> length (fp r') \<le> length (fp r)"
  by (auto simp: LoadMENU_def split: if_splits dest!: MENU_sprites_length)

lemma gui_in_place_length:
  "gui_in_place msg res s = Next s' \<Longrightarrow>
   length (fp (fst (snd res))) \<le> length (fp (ls_rcd_file s)) \<Longrightarrow>
   length (fp (ls_rcd_file s')) \<le> length (fp (ls_rcd_file s))"
  by (auto simp: gui_in_place_def split: prod.splits if_splits)

lemma gui_handlers_forward:
  "length (fp (fst (snd (LoadGCHK c iw ih r sprites gui)))) \<le> length (fp r)"
  "length (fp (fst (snd (LoadGBOR c r sprites gui)))) \<le> length (fp r)"
  "length (fp (fst (snd (LoadGSLI c r sprites gui)))) \<le> length (fp r)"
  "length (fp (fst (snd (LoadGSCL c iw ih r sprites gui)))) \<le> length (fp r)"
  "length (fp (fst (snd (LoadMENU r sprites gui)))) \<le> length (fp r)"
  using LoadGCHK_length [of c iw ih r sprites gui] LoadGBOR_length [of c r sprites gui]
    LoadGSLI_length [of c r sprites gui] LoadGSCL_length [of c iw ih r sprites gui]
    LoadMENU_length [of r sprites gui]
  by (metis prod.collapse)+

lemmas gui_in_place_handlers =
  gui_in_place_length [OF _ gui_handlers_forward(1)]
  gui_in_place_length [OF _ gui_handlers_forward(2)]
  gui_in_place_length [OF _ gui_handlers_forward(3)]
  gui_in_place_length [OF _ gui_handlers_forward(4)]
  gui_in_place_length [OF _ gui_handlers_forward(5)]

lemma in_place_length:
  "in_place msg res s = Next s' \<Longrightarrow>
   length (fp (fst (snd res))) \<le> length (fp (ls_rcd_file s)) \<Longrightarrow>
   length (fp (ls_rcd_file s')) \<le> length (fp (ls_rcd_file s))"
  by (auto simp: in_place_def split: prod.splits if_splits)

lemma external_length:
  "external msg res s = Next s' \<Longrightarrow>
   length (fp (ls_rcd_file s')) \<le> length (fp (ls_rcd_file s))"
  by (auto simp: external_def advance_def split: prod.splits if_splits)

lemma external_type_length:
  "external_type msg add res s = Next s' \<Longrightarrow>
   length (fp (ls_rcd_file s')) \<le> length (fp (ls_rcd_file s))"
  by (auto simp: external_type_def advance_def split: prod.splits option.splits)

lemma handlers_forward:
  "length (fp (fst (snd (LoadSURF c r sprites this)))) \<le> length (fp r)"
  "length (fp (fst (snd (LoadTSEL c r sprites this)))) \<le> length (fp r)"
  "length (fp (fst (snd (LoadPATH c r sprites this)))) \<le> length (fp r)"
  "length (fp (fst (snd (LoadPDEC c r sprites this)))) \<le> length (fp r)"
  "length (fp (fst (snd (LoadTCOR c r sprites this)))) \<le> length (fp r)"
  "length (fp (fst (snd (LoadFUND c r sprites this)))) \<le> length (fp r)"
  "length (fp (fst (snd (LoadPLAT c r sprites this)))) \<le> length (fp r)"
  "length (fp (fst (snd (LoadSUPP c r sprites this)))) \<le> length (fp r)"
  "length (fp (fst (snd (LoadBDIR c r sprites this)))) \<le> length (fp r)"
  using LoadSURF_length [of c r sprites this] LoadTSEL_length [of c r sprites this]
    LoadPATH_length [of c r sprites this] LoadPDEC_length [of c r sprites this]
    LoadTCOR_length [of c r sprites this] LoadFUND_length [of c r sprites this]
    LoadPLAT_length [of c r sprites this] LoadSUPP_length [of c r sprites this]
    LoadBDIR_length [of c r sprites this]
  by (metis prod.collapse)+

lemmas in_place_handlers =
  in_place_length [OF _ handlers_forward(1)] in_place_length [OF _ handlers_forward(2)]
  in_place_length [OF _ handlers_forward(3)] in_place_length [OF _ handlers_forward(4)]
  in_place_length [OF _ handlers_forward(5)] in_place_length [OF _ handlers_forward(6)]
  in_place_length [OF _ handlers_forward(7)] in_place_length [OF _ handlers_forward(8)]
  in_place_length [OF _ handlers_forward(9)]

lemma Load_block_length:
  assumes "Load_block c e blk_num s = Next s'"
  shows "length (fp (ls_rcd_file s')) \<le> length (fp (ls_rcd_file s))"
  using assms unfolding Load_block_def Let_def
  by (auto split: if_splits option.splits prod.splits outcome.splits
        TimedAnimation_result.splits
      simp: advance_def
      dest!: SkipBytes_length Fence_Load_length Animation_Load_length
        AnimationSprites_Load_length TextData_Load_length FrameSet_Load_length
        TimedAnimation_Load_length external_length external_type_length
        in_place_handlers gui_in_place_handlers LoadGSLP_length)


lemma ReadBlockHeader_length:
  "ReadBlockHeader r = Some r' \<Longrightarrow> length (fp r') < length (fp r)"
  by (auto simp: ReadBlockHeader_def split: option.splits
      dest!: GetBlob_length GetUInt32_length)

text \<open>
  The result of \<^verbatim>\<open>SpriteManager::Load\<close>: it returned \<^verbatim>\<open>nullptr\<close> at the end of the
  file, it returned an error message, or the program stopped. Each result comes
  with the state the run left.
\<close>

datatype 'x load_result =
  Loaded "'x LoadState" | LoadError string "'x LoadState" | LoadCrashed "'x LoadState"

text \<open>The loop \<^verbatim>\<open>for (uint blk_num = 1;; blk_num++)\<close> of \<^verbatim>\<open>SpriteManager::Load\<close>.\<close>

function Load_loop ::
  "Headers \<Rightarrow> 'x Externals \<Rightarrow> uint32 \<Rightarrow> 'x LoadState \<Rightarrow> 'x load_result" where
  "Load_loop c e blk_num s =
     (case ReadBlockHeader (ls_rcd_file s) of
        None \<Rightarrow> Loaded s
      | Some r \<Rightarrow>
          (case Load_block c e blk_num (s\<lparr>ls_rcd_file := r\<rparr>) of
             Next s' \<Rightarrow> Load_loop c e (blk_num + 1) s'
           | Stop msg s' \<Rightarrow> LoadError msg s'
           | Crashed s' \<Rightarrow> LoadCrashed s'))"
  by pat_completeness auto
termination
  by (relation "measure (\<lambda>(c, e, blk_num, s). length (fp (ls_rcd_file s)))")
    (auto dest!: ReadBlockHeader_length Load_block_length)

declare Load_loop.simps [simp del]

text \<open>
  Modelled from the spec: \<^verbatim>\<open>RcdFileReader::CheckFileHeader\<close> (in the missing
  \<^verbatim>\<open>rcdfile.cpp\<close>). The file starts with a 4-byte magic tag and the version of the
  container format; the check fails when either differs from what is asked for.
\<close>

definition CheckFileHeader :: "RcdFileReader \<Rightarrow> string \<Rightarrow> uint32 \<Rightarrow> RcdFileReader option" where
  "CheckFileHeader r hdr_name ver =
     (case GetBlob r 4 of
        None \<Rightarrow> None
      | Some (nm, r1) \<Rightarrow>
          (case GetUInt32 r1 of
             None \<Rightarrow> None
           | Some (v, r2) \<Rightarrow> if tag_of_bytes nm = hdr_name \<and> v = ver then Some r2 else None))"

text \<open>
  \<^verbatim>\<open>SpriteManager::Load\<close> on the file \<open>fname\<close> with the content \<open>bytes\<close>, started with
  the sprite manager \<open>this\<close>, the GUI sprites \<open>gui\<close> and the other registries \<open>g\<close>.
\<close>

definition Load ::
  "Headers \<Rightarrow> 'x Externals \<Rightarrow> string \<Rightarrow> byte list \<Rightarrow> SpriteManager \<Rightarrow> GuiSprites \<Rightarrow> 'x \<Rightarrow>
   'x load_result" where
  "Load c e fname bytes this gui g =
     (let rcd_file = \<lparr>filename = fname, name = [], version = 0, size = 0, fp = bytes\<rparr>;
          s = \<lparr>ls_rcd_file = rcd_file, ls_sprites = Map.empty, ls_texts = Map.empty,
               ls_track_pieces = Map.empty, ls_this = this, ls_gui = gui, ls_globals = g,
               ls_stderr = []\<rparr>
      in case CheckFileHeader rcd_file ''RCDF'' 2 of
           None \<Rightarrow> LoadError ''Bad header'' s
         | Some r \<Rightarrow> Load_loop c e 1 (s\<lparr>ls_rcd_file := r\<rparr>))"


text \<open>
  The tile width that a sprite set block declares: \<^verbatim>\<open>LoadSURF\<close>, \<^verbatim>\<open>LoadPATH\<close>, \<^verbatim>\<open>LoadFUND\<close>
  and \<^verbatim>\<open>LoadSUPP\<close> read it as the second 16-bit field of the block, \<^verbatim>\<open>LoadTSEL\<close>,
  \<^verbatim>\<open>LoadPDEC\<close>, \<^verbatim>\<open>LoadTCOR\<close>, \<^verbatim>\<open>LoadPLAT\<close> and \<^verbatim>\<open>LoadBDIR\<close> as the first.
\<close>

definition declared_width :: "string \<Rightarrow> RcdFileReader \<Rightarrow> uint16 option" where
  "declared_width tag r =
     (if tag \<in> {''SURF'', ''PATH'', ''FUND'', ''SUPP''}
      then (case GetUInt16 r of None \<Rightarrow> None | Some (t, r1) \<Rightarrow> map_option fst (GetUInt16 r1))
      else map_option fst (GetUInt16 r))"




section \<open>The layout of a TEXT block\<close>

text \<open>
  The layout that the specification gives to the payload of a TEXT block, written
  from its words and not from \<^verbatim>\<open>TextData::Load\<close>: a sequence of string records, each
  a 16-bit length, the 8-bit length of the name, the name, and a sequence of
  translation records; a translation record is a 16-bit length, the 8-bit length of
  the language name, the language name and the text. Every declared length counts
  the three bytes of its own header and everything up to the end of the record, so
  a record declares exactly the bytes it is made of. \<open>le16\<close> gives the two bytes of a
  16-bit number, low byte first.
\<close>

definition le16 :: "nat \<Rightarrow> byte list" where
  "le16 n = [word_of_nat (n mod 256), word_of_nat (n div 256 mod 256)]"

type_synonym translation = "byte list \<times> byte list"
type_synonym text_string = "byte list \<times> translation list"

definition translation_bytes :: "translation \<Rightarrow> byte list" where
  "translation_bytes tr =
     (case tr of (lang, body) \<Rightarrow>
        le16 (3 + length lang + length body) @ word_of_nat (length lang) # lang @ body)"

definition string_bytes :: "text_string \<Rightarrow> byte list" where
  "string_bytes s =
     (case s of (nm, trs) \<Rightarrow>
        le16 (3 + length nm + length (concat (map translation_bytes trs))) @
        word_of_nat (length nm) # nm @ concat (map translation_bytes trs))"

definition text_block_bytes :: "text_string list \<Rightarrow> byte list" where
  "text_block_bytes ss = concat (map string_bytes ss)"

text \<open>The lengths of a record fit the fields that declare them.\<close>

definition translation_fits :: "translation \<Rightarrow> bool" where
  "translation_fits tr =
     (case tr of (lang, body) \<Rightarrow> length lang < 256 \<and> 3 + length lang + length body < 65536)"

definition string_fits :: "text_string \<Rightarrow> bool" where
  "string_fits s =
     (case s of (nm, trs) \<Rightarrow>
        length nm < 256 \<and> 3 + length nm + length (concat (map translation_bytes trs)) < 65536 \<and>
        list_all translation_fits trs)"



section \<open>The tags of the dispatcher\<close>

text \<open>
  The tags that \<^verbatim>\<open>SpriteManager::Load\<close> compares the name of a block with, in the
  order of the comparisons, and the state in which the dispatcher leaves the block
  \<open>r\<close> that it does not know: the message on \<^verbatim>\<open>stderr\<close> is written and the payload is
  skipped.
\<close>

definition recognized_tags :: "string list" where
  "recognized_tags =
     [''INFO'', ''8PXL'', ''32PX'', ''SURF'', ''TSEL'', ''PATH'', ''PDEC'', ''TCOR'', ''FENC'',
      ''FUND'', ''PLAT'', ''SUPP'', ''BDIR'', ''GCHK'', ''GBOR'', ''GSLI'', ''GSCL'', ''GSLP'',
      ''MENU'', ''ANIM'', ''ANSP'', ''PRSG'', ''TEXT'', ''SHOP'', ''FSET'', ''TIMA'', ''SCNY'',
      ''RIEE'', ''FGTR'', ''TRCK'', ''RCST'', ''CSPL'', ''CARS'']"

definition skipped :: "RcdFileReader \<Rightarrow> 'x LoadState \<Rightarrow> 'x LoadState" where
  "skipped r s =
     s\<lparr>ls_rcd_file := r\<lparr>fp := drop (unat (size r)) (fp r)\<rparr>,
       ls_stderr := ls_stderr s @ [(name r, version r)]\<rparr>"



section \<open>The blocks that a run has loaded\<close>

text \<open>
  Two kinds of blocks of the dispatcher. A block of the \<open>staged_tags\<close> is decoded
  into an object of its own (\<^verbatim>\<open>new Fence\<close>, \<^verbatim>\<open>new Animation\<close>, ...), which is put into
  the sprite manager after \<^verbatim>\<open>Load\<close> has returned \<^verbatim>\<open>true\<close>. A block of the
  \<open>in_place_tags\<close> is decoded by a member function of the sprite manager
  (\<^verbatim>\<open>LoadSURF\<close>, ...) that writes the sprites to the sprite store while it reads them.
\<close>

definition staged_tags :: "string list" where
  "staged_tags = [''FENC'', ''ANIM'', ''ANSP'', ''TEXT'', ''FSET'', ''TIMA'']"

definition in_place_tags :: "string list" where
  "in_place_tags =
     [''SURF'', ''TSEL'', ''PATH'', ''PDEC'', ''TCOR'', ''FUND'', ''PLAT'', ''SUPP'', ''BDIR'']"




section \<open>The fields that a block is decoded into\<close>

text \<open>
  A loader that loads in place reads the fields of its block in order and stores each
  of them as soon as it is read. A field is the kind of value that is read (a sprite
  reference, a text reference, a byte or a 32-bit word) and the assignment that
  stores it in the object that is loaded into. \<open>decode_field\<close> reads the value of one
  field as the loaders do; \<open>decode_fields\<close> gives the values of the fields that can be
  read, up to the first that cannot, and the reader behind them; \<open>write_fields\<close>
  stores values in the fields they belong to, the first value in the first field.
\<close>

datatype field_kind = KSprite | KText | KByte | KWord

datatype field_value =
  VSprite ImageData_ptr | VText TextData_ptr | VByte byte | VWord uint32

type_synonym 's field = "field_kind \<times> (field_value \<Rightarrow> 's \<Rightarrow> 's)"

definition sprite_field :: "(ImageData_ptr \<Rightarrow> 's \<Rightarrow> 's) \<Rightarrow> 's field" where
  "sprite_field put = (KSprite, \<lambda>v s. case v of VSprite spr \<Rightarrow> put spr s | _ \<Rightarrow> s)"






fun write_fields :: "'s field list \<Rightarrow> field_value list \<Rightarrow> 's \<Rightarrow> 's" where
  "write_fields (f # fs) (v # vs) s = write_fields fs vs (snd f v s)"
| "write_fields fs vs s = s"

text \<open>
  The fields of an array of \<open>n\<close> sprites and of an array of \<open>n\<close> rows of \<open>cols\<close>
  sprites, in the order of the loops over them, and the fields of a member object
  as fields of the object that holds it. \<open>get\<close> reads the array or the member and
  \<open>put\<close> assigns it.
\<close>

definition array_fields ::
  "('s \<Rightarrow> sprite_array) \<Rightarrow> (sprite_array \<Rightarrow> 's \<Rightarrow> 's) \<Rightarrow> nat \<Rightarrow> 's field list" where
  "array_fields get put n =
     map (\<lambda>i. sprite_field (\<lambda>spr s. put ((get s)(i := spr)) s)) [0..<n]"


definition inside :: "('t \<Rightarrow> 's) \<Rightarrow> ('s \<Rightarrow> 't \<Rightarrow> 't) \<Rightarrow> 's field list \<Rightarrow> 't field list" where
  "inside get put fs = map (\<lambda>(k, w). (k, \<lambda>v t. put (w v (get t)) t)) fs"



text \<open>
  The fields of the blocks that are loaded into the sprite store in place, in the
  order in which the handler reads them: for every statement
  \<^verbatim>\<open>LoadSpriteFromFile(rcd_file, sprites, &x)\<close> of the handler the field \<^verbatim>\<open>x\<close>. The
  ground type, the path type and the foundation type that select the array are
  decoded from the first 16 bits of the block (\<open>first_u16\<close>). \<open>behind_header\<close> is the reader
  at the first field, behind the \<open>header_length\<close> bytes that the handler reads before
  it (type, width, height).
\<close>

definition first_u16 :: "RcdFileReader \<Rightarrow> uint16" where
  "first_u16 r = (case GetUInt16 r of None \<Rightarrow> 0 | Some (v, r') \<Rightarrow> v)"








definition u16_at :: "nat \<Rightarrow> RcdFileReader \<Rightarrow> uint16" where
  "u16_at n r = first_u16 (advance r n)"









text \<open>
  The tags of the blocks that are loaded into the GUI sprites in place, and the
  tags of the blocks whose loader is defined in another file.
\<close>

definition gui_tags :: "string list" where
  "gui_tags = [''GCHK'', ''GBOR'', ''GSLI'', ''GSCL'', ''GSLP'', ''MENU'']"

definition external_tags :: "string list" where
  "external_tags =
     [''8PXL'', ''32PX'', ''PRSG'', ''SHOP'', ''SCNY'', ''RIEE'', ''FGTR'', ''TRCK'', ''RCST'',
      ''CSPL'', ''CARS'']"




section \<open>Concrete inputs\<close>

definition example_reader :: "string \<Rightarrow> uint32 \<Rightarrow> byte list \<Rightarrow> RcdFileReader" where
  "example_reader nm v bs = \<lparr>filename = ''example.rcd'', name = nm, version = v, size = word_of_nat (length bs), fp = bs\<rparr>"

text \<open>
  Values for the constants of the headers. Apart from \<open>NUM_SLOPE_SPRITES\<close>, which
  is the number of rows of \<^verbatim>\<open>_slope_rotation\<close>, they are examples.
\<close>

definition example_headers :: Headers where
  "example_headers =
     \<lparr>NUM_SLOPE_SPRITES = 23, PATH_COUNT = 4, FENCE_COUNT = 4, FENCE_TYPE_COUNT = 4,
      EDGE_COUNT = 4, VOR_NUM_ORIENT = 4, SSP_COUNT = 4, FOUNDATION_SPRITES = 6,
      PLATFORM_RAMP = 4, PLATFORM_RIGHT_RAMP = 4, PLATFORM_LEFT_RAMP = 4, BUILD_ARROWS = 4,
      GTP_GRASS0 = 0, GTP_GRASS1 = 1, GTP_GRASS2 = 2, GTP_GRASS3 = 3, GTP_UNDERGROUND = 4,
      GTP_DESERT = 5, GTP_CURSOR_TEST = 6, GTP_CURSOR_EDGE_TEST = 7, GTP_COUNT = 8,
      GTP_INVALID = 0xFF,
      FDT_GROUND = 0, FDT_WOOD = 1, FDT_BRICK = 2, FDT_COUNT = 3, FDT_INVALID = 0xFF,
      ANIM_BEGIN = 1, ANIM_LAST = 30, ANIM_INVALID = 0, LANGUAGE_COUNT = 8,
      WBS_COUNT = 9, WCS_COUNT = 6, WSS_COUNT = 3, WLS_COUNT = 9,
      TSL_STRAIGHT_DOWN = 0, TSL_STEEP_DOWN = 1, TSL_DOWN = 2, TSL_FLAT = 3, TSL_UP = 4,
      TSL_STEEP_UP = 5, TSL_STRAIGHT_UP = 6, TBN_COUNT = 7, TPB_COUNT = 3, TC_END = 4,
      WTP_COUNT = 5, TOOLBAR_IMAGES = 8\<rparr>"

text \<open>Little-endian bytes of a 32-bit number, the bytes of a tag, and a whole block.\<close>

definition le32 :: "nat \<Rightarrow> byte list" where
  "le32 n = [word_of_nat (n mod 256), word_of_nat (n div 256 mod 256),
             word_of_nat (n div 65536 mod 256), word_of_nat (n div 16777216 mod 256)]"

definition tag_bytes :: "string \<Rightarrow> byte list" where
  "tag_bytes t = map (\<lambda>ch. of_char ch) t"

definition block_bytes :: "string \<Rightarrow> nat \<Rightarrow> byte list \<Rightarrow> byte list" where
  "block_bytes t v payload = tag_bytes t @ le32 v @ le32 (length payload) @ payload"

definition file_bytes :: "byte list list \<Rightarrow> byte list" where
  "file_bytes bs = tag_bytes ''RCDF'' @ le32 2 @ concat bs"

text \<open>A sprite manager in which nothing is loaded.\<close>

definition empty_Path :: Path where
  "empty_Path = \<lparr>path_status = PAS_UNUSED, path_sprites_of = (\<lambda>_. None)\<rparr>"

definition empty_PathDecoration :: PathDecoration where
  "empty_PathDecoration =
     \<lparr>litterbin = (\<lambda>_. None), overflow_bin = (\<lambda>_. None), demolished_bin = (\<lambda>_. None),
      lamp_post = (\<lambda>_. None), demolished_lamp = (\<lambda>_. None), bench = (\<lambda>_. None),
      demolished_bench = (\<lambda>_. None), flat_litter = (\<lambda>_. None), ramp_litter = (\<lambda>_ _. None),
      flat_vomit = (\<lambda>_. None), ramp_vomit = (\<lambda>_ _. None), flat_litter_count = 0,
      flat_vomit_count = 0, ramp_litter_count = (\<lambda>_. 0), ramp_vomit_count = (\<lambda>_. 0)\<rparr>"

definition empty_SpriteStorage :: SpriteStorage where
  "empty_SpriteStorage =
     \<lparr>surface = (\<lambda>_ _. None), tile_select = (\<lambda>_. None), path_sprites = (\<lambda>_. empty_Path),
      path_decoration = empty_PathDecoration, tile_corners = (\<lambda>_ _. None),
      foundation = (\<lambda>_ _. None),
      platform = \<lparr>flat = (\<lambda>_. None), ramp = (\<lambda>_. None), right_ramp = (\<lambda>_. None),
                  left_ramp = (\<lambda>_. None)\<rparr>,
      support = (\<lambda>_. None), build_arrows = (\<lambda>_. None), fence = (\<lambda>_. None),
      store_animations = [], frame_sets = Map.empty, timed_animations = Map.empty\<rparr>"

definition empty_SpriteManager :: SpriteManager where
  "empty_SpriteManager = \<lparr>store = empty_SpriteStorage, blocks = [], animations = []\<rparr>"

text \<open>The GUI sprites as \<^verbatim>\<open>GuiSprites::Clear\<close> leaves them.\<close>

definition empty_BorderSpriteData :: BorderSpriteData where
  "empty_BorderSpriteData =
     \<lparr>border_top = 0, border_left = 0, border_right = 0, border_bottom = 0, min_width = 0,
      min_height = 0, hor_stepsize = 0, vert_stepsize = 0, bsd_normal = (\<lambda>_. None),
      bsd_pressed = (\<lambda>_. None)\<rparr>"

definition empty_CheckableWidgetSpriteData :: CheckableWidgetSpriteData where
  "empty_CheckableWidgetSpriteData = \<lparr>cws_width = 0, cws_height = 0, cws_sprites = (\<lambda>_. None)\<rparr>"

definition empty_SliderSpriteData :: SliderSpriteData where
  "empty_SliderSpriteData =
     \<lparr>min_bar_length = 0, ssd_stepsize = 0, ssd_height = 0, ssd_normal = (\<lambda>_. None),
      ssd_shaded = (\<lambda>_. None)\<rparr>"

definition empty_ScrollbarSpriteData :: ScrollbarSpriteData where
  "empty_ScrollbarSpriteData =
     \<lparr>min_length_all = 0, min_length_slider = 0, stepsize_bar = 0, stepsize_slider = 0,
      scr_height = 0, scr_normal = (\<lambda>_. None), scr_shaded = (\<lambda>_. None)\<rparr>"

definition empty_GuiSprites :: GuiSprites where
  "empty_GuiSprites =
     \<lparr>titlebar = empty_BorderSpriteData, button = empty_BorderSpriteData,
      left_tabbar = empty_BorderSpriteData, tab_tabbar = empty_BorderSpriteData,
      right_tabbar = empty_BorderSpriteData, tabbar_panel = empty_BorderSpriteData,
      panel = empty_BorderSpriteData,
      checkbox = empty_CheckableWidgetSpriteData, radio_button = empty_CheckableWidgetSpriteData,
      hor_slider = empty_SliderSpriteData, vert_slider = empty_SliderSpriteData,
      hor_scroll = empty_ScrollbarSpriteData, vert_scroll = empty_ScrollbarSpriteData,
      slope_select = (\<lambda>_. None), bend_select = (\<lambda>_. None), bank_select = (\<lambda>_. None),
      triangle_left = None, triangle_right = None, triangle_up = None, triangle_down = None,
      platform_select = (\<lambda>_. None), power_select = (\<lambda>_. None), disabled = None,
      compass = (\<lambda>_. None), bulldozer = None, weather = (\<lambda>_. None),
      lights_rog = (\<lambda>_. None), lights_rg = (\<lambda>_. None),
      rot_2d_pos = None, rot_2d_neg = None, rot_3d_pos = None, rot_3d_neg = None,
      close_sprite = None, dot_sprite = None, message_goto = None, message_park = None,
      message_guest = None, message_ride = None, message_ride_type = None,
      toolbar_images = (\<lambda>_. None), gui_text = None, mainmenu_splash_duration = 0,
      mainmenu_logo = None, mainmenu_splash = None, mainmenu_new = None, mainmenu_load = None,
      mainmenu_settings = None, mainmenu_quit = None\<rparr>"

text \<open>
  An instance of \<^verbatim>\<open>DecodeUtf8Char\<close>: the UTF-8 decoding of one character, which rejects
  stray continuation bytes, truncated and overlong sequences, surrogates and code
  points above U+10FFFF.
\<close>

definition utf8_continuation :: "byte list \<Rightarrow> nat \<Rightarrow> uint32 \<Rightarrow> uint32 option" where
  "utf8_continuation bs n v =
     (if length bs < n \<or> (\<exists>b \<in> set (take n bs). b AND 0xC0 \<noteq> 0x80) then None
      else Some (foldl (\<lambda>a b. push_bit 6 a OR ucast (b AND 0x3F)) v (take n bs)))"

definition example_DecodeUtf8Char :: utf8_decoder where
  "example_DecodeUtf8Char bs =
     (case bs of
        [] \<Rightarrow> (0, 0)
      | b # rest \<Rightarrow>
          if b AND 0x80 = 0 then (1, ucast b)
          else
            let (n, lo, v) =
                  (if b AND 0xE0 = 0xC0 then (1, 0x80, ucast (b AND 0x1F))
                   else if b AND 0xF0 = 0xE0 then (2, 0x800, ucast (b AND 0x0F))
                   else if b AND 0xF8 = 0xF0 then (3, 0x10000, ucast (b AND 0x07))
                   else (0, 0, 0 :: uint32))
            in if n = 0 then (0, 0)
               else case utf8_continuation rest n v of
                 None \<Rightarrow> (0, 0)
               | Some cp \<Rightarrow>
                   if cp < lo \<or> (0xD800 \<le> cp \<and> cp \<le> 0xDFFF) \<or> cp > 0x10FFFF then (0, 0)
                   else (Suc n, cp))"

text \<open>An instance of \<^verbatim>\<open>GetLanguageIndex\<close> that knows the language \<^verbatim>\<open>en_GB\<close> only.\<close>

definition example_GetLanguageIndex :: language_index where
  "example_GetLanguageIndex nm = (if nm = tag_bytes ''en_GB'' @ [0] then 0 else -1)"

text \<open>
  Instances of the loaders that are parameters: \<^verbatim>\<open>LoadImage\<close> consumes the block and
  returns the address 1000 plus the size of the block; every image is 16 by 16;
  \<^verbatim>\<open>RegisterStrings\<close> changes nothing; the other loaders consume nothing and fail.
\<close>

definition example_externals :: "unit Externals" where
  "example_externals =
     \<lparr>DecodeUtf8Char = example_DecodeUtf8Char,
      GetLanguageIndex = example_GetLanguageIndex,
      LoadImage = (\<lambda>r g. (Some (1000 + unat (size r)), unat (size r), g)),
      ImageData_width = (\<lambda>a. 16),
      ImageData_height = (\<lambda>a. 16),
      RegisterStrings = (\<lambda>t g. g),
      LoadPRSG = (\<lambda>r g. (False, 0, g)),
      ShopType_Load = (\<lambda>r sp tx g. (None, 0, g)),
      SceneryType_Load = (\<lambda>r sp tx g. (None, 0, g)),
      RideEntranceExitType_Load = (\<lambda>r sp tx g. (None, 0, g)),
      GentleThrillRideType_Load = (\<lambda>r sp tx g. (None, 0, g)),
      TrackPiece_Load = (\<lambda>r sp g. (None, 0, g)),
      CoasterType_Load = (\<lambda>r tx tp g. (None, 0, g)),
      LoadCoasterPlatform = (\<lambda>r sp g. (False, 0, g)),
      GetNewCarType = (\<lambda>g. (None, g)),
      CarType_Load = (\<lambda>h r sp g. (False, 0, g)),
      AddRideType = (\<lambda>h g. g),
      AddSceneryType = (\<lambda>h g. g),
      AddRideEntranceExitType = (\<lambda>h g. g)\<rparr>"


text \<open>
  The payload of a SURF block with the ground type bytes \<open>gt\<close>, tile width 64 and
  23 null sprite references, and the state in which \<^verbatim>\<open>SpriteManager::Load\<close> starts
  its loop on the given bytes with nothing loaded.
\<close>

definition surf_payload :: "nat \<Rightarrow> byte list" where
  "surf_payload gt = le16 gt @ le16 64 @ le16 0 @ replicate (4 * 23) 0"

definition start_state :: "byte list \<Rightarrow> unit LoadState" where
  "start_state bs =
     \<lparr>ls_rcd_file = \<lparr>filename = ''example.rcd'', name = [], version = 0, size = 0, fp = bs\<rparr>,
      ls_sprites = Map.empty, ls_texts = Map.empty, ls_track_pieces = Map.empty,
      ls_this = empty_SpriteManager, ls_gui = empty_GuiSprites, ls_globals = (),
      ls_stderr = []\<rparr>"


text \<open>
  The payload of a sprite set block: the given 16-bit fields, then \<open>n\<close> null sprite
  references.
\<close>

definition sprite_set_payload :: "nat list \<Rightarrow> nat \<Rightarrow> byte list" where
  "sprite_set_payload vals n = concat (map le16 vals) @ replicate (4 * n) 0"


text \<open>
  The payload of an ANIM block: the person type \<open>pt\<close>, the animation type 1, the
  number of frames \<open>fc\<close> and the 16-bit fields of the frames.
\<close>

definition anim_payload :: "nat \<Rightarrow> nat \<Rightarrow> nat list \<Rightarrow> byte list" where
  "anim_payload pt fc vals = word_of_nat pt # le16 1 @ le16 fc @ concat (map le16 vals)"


text \<open>
  The payload of a TEXT block with one string, named \<^verbatim>\<open>NAME\<close>, and its translation
  \<^verbatim>\<open>Hello\<close> in the language \<^verbatim>\<open>en_GB\<close>. The string record declares the length \<open>str_len\<close>
  and the translation record the length \<open>tr_len\<close>; the records have 23 and 15 bytes.
\<close>

definition text_payload :: "nat \<Rightarrow> nat \<Rightarrow> byte list" where
  "text_payload str_len tr_len =
     le16 str_len @ 5 # tag_bytes ''NAME'' @ 0 # le16 tr_len @ 6 # tag_bytes ''en_GB'' @ 0 #
     tag_bytes ''Hello'' @ [0]"



text \<open>
  A file with a block of the unknown tag \<^verbatim>\<open>XXXX\<close> and three bytes of payload, followed
  by the TEXT block above; the reader after the header of the first block; the text
  that the second block holds; and the state that \<^verbatim>\<open>SpriteManager::Load\<close> leaves at the
  end of this file.
\<close>

definition unknown_then_text :: "byte list" where
  "unknown_then_text = block_bytes ''XXXX'' 1 [1, 2, 3] @ block_bytes ''TEXT'' 2 (text_payload 23 15)"

definition unknown_block :: RcdFileReader where
  "unknown_block =
     \<lparr>filename = ''example.rcd'', name = ''XXXX'', version = 1, size = 3,
      fp = [1, 2, 3] @ block_bytes ''TEXT'' 2 (text_payload 23 15)\<rparr>"

definition example_text :: TextData where
  "example_text =
     \<lparr>strings = [\<lparr>str_name = Some 0, languages = [0 \<mapsto> 5]\<rparr>], string_count = 1,
      text_data = tag_bytes ''NAME'' @ 0 # tag_bytes ''Hello'' @ [0]\<rparr>"

definition after_unknown_then_text :: "unit LoadState" where
  "after_unknown_then_text =
     \<lparr>ls_rcd_file = (example_reader ''TEXT'' 2 (text_payload 23 15))\<lparr>fp := []\<rparr>,
      ls_sprites = Map.empty, ls_texts = [2 \<mapsto> Some example_text],
      ls_track_pieces = Map.empty,
      ls_this = empty_SpriteManager\<lparr>blocks := [TextBlock example_text]\<rparr>,
      ls_gui = empty_GuiSprites, ls_globals = (), ls_stderr = [(''XXXX'', 1)]\<rparr>"

text \<open>
  A file that ends in the payload of a block of the unknown tag \<^verbatim>\<open>XXXX\<close>: the header
  declares three bytes and two are left. The reader after this header.
\<close>

definition truncated_unknown :: "byte list" where
  "truncated_unknown = tag_bytes ''XXXX'' @ le32 1 @ le32 3 @ [1, 2]"

definition truncated_block :: RcdFileReader where
  "truncated_block =
     \<lparr>filename = ''example.rcd'', name = ''XXXX'', version = 1, size = 3, fp = [1, 2]\<rparr>"



















chapter \<open>The claims\<close>

section \<open>Claim C1: resolving cross references\<close>

lemma LoadSpriteFromFile_zero:
  "GetUInt32 rcd_file = Some (0, r) \<Longrightarrow> LoadSpriteFromFile rcd_file sprites = Some (None, r)"
  by (simp add: LoadSpriteFromFile_def)

lemma LoadTextFromFile_zero:
  "GetUInt32 rcd_file = Some (0, r) \<Longrightarrow> LoadTextFromFile rcd_file texts = Some (None, r)"
  by (simp add: LoadTextFromFile_def)

lemma LoadSpriteFromFile_nonzero:
  "GetUInt32 rcd_file = Some (val, r) \<Longrightarrow> val \<noteq> 0 \<Longrightarrow>
   LoadSpriteFromFile rcd_file sprites =
     (case sprites val of None \<Rightarrow> None | Some spr \<Rightarrow> Some (spr, r))"
  by (simp add: LoadSpriteFromFile_def)

lemma LoadTextFromFile_nonzero:
  "GetUInt32 rcd_file = Some (val, r) \<Longrightarrow> val \<noteq> 0 \<Longrightarrow>
   LoadTextFromFile rcd_file texts =
     (case texts val of None \<Rightarrow> None | Some txt \<Rightarrow> Some (txt, r))"
  by (simp add: LoadTextFromFile_def)

text \<open>
  Claim C1. Let the 32-bit ID read from the file be \<open>val\<close>. If \<open>val\<close> is 0, both
  \<^verbatim>\<open>LoadSpriteFromFile\<close> and \<^verbatim>\<open>LoadTextFromFile\<close> succeed and store the null pointer,
  whatever the table holds (the table is not consulted). If \<open>val\<close> is not 0 and the
  table registers an object under \<open>val\<close>, they succeed and yield exactly that object.
  If \<open>val\<close> is not 0 and the table has no entry for it, they fail.
\<close>

theorem cross_reference_resolution:
  assumes "GetUInt32 rcd_file = Some (val, r)"
  shows "(val = 0 \<longrightarrow>
            (\<forall>sprites. LoadSpriteFromFile rcd_file sprites = Some (None, r)) \<and>
            (\<forall>texts. LoadTextFromFile rcd_file texts = Some (None, r))) \<and>
         (val \<noteq> 0 \<longrightarrow>
            (\<forall>sprites spr. sprites val = Some spr \<longrightarrow>
               LoadSpriteFromFile rcd_file sprites = Some (spr, r)) \<and>
            (\<forall>texts txt. texts val = Some txt \<longrightarrow>
               LoadTextFromFile rcd_file texts = Some (txt, r)) \<and>
            (\<forall>sprites. sprites val = None \<longrightarrow> LoadSpriteFromFile rcd_file sprites = None) \<and>
            (\<forall>texts. texts val = None \<longrightarrow> LoadTextFromFile rcd_file texts = None))"
proof (cases "val = 0")
  case True
  with assms show ?thesis
    by (simp add: LoadSpriteFromFile_zero LoadTextFromFile_zero)
next
  case False
  with assms show ?thesis
    by (simp add: LoadSpriteFromFile_nonzero LoadTextFromFile_nonzero)
qed

theorem cross_reference_resolution_witness:
  "LoadSpriteFromFile (example_reader ''SURF'' 6 [0, 0, 0, 0, 9]) Map.empty
     = Some (None, (example_reader ''SURF'' 6 [0, 0, 0, 0, 9])\<lparr>fp := [9]\<rparr>) \<and>
   LoadSpriteFromFile (example_reader ''SURF'' 6 [2, 0, 0, 0, 9]) [2 \<mapsto> Some 7]
     = Some (Some 7, (example_reader ''SURF'' 6 [2, 0, 0, 0, 9])\<lparr>fp := [9]\<rparr>) \<and>
   LoadSpriteFromFile (example_reader ''SURF'' 6 [2, 0, 0, 0, 9]) [1 \<mapsto> Some 7] = None \<and>
   LoadTextFromFile (example_reader ''GSLP'' 11 [2, 0, 0, 0, 9]) Map.empty = None"
proof -
  let ?r0 = "example_reader ''SURF'' 6 [0, 0, 0, 0, 9]"
  let ?r2 = "example_reader ''SURF'' 6 [2, 0, 0, 0, 9]"
  let ?t2 = "example_reader ''GSLP'' 11 [2, 0, 0, 0, 9]"
  have g0: "GetUInt32 ?r0 = Some (0, ?r0\<lparr>fp := [9]\<rparr>)"
    by (simp add: GetUInt32_def example_reader_def)
  have g2: "GetUInt32 ?r2 = Some (2, ?r2\<lparr>fp := [9]\<rparr>)"
    by (simp add: GetUInt32_def example_reader_def)
  have t2: "GetUInt32 ?t2 = Some (2, ?t2\<lparr>fp := [9]\<rparr>)"
    by (simp add: GetUInt32_def example_reader_def)
  show ?thesis
    using cross_reference_resolution [OF g0] cross_reference_resolution [OF g2]
      cross_reference_resolution [OF t2]
    by simp
qed

section \<open>Claim C4: the ground types of SURF blocks\<close>

lemma SURF_ground_type_known:
  "SURF_ground_type c gt \<noteq> GTP_INVALID c \<Longrightarrow> gt \<in> {16, 17, 18, 19, 20, 32, 48, 49}"
  by (auto simp: SURF_ground_type_def Let_def split: if_splits)

lemma LoadSURF_success:
  assumes "fst (LoadSURF c rcd_file sprites this)"
  shows "version rcd_file = 6 \<and>
         size rcd_file = word_of_nat (2 + 2 + 2 + 4 * NUM_SLOPE_SPRITES c) \<and>
         (\<exists>gt r1. GetUInt16 rcd_file = Some (gt, r1) \<and> gt \<in> {16, 17, 18, 19, 20, 32, 48, 49})"
proof -
  from assms have hdr: "version rcd_file = 6"
    "size rcd_file = word_of_nat (2 + 2 + 2 + 4 * NUM_SLOPE_SPRITES c)"
    by (auto simp: LoadSURF_def split: if_splits)
  from assms hdr obtain gt r1 where g: "GetUInt16 rcd_file = Some (gt, r1)"
    by (cases "GetUInt16 rcd_file") (auto simp: LoadSURF_def)
  from assms hdr g have "SURF_ground_type c gt \<noteq> GTP_INVALID c"
    by (auto simp: LoadSURF_def Let_def split: if_splits)
  from SURF_ground_type_known [OF this] hdr g show ?thesis by simp
qed

lemma LoadSURF_unknown:
  assumes "GetUInt16 rcd_file = Some (gt, r1)" "gt \<notin> {16, 17, 18, 19, 20, 32, 48, 49}"
  shows "\<not> fst (LoadSURF c rcd_file sprites this) \<and> snd (snd (LoadSURF c rcd_file sprites this)) = this"
proof -
  from assms(2) have "SURF_ground_type c gt = GTP_INVALID c"
    using SURF_ground_type_known [of c gt] by blast
  with assms(1) show ?thesis
    by (simp add: LoadSURF_def Let_def)
qed

lemma Load_loop_Stop:
  "ReadBlockHeader (ls_rcd_file s) = Some r \<Longrightarrow>
   Load_block c e blk_num (s\<lparr>ls_rcd_file := r\<rparr>) = Stop msg s' \<Longrightarrow>
   Load_loop c e blk_num s = LoadError msg s'"
  by (simp add: Load_loop.simps [of c e blk_num s])

lemma Load_block_SURF:
  "name (ls_rcd_file s) = ''SURF'' \<Longrightarrow>
   Load_block c e blk_num s =
     in_place ''Surface block loading failed.''
       (LoadSURF c (ls_rcd_file s) (ls_sprites s) (ls_this s)) s"
  by (simp add: Load_block_def Let_def)

text \<open>
  Claim C4. \<^verbatim>\<open>LoadSURF\<close> returns \<^verbatim>\<open>true\<close> only if the version of the block is 6, its
  size is \<open>2 + 2 + 2 + 4 * NUM_SLOPE_SPRITES\<close> and the 16-bit ground type read from
  the payload is one of 16, 17, 18, 19, 20, 32, 48, 49. For any other ground type
  \<^verbatim>\<open>LoadSURF\<close> returns \<^verbatim>\<open>false\<close> and leaves the sprite manager as it was, and
  \<^verbatim>\<open>SpriteManager::Load\<close>, on reading such a SURF block, returns the error message
  of the surface blocks.
\<close>

theorem SURF_ground_type_codes:
  "(fst (LoadSURF c rcd_file sprites this) \<longrightarrow>
      version rcd_file = 6 \<and>
      size rcd_file = word_of_nat (2 + 2 + 2 + 4 * NUM_SLOPE_SPRITES c) \<and>
      (\<exists>gt r1. GetUInt16 rcd_file = Some (gt, r1) \<and> gt \<in> {16, 17, 18, 19, 20, 32, 48, 49})) \<and>
   (\<forall>gt r1. GetUInt16 rcd_file = Some (gt, r1) \<and> gt \<notin> {16, 17, 18, 19, 20, 32, 48, 49} \<longrightarrow>
      \<not> fst (LoadSURF c rcd_file sprites this) \<and>
      snd (snd (LoadSURF c rcd_file sprites this)) = this \<and>
      (\<forall>e blk_num s.
         ReadBlockHeader (ls_rcd_file s) = Some rcd_file \<and> name rcd_file = ''SURF'' \<and>
         ls_sprites s = sprites \<and> ls_this s = this \<longrightarrow>
         (\<exists>s'. Load_loop c e blk_num s = LoadError ''Surface block loading failed.'' s' \<and>
               ls_this s' = this)))"
proof (intro conjI impI allI)
  assume "fst (LoadSURF c rcd_file sprites this)"
  from LoadSURF_success [OF this]
  show "version rcd_file = 6"
    "size rcd_file = word_of_nat (2 + 2 + 2 + 4 * NUM_SLOPE_SPRITES c)"
    "\<exists>gt r1. GetUInt16 rcd_file = Some (gt, r1) \<and> gt \<in> {16, 17, 18, 19, 20, 32, 48, 49}"
    by simp_all
next
  fix gt r1
  assume a: "GetUInt16 rcd_file = Some (gt, r1) \<and> gt \<notin> {16, 17, 18, 19, 20, 32, 48, 49}"
  then have u: "\<not> fst (LoadSURF c rcd_file sprites this)"
    "snd (snd (LoadSURF c rcd_file sprites this)) = this"
    using LoadSURF_unknown [of rcd_file gt r1 c sprites this] by simp_all
  from u show "\<not> fst (LoadSURF c rcd_file sprites this)"
    "snd (snd (LoadSURF c rcd_file sprites this)) = this" by simp_all
  fix e :: "'x Externals" and blk_num and s :: "'x LoadState"
  assume b: "ReadBlockHeader (ls_rcd_file s) = Some rcd_file \<and> name rcd_file = ''SURF'' \<and>
    ls_sprites s = sprites \<and> ls_this s = this"
  obtain ok r' this' where res: "LoadSURF c rcd_file sprites this = (ok, r', this')"
    by (cases "LoadSURF c rcd_file sprites this") auto
  with u have ok: "\<not> ok" "this' = this" by simp_all
  let ?s' = "s\<lparr>ls_rcd_file := r', ls_this := this\<rparr>"
  have "Load_block c e blk_num (s\<lparr>ls_rcd_file := rcd_file\<rparr>)
          = Stop ''Surface block loading failed.'' ?s'"
    using b res ok by (simp add: Load_block_SURF in_place_def)
  from Load_loop_Stop [OF _ this] b
  have "Load_loop c e blk_num s = LoadError ''Surface block loading failed.'' ?s'"
    by simp
  then show "\<exists>s'. Load_loop c e blk_num s = LoadError ''Surface block loading failed.'' s' \<and>
    ls_this s' = this"
    by auto
qed

lemma LoadSprites_null:
  "fp r = replicate (4 * n) 0 @ rest \<Longrightarrow> fst (LoadSprites n i r sprites arr)"
proof (induction n arbitrary: i r arr)
  case 0
  then show ?case by simp
next
  case (Suc n)
  have "4 * Suc n = Suc (Suc (Suc (Suc (4 * n))))"
    by simp
  with Suc.prems have "fp r = 0 # 0 # 0 # 0 # replicate (4 * n) 0 @ rest"
    by (simp only: replicate_Suc append_Cons)
  then have "LoadSpriteFromFile r sprites = Some (None, r\<lparr>fp := replicate (4 * n) 0 @ rest\<rparr>)"
    by (simp add: LoadSpriteFromFile_def GetUInt32_def)
  then show ?case
    using Suc.IH [of "r\<lparr>fp := replicate (4 * n) 0 @ rest\<rparr>"] by simp
qed

lemma LoadSURF_example: "fst (LoadSURF example_headers (example_reader ''SURF'' 6 (surf_payload 16)) Map.empty empty_SpriteManager)"
proof -
  have "fst (LoadSprites 23 0
    ((example_reader ''SURF'' 6 (surf_payload 16))\<lparr>fp := replicate (4 * 23) 0\<rparr>) Map.empty
    (surface empty_SpriteStorage 0))"
    by (rule LoadSprites_null [where rest = "[]"]) simp
  then show ?thesis
    by (simp add: LoadSURF_def example_reader_def surf_payload_def le16_def GetUInt16_def
        example_headers_def SURF_ground_type_def GetSpriteStore_def empty_SpriteManager_def
        case_prod_unfold)
qed

lemma ReadBlockHeader_SURF_example: "ReadBlockHeader (ls_rcd_file (start_state (block_bytes ''SURF'' 6 (surf_payload 99))))
   = Some (example_reader ''SURF'' 6 (surf_payload 99))"
  by (simp add: ReadBlockHeader_def GetBlob_def GetUInt32_def start_state_def block_bytes_def
      tag_bytes_def le32_def le16_def surf_payload_def example_reader_def tag_of_bytes_def
      char_of_def bit_Suc_0_iff)

lemma GetUInt16_SURF_example: "GetUInt16 (example_reader ''SURF'' 6 (surf_payload 99)) = Some (99, (example_reader ''SURF'' 6 (surf_payload 99))\<lparr>fp := drop 2 (surf_payload 99)\<rparr>)"
  by (simp add: GetUInt16_def example_reader_def surf_payload_def le16_def)

theorem SURF_ground_type_codes_witness:
  "fst (LoadSURF example_headers (example_reader ''SURF'' 6 (surf_payload 16)) Map.empty
          empty_SpriteManager) \<and>
   version (example_reader ''SURF'' 6 (surf_payload 16)) = 6 \<and>
   size (example_reader ''SURF'' 6 (surf_payload 16))
     = word_of_nat (2 + 2 + 2 + 4 * NUM_SLOPE_SPRITES example_headers) \<and>
   (\<exists>gt r1. GetUInt16 (example_reader ''SURF'' 6 (surf_payload 16)) = Some (gt, r1) \<and>
       gt \<in> {16, 17, 18, 19, 20, 32, 48, 49}) \<and>
   ReadBlockHeader (ls_rcd_file (start_state (block_bytes ''SURF'' 6 (surf_payload 99))))
     = Some (example_reader ''SURF'' 6 (surf_payload 99)) \<and>
   GetUInt16 (example_reader ''SURF'' 6 (surf_payload 99))
     = Some (99, (example_reader ''SURF'' 6 (surf_payload 99))\<lparr>fp := drop 2 (surf_payload 99)\<rparr>) \<and>
   \<not> fst (LoadSURF example_headers (example_reader ''SURF'' 6 (surf_payload 99)) Map.empty
            empty_SpriteManager) \<and>
   (\<exists>s'. Load_loop example_headers example_externals 1
            (start_state (block_bytes ''SURF'' 6 (surf_payload 99)))
          = LoadError ''Surface block loading failed.'' s' \<and>
         ls_this s' = empty_SpriteManager)"
proof -
  let ?ok = "example_reader ''SURF'' 6 (surf_payload 16)"
  let ?bad = "example_reader ''SURF'' 6 (surf_payload 99)"
  let ?s = "start_state (block_bytes ''SURF'' 6 (surf_payload 99))"
  have nm: "name ?bad = ''SURF''" "ls_sprites ?s = Map.empty" "ls_this ?s = empty_SpriteManager"
    by (simp_all add: example_reader_def start_state_def)
  have "(99 :: uint16) \<notin> {16, 17, 18, 19, 20, 32, 48, 49}"
    by simp
  with LoadSURF_example ReadBlockHeader_SURF_example GetUInt16_SURF_example nm
    SURF_ground_type_codes [of example_headers ?ok Map.empty empty_SpriteManager]
    SURF_ground_type_codes [of example_headers ?bad Map.empty empty_SpriteManager]
  show ?thesis
    by blast
qed


section \<open>Loading null sprite references\<close>

lemma LoadSprites_zeros:
  "set (fp r) \<subseteq> {0} \<Longrightarrow> 4 * n \<le> length (fp r) \<Longrightarrow>
   \<exists>arr'. LoadSprites n i r sprites arr = (True, r\<lparr>fp := drop (4 * n) (fp r)\<rparr>, arr')"
proof (induction n arbitrary: i r arr)
  case 0
  then show ?case by simp
next
  case (Suc n)
  from Suc.prems have "Suc (Suc (Suc (Suc 0))) \<le> length (fp r)"
    by simp
  then obtain b0 b1 b2 b3 bs where bs: "fp r = b0 # b1 # b2 # b3 # bs"
    by (auto simp: Suc_le_length_iff)
  with Suc.prems have z: "b0 = 0" "b1 = 0" "b2 = 0" "b3 = 0" "set bs \<subseteq> {0}"
    by auto
  have ld: "LoadSpriteFromFile r sprites = Some (None, r\<lparr>fp := bs\<rparr>)"
    using bs z by (simp add: LoadSpriteFromFile_def GetUInt32_def)
  have "\<exists>arr'. LoadSprites n (Suc i) (r\<lparr>fp := bs\<rparr>) sprites (arr(i := None))
          = (True, (r\<lparr>fp := bs\<rparr>)\<lparr>fp := drop (4 * n) (fp (r\<lparr>fp := bs\<rparr>))\<rparr>, arr')"
    by (rule Suc.IH) (use Suc.prems bs z in simp_all)
  then obtain arr' where
    "LoadSprites n (Suc i) (r\<lparr>fp := bs\<rparr>) sprites (arr(i := None))
       = (True, (r\<lparr>fp := bs\<rparr>)\<lparr>fp := drop (4 * n) (fp (r\<lparr>fp := bs\<rparr>))\<rparr>, arr')"
    by blast
  moreover have "4 * Suc n = Suc (Suc (Suc (Suc (4 * n))))"
    by simp
  ultimately show ?case
    using ld bs by (simp only: LoadSprites.simps drop_Suc_Cons) simp
qed


lemma LoadSpriteRows_zeros:
  "set (fp r) \<subseteq> {0} \<Longrightarrow> 4 * cols * n \<le> length (fp r) \<Longrightarrow>
   \<exists>arr'. LoadSpriteRows n v cols r sprites arr
            = (True, r\<lparr>fp := drop (4 * cols * n) (fp r)\<rparr>, arr')"
proof (induction n arbitrary: v r arr)
  case 0
  then show ?case by simp
next
  case (Suc n)
  from Suc.prems have le: "4 * cols \<le> length (fp r)"
    by simp
  from LoadSprites_zeros [OF Suc.prems(1) le, of 0 sprites "arr v"] obtain row where
    row: "LoadSprites cols 0 r sprites (arr v) = (True, r\<lparr>fp := drop (4 * cols) (fp r)\<rparr>, row)"
    by blast
  let ?r1 = "r\<lparr>fp := drop (4 * cols) (fp r)\<rparr>"
  have "\<exists>arr'. LoadSpriteRows n (Suc v) cols ?r1 sprites (arr(v := row))
          = (True, ?r1\<lparr>fp := drop (4 * cols * n) (fp ?r1)\<rparr>, arr')"
  proof (rule Suc.IH)
    show "set (fp ?r1) \<subseteq> {0}"
      using Suc.prems(1) by (auto dest: in_set_dropD)
    show "4 * cols * n \<le> length (fp ?r1)"
      using Suc.prems(2) by simp
  qed
  then obtain arr' where
    "LoadSpriteRows n (Suc v) cols ?r1 sprites (arr(v := row))
       = (True, ?r1\<lparr>fp := drop (4 * cols * n) (fp ?r1)\<rparr>, arr')"
    by blast
  with row show ?case
    by (simp add: add.commute)
qed

lemma load_all_zeros:
  assumes "list_all2 (\<lambda>f k. \<forall>r s. set (fp r) \<subseteq> {0} \<and> k \<le> length (fp r) \<longrightarrow>
                (\<exists>s'. f r s = (True, r\<lparr>fp := drop k (fp r)\<rparr>, s'))) fs ks"
    and "set (fp r) \<subseteq> {0}" and "sum_list ks \<le> length (fp r)"
  shows "\<exists>s'. load_all fs r s = (True, r\<lparr>fp := drop (sum_list ks) (fp r)\<rparr>, s')"
  using assms
proof (induction fs ks arbitrary: r s rule: list_all2_induct)
  case Nil
  then show ?case by simp
next
  case (Cons f fs k ks)
  from Cons.hyps(1) Cons.prems obtain s1 where
    f: "f r s = (True, r\<lparr>fp := drop k (fp r)\<rparr>, s1)"
    by (metis add_leE sum_list.Cons)
  let ?r1 = "r\<lparr>fp := drop k (fp r)\<rparr>"
  have "\<exists>s'. load_all fs ?r1 s1 = (True, ?r1\<lparr>fp := drop (sum_list ks) (fp ?r1)\<rparr>, s')"
  proof (rule Cons.IH)
    show "set (fp ?r1) \<subseteq> {0}"
      using Cons.prems(1) by (auto dest: in_set_dropD)
    show "sum_list ks \<le> length (fp ?r1)"
      using Cons.prems(2) by simp
  qed
  then obtain s' where
    "load_all fs ?r1 s1 = (True, ?r1\<lparr>fp := drop (sum_list ks) (fp ?r1)\<rparr>, s')"
    by blast
  with f show ?case
    by (simp add: add.commute)
qed

lemma load_into_zeros:
  "\<forall>(r :: RcdFileReader) s. set (fp r) \<subseteq> {0} \<and> 4 * n \<le> length (fp r) \<longrightarrow>
     (\<exists>s'. load_into n get put sprites r s = (True, r\<lparr>fp := drop (4 * n) (fp r)\<rparr>, s'))"
proof (intro allI impI)
  fix r :: RcdFileReader and s
  assume "set (fp r) \<subseteq> {0} \<and> 4 * n \<le> length (fp r)"
  then show "\<exists>s'. load_into n get put sprites r s = (True, r\<lparr>fp := drop (4 * n) (fp r)\<rparr>, s')"
    using LoadSprites_zeros [of r n 0 sprites "get s"]
    by (auto simp: load_into_def)
qed

lemma load_rows_into_zeros:
  "\<forall>(r :: RcdFileReader) s. set (fp r) \<subseteq> {0} \<and> 4 * cols * n \<le> length (fp r) \<longrightarrow>
     (\<exists>s'. load_rows_into n cols get put sprites r s
             = (True, r\<lparr>fp := drop (4 * cols * n) (fp r)\<rparr>, s'))"
proof (intro allI impI)
  fix r :: RcdFileReader and s
  assume "set (fp r) \<subseteq> {0} \<and> 4 * cols * n \<le> length (fp r)"
  then show "\<exists>s'. load_rows_into n cols get put sprites r s
                = (True, r\<lparr>fp := drop (4 * cols * n) (fp r)\<rparr>, s')"
    using LoadSpriteRows_zeros [of r cols n 0 sprites "get s"]
    by (auto simp: load_rows_into_def)
qed

lemmas load_zeros_4 =
  load_into_zeros [where n = 4, simplified]
  load_into_zeros [where n = 2, simplified]
  load_rows_into_zeros [where n = 4 and cols = 4, simplified]

lemma example_headers_fields:
  "NUM_SLOPE_SPRITES example_headers = 23" "PATH_COUNT example_headers = 4"
  "FENCE_COUNT example_headers = 4" "FENCE_TYPE_COUNT example_headers = 4"
  "EDGE_COUNT example_headers = 4" "VOR_NUM_ORIENT example_headers = 4"
  "SSP_COUNT example_headers = 4" "FOUNDATION_SPRITES example_headers = 6"
  "PLATFORM_RAMP example_headers = 4" "PLATFORM_RIGHT_RAMP example_headers = 4"
  "PLATFORM_LEFT_RAMP example_headers = 4" "BUILD_ARROWS example_headers = 4"
  "GTP_GRASS0 example_headers = 0" "GTP_GRASS1 example_headers = 1"
  "GTP_GRASS2 example_headers = 2" "GTP_GRASS3 example_headers = 3"
  "GTP_UNDERGROUND example_headers = 4" "GTP_DESERT example_headers = 5"
  "GTP_CURSOR_TEST example_headers = 6" "GTP_CURSOR_EDGE_TEST example_headers = 7"
  "GTP_COUNT example_headers = 8" "GTP_INVALID example_headers = 0xFF"
  "FDT_GROUND example_headers = 0" "FDT_WOOD example_headers = 1"
  "FDT_BRICK example_headers = 2" "FDT_COUNT example_headers = 3"
  "FDT_INVALID example_headers = 0xFF" "ANIM_BEGIN example_headers = 1"
  "ANIM_LAST example_headers = 30" "ANIM_INVALID example_headers = 0"
  "LANGUAGE_COUNT example_headers = 8"
  by (simp_all add: example_headers_def)

lemma LoadPDEC_sprites_zeros:
  assumes "set (fp r) \<subseteq> {0}" "272 \<le> length (fp r)"
  shows "fst (LoadPDEC_sprites example_headers sprites r pdec)"
proof -
  have "\<exists>s'. LoadPDEC_sprites example_headers sprites r pdec
          = (True, r\<lparr>fp := drop (sum_list [16, 16, 16, 16, 16, 16, 16, 16, 64, 16, 64]) (fp r)\<rparr>, s')"
    unfolding LoadPDEC_sprites_def
  proof (rule load_all_zeros)
    show "list_all2 (\<lambda>f k. \<forall>r s. set (fp r) \<subseteq> {0} \<and> k \<le> length (fp r) \<longrightarrow>
                (\<exists>s'. f r s = (True, r\<lparr>fp := drop k (fp r)\<rparr>, s')))
       [load_into (EDGE_COUNT example_headers) litterbin (\<lambda>a. litterbin_update (\<lambda>_. a)) sprites,
        load_into (EDGE_COUNT example_headers) overflow_bin (\<lambda>a. overflow_bin_update (\<lambda>_. a)) sprites,
        load_into (EDGE_COUNT example_headers) demolished_bin (\<lambda>a. demolished_bin_update (\<lambda>_. a)) sprites,
        load_into (EDGE_COUNT example_headers) lamp_post (\<lambda>a. lamp_post_update (\<lambda>_. a)) sprites,
        load_into (EDGE_COUNT example_headers) demolished_lamp (\<lambda>a. demolished_lamp_update (\<lambda>_. a)) sprites,
        load_into (EDGE_COUNT example_headers) bench (\<lambda>a. bench_update (\<lambda>_. a)) sprites,
        load_into (EDGE_COUNT example_headers) demolished_bench (\<lambda>a. demolished_bench_update (\<lambda>_. a)) sprites,
        load_into 4 flat_litter (\<lambda>a. flat_litter_update (\<lambda>_. a)) sprites,
        load_rows_into (EDGE_COUNT example_headers) 4 ramp_litter (\<lambda>a. ramp_litter_update (\<lambda>_. a)) sprites,
        load_into 4 flat_vomit (\<lambda>a. flat_vomit_update (\<lambda>_. a)) sprites,
        load_rows_into (EDGE_COUNT example_headers) 4 ramp_vomit (\<lambda>a. ramp_vomit_update (\<lambda>_. a)) sprites]
       [16, 16, 16, 16, 16, 16, 16, 16, 64, 16, 64]"
      by (simp add: example_headers_fields load_zeros_4)
  qed (use assms in simp_all)
  then show ?thesis by auto
qed

lemma fst_LoadSprites_zeros:
  "set (fp r) \<subseteq> {0} \<Longrightarrow> 4 * n \<le> length (fp r) \<Longrightarrow> fst (LoadSprites n i r sprites arr)"
  using LoadSprites_zeros [of r n i sprites arr] by auto

lemma fst_LoadSpriteRows_zeros:
  "set (fp r) \<subseteq> {0} \<Longrightarrow> 4 * cols * n \<le> length (fp r) \<Longrightarrow>
   fst (LoadSpriteRows n v cols r sprites arr)"
  using LoadSpriteRows_zeros [of r cols n v sprites arr] by auto

lemma LoadPLAT_sprites_zeros:
  assumes "set (fp r) \<subseteq> {0}" "56 \<le> length (fp r)"
  shows "fst (LoadPLAT_sprites example_headers sprites r plat)"
proof -
  have "\<exists>s'. LoadPLAT_sprites example_headers sprites r plat
          = (True, r\<lparr>fp := drop (sum_list [8, 16, 16, 16]) (fp r)\<rparr>, s')"
    unfolding LoadPLAT_sprites_def
    by (rule load_all_zeros) (use assms in \<open>simp_all add: example_headers_fields load_zeros_4\<close>)
  then show ?thesis by auto
qed

lemmas example_eval =
  example_reader_def sprite_set_payload_def le16_def GetUInt16_def example_headers_fields
  GetSpriteStore_def empty_SpriteManager_def case_prod_unfold
  fst_LoadSprites_zeros fst_LoadSpriteRows_zeros LoadPDEC_sprites_zeros LoadPLAT_sprites_zeros

lemma sprite_set_examples:
  "fst (LoadSURF example_headers (example_reader ''SURF'' 6 (sprite_set_payload [16, 64, 0] 23))
          Map.empty empty_SpriteManager)"
  "fst (LoadTSEL example_headers (example_reader ''TSEL'' 2 (sprite_set_payload [64, 0] 23))
          Map.empty empty_SpriteManager)"
  "fst (LoadPATH example_headers (example_reader ''PATH'' 3 (sprite_set_payload [4, 64, 0] 4))
          Map.empty empty_SpriteManager)"
  "fst (LoadPDEC example_headers (example_reader ''PDEC'' 1 (sprite_set_payload [64] 68))
          Map.empty empty_SpriteManager)"
  "fst (LoadTCOR example_headers (example_reader ''TCOR'' 2 (sprite_set_payload [64, 0] 92))
          Map.empty empty_SpriteManager)"
  "fst (LoadFUND example_headers (example_reader ''FUND'' 1 (sprite_set_payload [16, 64, 0] 6))
          Map.empty empty_SpriteManager)"
  "fst (LoadPLAT example_headers (example_reader ''PLAT'' 2 (sprite_set_payload [64, 0, 16] 14))
          Map.empty empty_SpriteManager)"
  "fst (LoadSUPP example_headers (example_reader ''SUPP'' 1 (sprite_set_payload [16, 64, 0] 4))
          Map.empty empty_SpriteManager)"
  "fst (LoadBDIR example_headers (example_reader ''BDIR'' 1 (sprite_set_payload [64] 4))
          Map.empty empty_SpriteManager)"
  by (simp_all add: LoadSURF_def SURF_ground_type_def LoadTSEL_def LoadPATH_def
      PATH_path_type_def LoadPDEC_def LoadTCOR_def LoadFUND_def FUND_type_def LoadPLAT_def
      LoadSUPP_def LoadBDIR_def example_eval)


section \<open>Claim C8: the type codes of PATH blocks\<close>

lemma PATH_path_type_known:
  "PATH_path_type type \<noteq> PAT_INVALID \<Longrightarrow>
   (type AND 0x7FFF, PATH_path_type type)
     \<in> {(4, PAT_WOOD), (8, PAT_TILED), (12, PAT_ASPHALT), (16, PAT_CONCRETE)}"
  by (auto simp: PATH_path_type_def split: if_splits)

text \<open>
  Claim C8. \<^verbatim>\<open>LoadPATH\<close> returns \<^verbatim>\<open>true\<close> only if the version of the block is 3, its
  size is \<open>2 + 2 + 2 + 4 * PATH_COUNT\<close> and the low 15 bits of the 16-bit type code
  are 4, 8, 12 or 16, which select the wood, tiled, asphalt and concrete path. The
  status of that path in the store is then the queue path if bit \<open>0x8000\<close> of the
  type code is set, and the normal path otherwise.
\<close>

theorem PATH_type_codes:
  assumes "fst (LoadPATH c rcd_file sprites this)"
  shows "version rcd_file = 3 \<and>
         size rcd_file = word_of_nat (2 + 2 + 2 + 4 * PATH_COUNT c) \<and>
         (\<exists>type r1 pt.
            GetUInt16 rcd_file = Some (type, r1) \<and>
            (type AND 0x7FFF, pt)
              \<in> {(4, PAT_WOOD), (8, PAT_TILED), (12, PAT_ASPHALT), (16, PAT_CONCRETE)} \<and>
            path_status (path_sprites (store (snd (snd (LoadPATH c rcd_file sprites this)))) pt)
              = (if type AND 0x8000 \<noteq> 0 then PAS_QUEUE_PATH else PAS_NORMAL_PATH))"
proof -
  from assms have hdr: "version rcd_file = 3"
    "size rcd_file = word_of_nat (2 + 2 + 2 + 4 * PATH_COUNT c)"
    by (auto simp: LoadPATH_def split: if_splits)
  from assms hdr obtain type r1 where g1: "GetUInt16 rcd_file = Some (type, r1)"
    by (cases "GetUInt16 rcd_file") (auto simp: LoadPATH_def)
  let ?pt = "PATH_path_type type"
  from assms hdr g1 have pt: "?pt \<noteq> PAT_INVALID"
    by (auto simp: LoadPATH_def Let_def split: if_splits)
  from assms hdr g1 pt obtain width r2 where g2: "GetUInt16 r1 = Some (width, r2)"
    by (cases "GetUInt16 r1") (auto simp: LoadPATH_def Let_def)
  from assms hdr g1 pt g2 obtain height r3 where g3: "GetUInt16 r2 = Some (height, r3)"
    by (cases "GetUInt16 r2") (auto simp: LoadPATH_def Let_def)
  from assms hdr g1 pt g2 g3 obtain ss where g4: "GetSpriteStore this width = Some ss"
    by (cases "GetSpriteStore this width") (auto simp: LoadPATH_def Let_def)
  obtain ok r4 arr where
    ld: "LoadSprites (PATH_COUNT c) 0 r3 sprites (path_sprites_of (path_sprites ss ?pt))
           = (ok, r4, arr)"
    by (cases "LoadSprites (PATH_COUNT c) 0 r3 sprites (path_sprites_of (path_sprites ss ?pt))")
      auto
  from assms hdr g1 pt g2 g3 g4 ld have ok
    by (simp add: LoadPATH_def Let_def)
  with hdr g1 pt g2 g3 g4 ld have
    "path_status (path_sprites (store (snd (snd (LoadPATH c rcd_file sprites this)))) ?pt)
       = (if type AND 0x8000 \<noteq> 0 then PAS_QUEUE_PATH else PAS_NORMAL_PATH)"
    by (simp add: LoadPATH_def Let_def)
  with hdr g1 PATH_path_type_known [OF pt] show ?thesis
    by blast
qed

lemma LoadPATH_queue_example:
  "fst (LoadPATH example_headers
          (example_reader ''PATH'' 3 (sprite_set_payload [0x8004, 64, 0] 4)) Map.empty
          empty_SpriteManager)"
  by (simp add: LoadPATH_def PATH_path_type_def example_eval)

theorem PATH_type_codes_witness:
  "fst (LoadPATH example_headers
          (example_reader ''PATH'' 3 (sprite_set_payload [0x8004, 64, 0] 4)) Map.empty
          empty_SpriteManager) \<and>
   version (example_reader ''PATH'' 3 (sprite_set_payload [0x8004, 64, 0] 4)) = 3 \<and>
   size (example_reader ''PATH'' 3 (sprite_set_payload [0x8004, 64, 0] 4))
     = word_of_nat (2 + 2 + 2 + 4 * PATH_COUNT example_headers) \<and>
   (\<exists>type r1 pt.
      GetUInt16 (example_reader ''PATH'' 3 (sprite_set_payload [0x8004, 64, 0] 4))
        = Some (type, r1) \<and>
      (type AND 0x7FFF, pt)
        \<in> {(4, PAT_WOOD), (8, PAT_TILED), (12, PAT_ASPHALT), (16, PAT_CONCRETE)} \<and>
      path_status (path_sprites (store (snd (snd (LoadPATH example_headers
          (example_reader ''PATH'' 3 (sprite_set_payload [0x8004, 64, 0] 4)) Map.empty
          empty_SpriteManager)))) pt)
        = (if type AND 0x8000 \<noteq> 0 then PAS_QUEUE_PATH else PAS_NORMAL_PATH))"
  using LoadPATH_queue_example
    PATH_type_codes [of example_headers
      "example_reader ''PATH'' 3 (sprite_set_payload [0x8004, 64, 0] 4)"
      Map.empty empty_SpriteManager]
  by blast

section \<open>Claim C9: only sprite sets of width 64 load\<close>

lemma GetSpriteStore_64: "GetSpriteStore this w = Some ss \<Longrightarrow> w = 64"
  by (simp add: GetSpriteStore_def split: if_splits)

lemma SURF_width: "fst (LoadSURF c r sprites this) \<Longrightarrow> declared_width ''SURF'' r = Some 64"
  by (auto simp: LoadSURF_def declared_width_def Let_def
      split: if_splits option.splits dest!: GetSpriteStore_64)

lemma TSEL_width: "fst (LoadTSEL c r sprites this) \<Longrightarrow> declared_width ''TSEL'' r = Some 64"
  by (auto simp: LoadTSEL_def declared_width_def Let_def
      split: if_splits option.splits dest!: GetSpriteStore_64)

lemma PATH_width: "fst (LoadPATH c r sprites this) \<Longrightarrow> declared_width ''PATH'' r = Some 64"
  by (auto simp: LoadPATH_def declared_width_def Let_def
      split: if_splits option.splits dest!: GetSpriteStore_64)

lemma PDEC_width: "fst (LoadPDEC c r sprites this) \<Longrightarrow> declared_width ''PDEC'' r = Some 64"
  by (auto simp: LoadPDEC_def declared_width_def Let_def
      split: if_splits option.splits dest!: GetSpriteStore_64)

lemma TCOR_width: "fst (LoadTCOR c r sprites this) \<Longrightarrow> declared_width ''TCOR'' r = Some 64"
  by (auto simp: LoadTCOR_def declared_width_def Let_def
      split: if_splits option.splits dest!: GetSpriteStore_64)

lemma FUND_width: "fst (LoadFUND c r sprites this) \<Longrightarrow> declared_width ''FUND'' r = Some 64"
  by (auto simp: LoadFUND_def declared_width_def Let_def
      split: if_splits option.splits dest!: GetSpriteStore_64)

lemma PLAT_width: "fst (LoadPLAT c r sprites this) \<Longrightarrow> declared_width ''PLAT'' r = Some 64"
  by (auto simp: LoadPLAT_def declared_width_def Let_def
      split: if_splits option.splits dest!: GetSpriteStore_64)

lemma SUPP_width: "fst (LoadSUPP c r sprites this) \<Longrightarrow> declared_width ''SUPP'' r = Some 64"
  by (auto simp: LoadSUPP_def declared_width_def Let_def
      split: if_splits option.splits dest!: GetSpriteStore_64)

lemma BDIR_width: "fst (LoadBDIR c r sprites this) \<Longrightarrow> declared_width ''BDIR'' r = Some 64"
  by (auto simp: LoadBDIR_def declared_width_def Let_def
      split: if_splits option.splits dest!: GetSpriteStore_64)

text \<open>
  Claim C9. \<^verbatim>\<open>GetSpriteStore\<close> returns the null pointer for every width other than
  64, and each of the handlers of the blocks SURF, TSEL, PATH, PDEC, TCOR, FUND,
  PLAT, SUPP and BDIR returns \<^verbatim>\<open>true\<close> only if the tile width that the block declares
  is 64.
\<close>

theorem only_width_64:
  "(\<forall>width. width \<noteq> 64 \<longrightarrow> GetSpriteStore this width = None) \<and>
   (fst (LoadSURF c r sprites this) \<longrightarrow> declared_width ''SURF'' r = Some 64) \<and>
   (fst (LoadTSEL c r sprites this) \<longrightarrow> declared_width ''TSEL'' r = Some 64) \<and>
   (fst (LoadPATH c r sprites this) \<longrightarrow> declared_width ''PATH'' r = Some 64) \<and>
   (fst (LoadPDEC c r sprites this) \<longrightarrow> declared_width ''PDEC'' r = Some 64) \<and>
   (fst (LoadTCOR c r sprites this) \<longrightarrow> declared_width ''TCOR'' r = Some 64) \<and>
   (fst (LoadFUND c r sprites this) \<longrightarrow> declared_width ''FUND'' r = Some 64) \<and>
   (fst (LoadPLAT c r sprites this) \<longrightarrow> declared_width ''PLAT'' r = Some 64) \<and>
   (fst (LoadSUPP c r sprites this) \<longrightarrow> declared_width ''SUPP'' r = Some 64) \<and>
   (fst (LoadBDIR c r sprites this) \<longrightarrow> declared_width ''BDIR'' r = Some 64)"
  using SURF_width TSEL_width PATH_width PDEC_width TCOR_width FUND_width PLAT_width
    SUPP_width BDIR_width
  by (simp add: GetSpriteStore_def)

theorem only_width_64_witness:
  "fst (LoadSURF example_headers (example_reader ''SURF'' 6 (sprite_set_payload [16, 64, 0] 23))
          Map.empty empty_SpriteManager) \<and>
   declared_width ''SURF'' (example_reader ''SURF'' 6 (sprite_set_payload [16, 64, 0] 23)) = Some 64 \<and>
   fst (LoadTSEL example_headers (example_reader ''TSEL'' 2 (sprite_set_payload [64, 0] 23))
          Map.empty empty_SpriteManager) \<and>
   declared_width ''TSEL'' (example_reader ''TSEL'' 2 (sprite_set_payload [64, 0] 23)) = Some 64 \<and>
   fst (LoadPATH example_headers (example_reader ''PATH'' 3 (sprite_set_payload [4, 64, 0] 4))
          Map.empty empty_SpriteManager) \<and>
   declared_width ''PATH'' (example_reader ''PATH'' 3 (sprite_set_payload [4, 64, 0] 4)) = Some 64 \<and>
   fst (LoadPDEC example_headers (example_reader ''PDEC'' 1 (sprite_set_payload [64] 68))
          Map.empty empty_SpriteManager) \<and>
   declared_width ''PDEC'' (example_reader ''PDEC'' 1 (sprite_set_payload [64] 68)) = Some 64 \<and>
   fst (LoadTCOR example_headers (example_reader ''TCOR'' 2 (sprite_set_payload [64, 0] 92))
          Map.empty empty_SpriteManager) \<and>
   declared_width ''TCOR'' (example_reader ''TCOR'' 2 (sprite_set_payload [64, 0] 92)) = Some 64 \<and>
   fst (LoadFUND example_headers (example_reader ''FUND'' 1 (sprite_set_payload [16, 64, 0] 6))
          Map.empty empty_SpriteManager) \<and>
   declared_width ''FUND'' (example_reader ''FUND'' 1 (sprite_set_payload [16, 64, 0] 6)) = Some 64 \<and>
   fst (LoadPLAT example_headers (example_reader ''PLAT'' 2 (sprite_set_payload [64, 0, 16] 14))
          Map.empty empty_SpriteManager) \<and>
   declared_width ''PLAT'' (example_reader ''PLAT'' 2 (sprite_set_payload [64, 0, 16] 14)) = Some 64 \<and>
   fst (LoadSUPP example_headers (example_reader ''SUPP'' 1 (sprite_set_payload [16, 64, 0] 4))
          Map.empty empty_SpriteManager) \<and>
   declared_width ''SUPP'' (example_reader ''SUPP'' 1 (sprite_set_payload [16, 64, 0] 4)) = Some 64 \<and>
   fst (LoadBDIR example_headers (example_reader ''BDIR'' 1 (sprite_set_payload [64] 4))
          Map.empty empty_SpriteManager) \<and>
   declared_width ''BDIR'' (example_reader ''BDIR'' 1 (sprite_set_payload [64] 4)) = Some 64 \<and>
   GetSpriteStore empty_SpriteManager 32 = None"
proof -
  note ex = sprite_set_examples
  note inst = only_width_64 [where this = empty_SpriteManager and c = example_headers
      and sprites = Map.empty]
  have w:
    "declared_width ''SURF'' (example_reader ''SURF'' 6 (sprite_set_payload [16, 64, 0] 23)) = Some 64"
    "declared_width ''TSEL'' (example_reader ''TSEL'' 2 (sprite_set_payload [64, 0] 23)) = Some 64"
    "declared_width ''PATH'' (example_reader ''PATH'' 3 (sprite_set_payload [4, 64, 0] 4)) = Some 64"
    "declared_width ''PDEC'' (example_reader ''PDEC'' 1 (sprite_set_payload [64] 68)) = Some 64"
    "declared_width ''TCOR'' (example_reader ''TCOR'' 2 (sprite_set_payload [64, 0] 92)) = Some 64"
    "declared_width ''FUND'' (example_reader ''FUND'' 1 (sprite_set_payload [16, 64, 0] 6)) = Some 64"
    "declared_width ''PLAT'' (example_reader ''PLAT'' 2 (sprite_set_payload [64, 0, 16] 14)) = Some 64"
    "declared_width ''SUPP'' (example_reader ''SUPP'' 1 (sprite_set_payload [16, 64, 0] 4)) = Some 64"
    "declared_width ''BDIR'' (example_reader ''BDIR'' 1 (sprite_set_payload [64] 4)) = Some 64"
    using ex inst by blast+
  have "(32 :: uint16) \<noteq> 64"
    by simp
  with inst have "GetSpriteStore empty_SpriteManager 32 = None"
    by blast
  with ex w show ?thesis
    by simp
qed

section \<open>Claim C10: the bounds of ANIM blocks\<close>

lemma DecodePersonType_known:
  "DecodePersonType pt \<noteq> PERSON_INVALID \<Longrightarrow> pt \<in> {0, 8, 16, 17, 18, 19, 20}"
  by (auto simp: DecodePersonType_def split: if_splits)

lemma LoadFrames_bounds:
  "LoadFrames n r = Some (fs, r') \<Longrightarrow>
   length fs = n \<and>
   (\<forall>f \<in> set fs. 0 < duration f \<and> duration f < 5000 \<and>
      -100 \<le> dx f \<and> dx f \<le> 100 \<and> -100 \<le> dy f \<and> dy f \<le> 100)"
proof (induction n arbitrary: r fs)
  case 0
  then show ?case by simp
next
  case (Suc n)
  from Suc.prems obtain d r1 x r2 y r3 fs' where
    g: "GetUInt16 r = Some (d, r1)" "\<not> (d = 0 \<or> d \<ge> 5000)"
      "GetInt16 r1 = Some (x, r2)" "\<not> (sint x < -100 \<or> sint x > 100)"
      "GetInt16 r2 = Some (y, r3)" "\<not> (sint y < -100 \<or> sint y > 100)"
      "LoadFrames n r3 = Some (fs', r')"
      "fs = \<lparr>duration = d, dx = sint x, dy = sint y\<rparr> # fs'"
    by (auto split: option.splits if_splits)
  from g(2) have "0 < d" "d < 5000"
    by (simp_all add: word_greater_zero_iff not_le)
  with Suc.IH [OF g(7)] g(4,6,8) show ?case
    by auto
qed

text \<open>
  Claim C10. \<^verbatim>\<open>Animation::Load\<close> returns \<^verbatim>\<open>true\<close> only if the person type code read
  from the block is one of 0, 8, 16, 17, 18, 19, 20, the number of frames is at
  least 1, and every frame has \<open>0 < duration < 5000\<close>, \<open>-100 \<le> dx \<le> 100\<close> and
  \<open>-100 \<le> dy \<le> 100\<close>. So a block with no frames fails to load, also when its
  size is the one that the size equation asks for.
\<close>

theorem Animation_Load_bounds:
  assumes "Animation_Load c rcd_file = Some (anim, r')"
  shows "version rcd_file = 4 \<and>
         (\<exists>pt r1. GetUInt8 rcd_file = Some (pt, r1) \<and> pt \<in> {0, 8, 16, 17, 18, 19, 20}) \<and>
         1 \<le> frame_count anim \<and>
         unat (size rcd_file) = 1 + 2 + 2 + unat (frame_count anim) * 6 \<and>
         length (frames anim) = unat (frame_count anim) \<and>
         (\<forall>f \<in> set (frames anim).
            0 < duration f \<and> duration f < 5000 \<and>
            -100 \<le> dx f \<and> dx f \<le> 100 \<and> -100 \<le> dy f \<and> dy f \<le> 100)"
proof -
  from assms have v: "version rcd_file = 4"
    by (auto simp: Animation_Load_def Let_def split: if_splits)
  from assms obtain pt r1 at r2 fc r3 fs where
    g: "GetUInt8 rcd_file = Some (pt, r1)" "DecodePersonType pt \<noteq> PERSON_INVALID"
      "GetUInt16 r1 = Some (at, r2)" "GetUInt16 r2 = Some (fc, r3)"
      "unat (size rcd_file) = 1 + 2 + 2 + unat fc * 6" "fc \<noteq> 0"
      "LoadFrames (unat fc) r3 = Some (fs, r')"
      "frame_count anim = fc" "frames anim = fs"
    by (auto simp: Animation_Load_def Let_def split: if_splits option.splits)
  from g(6) have "1 \<le> fc"
    by (simp add: word_le_nat_alt unat_gt_0 Suc_leI)
  with v g LoadFrames_bounds [OF g(7)] DecodePersonType_known [OF g(2)] show ?thesis
    by simp
qed

lemma Animation_Load_example:
  "Animation_Load example_headers (example_reader ''ANIM'' 4 (anim_payload 16 1 [100, 0xFFFB, 3]))
     = Some (\<lparr>frame_count = 1, person_type = PERSON_GUEST, anim_type = 1,
               frames = [\<lparr>duration = 100, dx = -5, dy = 3\<rparr>]\<rparr>,
             (example_reader ''ANIM'' 4 (anim_payload 16 1 [100, 0xFFFB, 3]))\<lparr>fp := []\<rparr>)"
  by (simp add: Animation_Load_def Let_def example_reader_def anim_payload_def le16_def
      GetUInt8_def GetUInt16_def GetInt16_def DecodePersonType_def example_headers_fields)

lemma Animation_Load_no_frames:
  "Animation_Load example_headers (example_reader ''ANIM'' 4 (anim_payload 16 0 [])) = None"
  by (simp add: Animation_Load_def Let_def example_reader_def anim_payload_def le16_def
      GetUInt8_def GetUInt16_def GetInt16_def DecodePersonType_def example_headers_fields)

lemma Animation_Load_long_frame:
  "Animation_Load example_headers (example_reader ''ANIM'' 4 (anim_payload 16 1 [5000, 0, 0]))
     = None"
  by (simp add: Animation_Load_def Let_def example_reader_def anim_payload_def le16_def
      GetUInt8_def GetUInt16_def GetInt16_def DecodePersonType_def example_headers_fields)

theorem Animation_Load_bounds_witness:
  "Animation_Load example_headers (example_reader ''ANIM'' 4 (anim_payload 16 1 [100, 0xFFFB, 3]))
     = Some (\<lparr>frame_count = 1, person_type = PERSON_GUEST, anim_type = 1,
               frames = [\<lparr>duration = 100, dx = -5, dy = 3\<rparr>]\<rparr>,
             (example_reader ''ANIM'' 4 (anim_payload 16 1 [100, 0xFFFB, 3]))\<lparr>fp := []\<rparr>) \<and>
   (\<exists>pt r1. GetUInt8 (example_reader ''ANIM'' 4 (anim_payload 16 1 [100, 0xFFFB, 3]))
               = Some (pt, r1) \<and> pt \<in> {0, 8, 16, 17, 18, 19, 20}) \<and>
   Animation_Load example_headers (example_reader ''ANIM'' 4 (anim_payload 16 0 [])) = None \<and>
   Animation_Load example_headers (example_reader ''ANIM'' 4 (anim_payload 16 1 [5000, 0, 0]))
     = None"
  using Animation_Load_bounds [OF Animation_Load_example] Animation_Load_no_frames
    Animation_Load_long_frame Animation_Load_example
  by blast

section \<open>Claim C3: reading a text\<close>






lemmas utf8_eval =
  ReadUtf8Text_def GetBlob_def example_reader_def example_DecodeUtf8Char_def
  utf8_continuation_def Utf8Loop.simps Let_def




section \<open>Claim C2: the lengths declared in a TEXT block\<close>

lemma length_le16 [simp]: "length (le16 n) = 2"
  by (simp add: le16_def)

lemma length_translation_bytes:
  "length (translation_bytes (lang, body)) = 3 + length lang + length body"
  by (simp add: translation_bytes_def)

lemma length_string_bytes:
  "length (string_bytes (nm, trs)) = 3 + length nm + length (concat (map translation_bytes trs))"
  by (simp add: string_bytes_def)

lemma GetUInt16_bytes:
  assumes "GetUInt16 r = Some (v, r1)"
  shows "fp r = le16 (unat v) @ fp r1"
proof -
  from assms obtain b0 b1 bs where
    bs: "fp r = b0 # b1 # bs" "v = word_of_nat (unat b0 + 256 * unat b1)" "fp r1 = bs"
    by (auto simp: GetUInt16_def split: list.splits)
  have lt: "unat b0 < 256" "unat b1 < 256"
    using unsigned_less [of b0, where ?'a = nat] unsigned_less [of b1, where ?'a = nat]
    by simp_all
  then have "unat b0 + 256 * unat b1 < 65536"
    by simp
  then have u: "unat v = unat b0 + 256 * unat b1"
    unfolding bs(2) unat_of_nat by simp
  have "word_of_nat (unat v mod 256) = b0" "word_of_nat (unat v div 256 mod 256) = b1"
    using lt by (simp_all add: u)
  with bs show ?thesis
    by (simp add: le16_def)
qed

lemma GetUInt8_bytes: "GetUInt8 r = Some (v, r1) \<Longrightarrow> fp r = v # fp r1"
  by (auto simp: GetUInt8_def split: list.splits)

lemma ReadUtf8Text_bytes:
  "ReadUtf8Text D r n buffer capacity buf_length = Success (buffer', r') \<Longrightarrow>
   \<exists>bs. fp r = bs @ fp r' \<and> length bs = n"
  by (auto simp: ReadUtf8Text_def GetBlob_def split: option.splits if_splits
      intro!: exI [of _ "take n (fp r)"])

lemma LoadTranslation_bytes:
  assumes "LoadTranslation D G r len trs buffer str = Success (r', len', trs', buffer', str')"
  shows "\<exists>tr. translation_fits tr \<and> fp r = translation_bytes tr @ fp r' \<and>
           int (length (translation_bytes tr)) \<le> trs \<and>
           trs' = trs - int (length (translation_bytes tr)) \<and>
           len' = len - word_of_nat (length (translation_bytes tr))"
proof -
  from assms have c1: "\<not> len < 3"
    by (auto simp: LoadTranslation_def split: if_splits)
  from assms c1 obtain tr_length r1 where g1: "GetUInt16 r = Some (tr_length, r1)"
    by (cases "GetUInt16 r") (auto simp: LoadTranslation_def)
  from assms c1 g1 obtain lang_length r2 where g2: "GetUInt8 r1 = Some (lang_length, r2)"
    by (cases "GetUInt8 r1") (auto simp: LoadTranslation_def)
  from assms c1 g1 g2 have c2: "int (unat tr_length) \<le> trs"
    "unat lang_length + 3 < unat tr_length"
    by (auto simp: LoadTranslation_def split: if_splits)
  define text_length where "text_length = unat tr_length - Suc (Suc (Suc (unat lang_length)))"
  from assms c1 g1 g2 c2 obtain lang_buffer r3 where
    t1: "ReadUtf8Text D r2 (unat lang_length) [] LANG_BUFFER_SIZE LANG_BUFFER_SIZE
           = Success (lang_buffer, r3)"
    and rest: "(if 0 \<le> G lang_buffer
        then on_success (ReadUtf8Text D r3 text_length buffer BUFFER_SIZE BUFFER_SIZE)
               (\<lambda>(buffer', r4). Success (r4, buffer',
                  str\<lparr>languages := (languages str)(nat (G lang_buffer) \<mapsto> length buffer)\<rparr>))
        else on_success (ReadUtf8Text D r3 text_length [] LANG_BUFFER_SIZE LANG_BUFFER_SIZE)
               (\<lambda>(dummy, r4). Success (r4, buffer, str)))
       = Success (r', buffer', str')"
    and res: "len' = len - ucast tr_length" "trs' = trs - uint tr_length"
    unfolding text_length_def
    by (auto simp: LoadTranslation_def Let_def on_success_Success)
  from rest obtain b0 cap b1 where
    t2: "ReadUtf8Text D r3 text_length b0 cap cap = Success (b1, r')"
    by (auto simp: on_success_Success split: if_splits)
  from ReadUtf8Text_bytes [OF t1] obtain lang where
    lang: "fp r2 = lang @ fp r3" "length lang = unat lang_length"
    by blast
  from ReadUtf8Text_bytes [OF t2] obtain t where
    t: "fp r3 = t @ fp r'" "length t = text_length"
    by blast
  have sz: "3 + length lang + length t = unat tr_length"
    using lang t c2 by (simp add: text_length_def)
  have tl: "unat tr_length < 65536" "unat lang_length < 256"
    using unsigned_less [of tr_length, where ?'a = nat]
      unsigned_less [of lang_length, where ?'a = nat]
    by simp_all
  have bytes: "fp r = translation_bytes (lang, t) @ fp r'"
    using GetUInt16_bytes [OF g1] GetUInt8_bytes [OF g2] lang t sz
    by (simp add: translation_bytes_def)
  have fits: "translation_fits (lang, t)"
    using sz tl lang by (simp add: translation_fits_def)
  have len: "length (translation_bytes (lang, t)) = unat tr_length"
    using sz by (simp add: length_translation_bytes)
  have len': "len' = len - word_of_nat (length (translation_bytes (lang, t)))"
    unfolding res len by simp
  have trs': "trs' = trs - int (length (translation_bytes (lang, t)))"
    unfolding res len by simp
  from bytes fits len len' trs' c2 show ?thesis
    by (intro exI [of _ "(lang, t)"]) simp
qed

lemma LoadTranslations_bytes:
  "LoadTranslations D G r len trs buffer str = Success (r', len', buffer', str') \<Longrightarrow>
   \<exists>trl. list_all translation_fits trl \<and>
     fp r = concat (map translation_bytes trl) @ fp r' \<and>
     int (length (concat (map translation_bytes trl))) = trs \<and>
     len' = len - word_of_nat (length (concat (map translation_bytes trl)))"
proof (induction D G r len trs buffer str rule: LoadTranslations.induct)
  case (1 D G r len trs buffer str)
  show ?case
  proof (cases "trs > 0")
    case False
    with "1.prems" have "trs = 0" "r' = r" "len' = len"
      by (simp_all add: LoadTranslations.simps [of D G r] split: if_splits)
    then show ?thesis
      by (intro exI [of _ "[]"]) simp
  next
    case True
    with "1.prems" obtain r1 len1 trs1 b1 s1 where
      step: "LoadTranslation D G r len trs buffer str = Success (r1, len1, trs1, b1, s1)"
      and rest: "LoadTranslations D G r1 len1 trs1 b1 s1 = Success (r', len', buffer', str')"
      by (auto simp: LoadTranslations.simps [of D G r] split: outcome.splits)
    from LoadTranslation_bytes [OF step] obtain tr where
      tr: "translation_fits tr" "fp r = translation_bytes tr @ fp r1"
        "trs1 = trs - int (length (translation_bytes tr))"
        "len1 = len - word_of_nat (length (translation_bytes tr))"
      by blast
    from "1.IH" [OF True step refl refl refl refl rest] obtain trl where
      trl: "list_all translation_fits trl"
        "fp r1 = concat (map translation_bytes trl) @ fp r'"
        "int (length (concat (map translation_bytes trl))) = trs1"
        "len' = len1 - word_of_nat (length (concat (map translation_bytes trl)))"
      by blast
    show ?thesis
      using tr trl by (intro exI [of _ "tr # trl"]) simp
  qed
qed

lemma ReadUtf8Text_no_assertion:
  "ReadUtf8Text D r n buffer capacity buf_length \<noteq> AssertionFailed"
  by (simp add: ReadUtf8Text_def split: option.splits)

lemma on_success_AssertionFailed:
  "on_success m f = AssertionFailed \<longleftrightarrow>
     m = AssertionFailed \<or> (\<exists>x. m = Success x \<and> f x = AssertionFailed)"
  by (cases m) (simp_all add: on_success_def)

lemma LoadTranslation_no_assertion:
  "LoadTranslation D G r len trs buffer str \<noteq> AssertionFailed"
  by (auto simp: LoadTranslation_def Let_def on_success_AssertionFailed
      ReadUtf8Text_no_assertion split: option.splits if_splits)

lemma LoadTranslations_no_assertion:
  "0 \<le> trs \<Longrightarrow> LoadTranslations D G r len trs buffer str \<noteq> AssertionFailed"
proof (induction D G r len trs buffer str rule: LoadTranslations.induct)
  case (1 D G r len trs buffer str)
  show ?case
  proof (cases "trs > 0")
    case False
    with "1.prems" show ?thesis
      by (simp add: LoadTranslations.simps [of D G r])
  next
    case True
    show ?thesis
    proof (cases "LoadTranslation D G r len trs buffer str")
      case (Success x)
      obtain r1 len1 trs1 b1 s1 where x: "x = (r1, len1, trs1, b1, s1)"
        by (cases x)
      from LoadTranslation_bytes [OF Success [unfolded x]] have "0 \<le> trs1"
        by auto
      from "1.IH" [OF True Success [unfolded x] refl refl refl refl this] True Success x
      show ?thesis
        by (simp add: LoadTranslations.simps [of D G r])
    next
      case AssertionFailed
      then show ?thesis
        by (simp add: LoadTranslation_no_assertion)
    qed (use True in \<open>simp_all add: LoadTranslations.simps [of D G r]\<close>)
  qed
qed

lemma LoadString_bytes:
  assumes "LoadString D G r len buffer strs = Success (r', len', buffer', strs')"
  shows "\<exists>s. string_fits s \<and> fp r = string_bytes s @ fp r' \<and>
           length (string_bytes s) \<le> unat len \<and> 0 < length (string_bytes s) \<and>
           len' = len - word_of_nat (length (string_bytes s)) \<and>
           length strs' = Suc (length strs)"
proof -
  from assms have c1: "\<not> MAX_NUM_TEXT_STRINGS \<le> length strs" "\<not> len < 3"
    by (auto simp: LoadString_def split: if_splits)
  from assms c1 obtain str_length r1 where g1: "GetUInt16 r = Some (str_length, r1)"
    by (cases "GetUInt16 r") (auto simp: LoadString_def)
  from assms c1 g1 obtain ident_length r2 where g2: "GetUInt8 r1 = Some (ident_length, r2)"
    by (cases "GetUInt8 r1") (auto simp: LoadString_def)
  from assms c1 g1 g2 have c2: "\<not> ucast str_length > len"
    "unat ident_length + 3 < unat str_length"
    by (auto simp: LoadString_def split: if_splits)
  from assms c1 g1 g2 c2 obtain b1 r3 len0 trs0 s0 str where
    t1: "ReadUtf8Text D r2 (unat ident_length) buffer BUFFER_SIZE BUFFER_SIZE = Success (b1, r3)"
    and t2: "LoadTranslations D G r3 len0 trs0 b1 s0 = Success (r', len', buffer', str)"
    and len0: "len0 = len - 3 - ucast ident_length"
    and trs0: "trs0 = int (unat str_length) - int (unat ident_length + 2 + 1)"
    and strs': "strs' = strs @ [str]"
    by (auto simp: LoadString_def Let_def on_success_Success)
  from ReadUtf8Text_bytes [OF t1] obtain nm where
    nm: "fp r2 = nm @ fp r3" "length nm = unat ident_length"
    by blast
  from LoadTranslations_bytes [OF t2] obtain trl where
    trl: "list_all translation_fits trl"
      "fp r3 = concat (map translation_bytes trl) @ fp r'"
      "int (length (concat (map translation_bytes trl))) = trs0"
      "len' = len0 - word_of_nat (length (concat (map translation_bytes trl)))"
    by blast
  have sz: "3 + length nm + length (concat (map translation_bytes trl)) = unat str_length"
    using nm(2) trl(3) c2(2) unfolding trs0 by linarith
  have tl: "unat str_length < 65536" "unat ident_length < 256"
    using unsigned_less [of str_length, where ?'a = nat]
      unsigned_less [of ident_length, where ?'a = nat]
    by simp_all
  have bytes: "fp r = string_bytes (nm, trl) @ fp r'"
    using GetUInt16_bytes [OF g1] GetUInt8_bytes [OF g2] nm trl(2) sz
    by (simp add: string_bytes_def)
  have fits: "string_fits (nm, trl)"
    using sz tl nm trl(1) by (simp add: string_fits_def)
  have len: "length (string_bytes (nm, trl)) = unat str_length"
    using sz by (simp add: length_string_bytes)
  have "unat (ucast str_length :: uint32) = unat str_length"
    using tl(1) by (simp add: unsigned_ucast_eq take_bit_nat_eq_self_iff)
  with c2(1) have le: "unat str_length \<le> unat len"
    by (simp add: word_less_nat_alt)
  have "(3 :: uint32) + ucast ident_length
          + word_of_nat (length (concat (map translation_bytes trl)))
      = word_of_nat (3 + length nm + length (concat (map translation_bytes trl)))"
    by (simp add: nm)
  then have len': "len' = len - word_of_nat (length (string_bytes (nm, trl)))"
    unfolding trl(4) len0 len sz [symmetric] by (simp add: algebra_simps)
  from bytes fits len len' le c2 strs' show ?thesis
    by (intro exI [of _ "(nm, trl)"]) simp
qed

lemma LoadString_no_assertion:
  "LoadString D G r len buffer strs \<noteq> AssertionFailed"
proof -
  have "0 \<le> uint a - (3 + uint b)" if "\<not> unat a \<le> Suc (Suc (Suc (unat b)))"
    for a :: uint16 and b :: byte
    using that unfolding uint_nat by linarith
  then show ?thesis
    by (auto simp: LoadString_def Let_def on_success_AssertionFailed
        ReadUtf8Text_no_assertion LoadTranslations_no_assertion split: option.splits if_splits)
qed

lemma LoadStrings_bytes:
  "LoadStrings D G r len buffer strs = Success (r', buffer', strs') \<Longrightarrow>
   \<exists>ss. list_all string_fits ss \<and> fp r = text_block_bytes ss @ fp r' \<and>
     length (text_block_bytes ss) = unat len \<and> length strs' = length strs + length ss"
proof (induction D G r len buffer strs rule: LoadStrings.induct)
  case (1 D G r len buffer strs)
  show ?case
  proof (cases "len > 0")
    case False
    with "1.prems" have "len = 0" "r' = r" "strs' = strs"
      by (simp_all add: LoadStrings.simps [of D G r] split: if_splits)
    then show ?thesis
      by (intro exI [of _ "[]"]) (simp add: text_block_bytes_def)
  next
    case True
    with "1.prems" obtain r1 len1 b1 s1 where
      step: "LoadString D G r len buffer strs = Success (r1, len1, b1, s1)"
      and rest: "LoadStrings D G r1 len1 b1 s1 = Success (r', buffer', strs')"
      by (auto simp: LoadStrings.simps [of D G r] split: outcome.splits)
    from LoadString_bytes [OF step] obtain s where
      s: "string_fits s" "fp r = string_bytes s @ fp r1"
        "length (string_bytes s) \<le> unat len"
        "len1 = len - word_of_nat (length (string_bytes s))"
        "length s1 = Suc (length strs)"
      by blast
    from "1.IH" [OF True step refl refl refl rest] obtain ss where
      ss: "list_all string_fits ss" "fp r1 = text_block_bytes ss @ fp r'"
        "length (text_block_bytes ss) = unat len1"
        "length strs' = length s1 + length ss"
      by blast
    have "unat len1 = unat len - length (string_bytes s)"
      using s(3) unfolding s(4)
      by (metis le_unat_uoi unat_sub word_le_nat_alt)
    with s ss show ?thesis
      by (intro exI [of _ "s # ss"]) (simp add: text_block_bytes_def)
  qed
qed

lemma LoadStrings_no_assertion:
  "LoadStrings D G r len buffer strs \<noteq> AssertionFailed"
proof (induction D G r len buffer strs rule: LoadStrings.induct)
  case (1 D G r len buffer strs)
  show ?case
  proof (cases "len > 0")
    case False
    then have "len = 0"
      by (simp add: word_greater_zero_iff)
    then show ?thesis
      by (simp add: LoadStrings.simps [of D G r])
  next
    case True
    show ?thesis
    proof (cases "LoadString D G r len buffer strs")
      case (Success x)
      obtain r1 len1 b1 s1 where x: "x = (r1, len1, b1, s1)"
        by (cases x)
      from "1.IH" [OF True Success [unfolded x] refl refl refl] True Success x
      show ?thesis
        by (simp add: LoadStrings.simps [of D G r])
    next
      case AssertionFailed
      then show ?thesis
        by (simp add: LoadString_no_assertion)
    qed (use True in \<open>simp_all add: LoadStrings.simps [of D G r]\<close>)
  qed
qed

lemma TextData_Load_no_assertion: "TextData_Load D G rcd_file \<noteq> AssertionFailed"
  by (auto simp: TextData_Load_def on_success_AssertionFailed LoadStrings_no_assertion)

text \<open>
  Claim C2. When \<^verbatim>\<open>TextData::Load\<close> succeeds on a TEXT block, the bytes it has consumed
  are a sequence of string records in the layout of the specification, in which
  every string record and every translation record declares exactly the number of
  bytes it is made of, its own three header bytes included; the records together
  have exactly the number of bytes that the block declares, and the object holds
  one string for each record. So a block in which a declared length is off by one
  does not load. The assertions after the two loops never fail.
\<close>

theorem TextData_Load_exact_accounting:
  "(TextData_Load D G rcd_file = Success (td, r') \<longrightarrow>
      (\<exists>ss. list_all string_fits ss \<and> fp rcd_file = text_block_bytes ss @ fp r' \<and>
         length (text_block_bytes ss) = unat (size rcd_file) \<and> string_count td = length ss)) \<and>
   TextData_Load D G rcd_file \<noteq> AssertionFailed"
proof (rule conjI; (rule impI)?)
  assume "TextData_Load D G rcd_file = Success (td, r')"
  then obtain buffer used where
    "LoadStrings D G rcd_file (size rcd_file) [] [] = Success (r', buffer, used)"
    "string_count td = length used"
    by (auto simp: TextData_Load_def on_success_Success split: if_splits)
  with LoadStrings_bytes [OF this(1)]
  show "\<exists>ss. list_all string_fits ss \<and> fp rcd_file = text_block_bytes ss @ fp r' \<and>
         length (text_block_bytes ss) = unat (size rcd_file) \<and> string_count td = length ss"
    by auto
next
  show "TextData_Load D G rcd_file \<noteq> AssertionFailed"
    by (rule TextData_Load_no_assertion)
qed

lemmas text_eval =
  TextData_Load_def LoadStrings.simps LoadString_def LoadTranslations.simps LoadTranslation_def
  on_success_def GetUInt16_def GetUInt8_def MAX_NUM_TEXT_STRINGS_def BUFFER_SIZE_def
  LANG_BUFFER_SIZE_def example_GetLanguageIndex_def text_payload_def le16_def tag_bytes_def
  utf8_eval char_of_def bit_Suc_0_iff

lemma TextData_Load_example:
  "TextData_Load example_DecodeUtf8Char example_GetLanguageIndex
     (example_reader ''TEXT'' 2 (text_payload 23 15))
   = Success
       (\<lparr>strings = [\<lparr>str_name = Some 0, languages = [0 \<mapsto> 5]\<rparr>], string_count = 1,
         text_data = tag_bytes ''NAME'' @ 0 # tag_bytes ''Hello'' @ [0]\<rparr>,
        (example_reader ''TEXT'' 2 (text_payload 23 15))\<lparr>fp := []\<rparr>)"
proof -
  have five: "(5 :: nat) = Suc (Suc (Suc (Suc (Suc 0))))"
    by simp
  show ?thesis
    unfolding five by (simp add: text_eval)
qed

lemma TextData_Load_off_by_one:
  "TextData_Load example_DecodeUtf8Char example_GetLanguageIndex
     (example_reader ''TEXT'' 2 (text_payload 24 15)) = Failure"
  "TextData_Load example_DecodeUtf8Char example_GetLanguageIndex
     (example_reader ''TEXT'' 2 (text_payload 22 15)) = Failure"
  "TextData_Load example_DecodeUtf8Char example_GetLanguageIndex
     (example_reader ''TEXT'' 2 (text_payload 23 16)) = Failure"
  "TextData_Load example_DecodeUtf8Char example_GetLanguageIndex
     (example_reader ''TEXT'' 2 (text_payload 23 14)) = Failure"
  "TextData_Load example_DecodeUtf8Char example_GetLanguageIndex
     ((example_reader ''TEXT'' 2 (text_payload 23 15 @ [0]))\<lparr>size := 24\<rparr>) = Failure"
  "TextData_Load example_DecodeUtf8Char example_GetLanguageIndex
     ((example_reader ''TEXT'' 2 (text_payload 23 15))\<lparr>size := 22\<rparr>) = Failure"
  by (simp add: text_eval)+

theorem TextData_Load_exact_accounting_witness:
  "TextData_Load example_DecodeUtf8Char example_GetLanguageIndex
     (example_reader ''TEXT'' 2 (text_payload 23 15))
   = Success
       (\<lparr>strings = [\<lparr>str_name = Some 0, languages = [0 \<mapsto> 5]\<rparr>], string_count = 1,
         text_data = tag_bytes ''NAME'' @ 0 # tag_bytes ''Hello'' @ [0]\<rparr>,
        (example_reader ''TEXT'' 2 (text_payload 23 15))\<lparr>fp := []\<rparr>) \<and>
   (\<exists>ss. list_all string_fits ss \<and> text_payload 23 15 = text_block_bytes ss \<and>
      length (text_block_bytes ss) = 23 \<and> length ss = 1) \<and>
   TextData_Load example_DecodeUtf8Char example_GetLanguageIndex
     (example_reader ''TEXT'' 2 (text_payload 24 15)) = Failure \<and>
   TextData_Load example_DecodeUtf8Char example_GetLanguageIndex
     (example_reader ''TEXT'' 2 (text_payload 22 15)) = Failure \<and>
   TextData_Load example_DecodeUtf8Char example_GetLanguageIndex
     (example_reader ''TEXT'' 2 (text_payload 23 16)) = Failure \<and>
   TextData_Load example_DecodeUtf8Char example_GetLanguageIndex
     (example_reader ''TEXT'' 2 (text_payload 23 14)) = Failure \<and>
   TextData_Load example_DecodeUtf8Char example_GetLanguageIndex
     ((example_reader ''TEXT'' 2 (text_payload 23 15 @ [0]))\<lparr>size := 24\<rparr>) = Failure \<and>
   TextData_Load example_DecodeUtf8Char example_GetLanguageIndex
     ((example_reader ''TEXT'' 2 (text_payload 23 15))\<lparr>size := 22\<rparr>) = Failure"
proof -
  have sz: "unat (size (example_reader ''TEXT'' 2 (text_payload 23 15))) = 23"
    "fp (example_reader ''TEXT'' 2 (text_payload 23 15)) = text_payload 23 15"
    by (simp_all add: example_reader_def text_payload_def tag_bytes_def le16_def)
  note inst = TextData_Load_exact_accounting [where D = example_DecodeUtf8Char
      and G = example_GetLanguageIndex
      and rcd_file = "example_reader ''TEXT'' 2 (text_payload 23 15)"
      and td = "\<lparr>strings = [\<lparr>str_name = Some 0, languages = [0 \<mapsto> 5]\<rparr>], string_count = 1,
         text_data = tag_bytes ''NAME'' @ 0 # tag_bytes ''Hello'' @ [0]\<rparr>"
      and r' = "(example_reader ''TEXT'' 2 (text_payload 23 15))\<lparr>fp := []\<rparr>"]
  from inst [THEN conjunct1, THEN mp, OF TextData_Load_example] obtain ss where
    "list_all string_fits ss" "text_payload 23 15 = text_block_bytes ss"
    "length (text_block_bytes ss) = 23" "length ss = 1"
    unfolding sz by auto
  then have ex: "\<exists>ss. list_all string_fits ss \<and> text_payload 23 15 = text_block_bytes ss \<and>
      length (text_block_bytes ss) = 23 \<and> length ss = 1"
    by blast
  show ?thesis
    by (intro conjI TextData_Load_example TextData_Load_off_by_one ex)
qed

section \<open>Claim C7: the limits of a TEXT block\<close>

lemma on_success_OutOfBounds:
  "on_success m f = OutOfBounds \<longleftrightarrow>
     m = OutOfBounds \<or> (\<exists>x. m = Success x \<and> f x = OutOfBounds)"
  by (cases m) (simp_all add: on_success_def)

lemma ReadUtf8Text_in_bounds:
  "buf_length \<le> capacity \<Longrightarrow> ReadUtf8Text D r n buffer capacity buf_length \<noteq> OutOfBounds"
  by (auto simp: ReadUtf8Text_def split: option.splits)

lemma ReadUtf8Text_buffer:
  "ReadUtf8Text D r n buffer capacity buf_length = Success (buffer', r') \<Longrightarrow>
   length buffer' = length buffer + n \<and> length buffer' \<le> buf_length"
  by (auto simp: ReadUtf8Text_def GetBlob_def split: option.splits if_splits)

lemma LoadTranslation_in_bounds:
  "LoadTranslation D G r len trs buffer str \<noteq> OutOfBounds"
  by (auto simp: LoadTranslation_def Let_def on_success_OutOfBounds ReadUtf8Text_in_bounds
      split: option.splits if_splits)

lemma LoadTranslation_buffer:
  "LoadTranslation D G r len trs buffer str = Success (r', len', trs', buffer', str') \<Longrightarrow>
   length buffer \<le> BUFFER_SIZE \<Longrightarrow> length buffer' \<le> BUFFER_SIZE"
  by (auto simp: LoadTranslation_def Let_def on_success_Success
      split: option.splits if_splits dest!: ReadUtf8Text_buffer)

lemma LoadTranslations_in_bounds:
  "LoadTranslations D G r len trs buffer str \<noteq> OutOfBounds"
proof (induction D G r len trs buffer str rule: LoadTranslations.induct)
  case (1 D G r len trs buffer str)
  show ?case
  proof (cases "trs > 0")
    case False
    then show ?thesis
      by (simp add: LoadTranslations.simps [of D G r])
  next
    case True
    show ?thesis
    proof (cases "LoadTranslation D G r len trs buffer str")
      case (Success x)
      obtain r1 len1 trs1 b1 s1 where x: "x = (r1, len1, trs1, b1, s1)"
        by (cases x) auto
      from "1.IH" [OF True Success [unfolded x] refl refl refl refl] True Success x
      show ?thesis
        by (simp add: LoadTranslations.simps [of D G r])
    next
      case OutOfBounds
      with LoadTranslation_in_bounds show ?thesis by blast
    qed (use True in \<open>simp_all add: LoadTranslations.simps [of D G r]\<close>)
  qed
qed

lemma LoadTranslations_buffer:
  "LoadTranslations D G r len trs buffer str = Success (r', len', buffer', str') \<Longrightarrow>
   length buffer \<le> BUFFER_SIZE \<Longrightarrow> length buffer' \<le> BUFFER_SIZE"
proof (induction D G r len trs buffer str rule: LoadTranslations.induct)
  case (1 D G r len trs buffer str)
  show ?case
  proof (cases "trs > 0")
    case False
    with "1.prems" show ?thesis
      by (simp add: LoadTranslations.simps [of D G r] split: if_splits)
  next
    case True
    with "1.prems" obtain r1 len1 trs1 b1 s1 where
      step: "LoadTranslation D G r len trs buffer str = Success (r1, len1, trs1, b1, s1)"
      and rest: "LoadTranslations D G r1 len1 trs1 b1 s1 = Success (r', len', buffer', str')"
      by (auto simp: LoadTranslations.simps [of D G r] split: outcome.splits)
    from LoadTranslation_buffer [OF step "1.prems"(2)] have "length b1 \<le> BUFFER_SIZE" .
    from "1.IH" [OF True step refl refl refl refl rest this] show ?thesis .
  qed
qed

lemma LoadString_in_bounds:
  "LoadString D G r len buffer strs \<noteq> OutOfBounds"
  by (auto simp: LoadString_def Let_def on_success_OutOfBounds ReadUtf8Text_in_bounds
      LoadTranslations_in_bounds split: option.splits if_splits)

lemma LoadString_bounds:
  "LoadString D G r len buffer strs = Success (r', len', buffer', strs') \<Longrightarrow>
   length buffer \<le> BUFFER_SIZE \<Longrightarrow>
   length buffer' \<le> BUFFER_SIZE \<and> length strs' = Suc (length strs) \<and>
   length strs' \<le> MAX_NUM_TEXT_STRINGS"
  by (auto simp: LoadString_def Let_def on_success_Success
      split: option.splits if_splits dest!: ReadUtf8Text_buffer LoadTranslations_buffer)

lemma LoadStrings_in_bounds:
  "LoadStrings D G r len buffer strs \<noteq> OutOfBounds"
proof (induction D G r len buffer strs rule: LoadStrings.induct)
  case (1 D G r len buffer strs)
  show ?case
  proof (cases "len > 0")
    case False
    then show ?thesis
      by (simp add: LoadStrings.simps [of D G r])
  next
    case True
    show ?thesis
    proof (cases "LoadString D G r len buffer strs")
      case (Success x)
      obtain r1 len1 b1 s1 where x: "x = (r1, len1, b1, s1)"
        by (cases x) auto
      from "1.IH" [OF True Success [unfolded x] refl refl refl] True Success x
      show ?thesis
        by (simp add: LoadStrings.simps [of D G r])
    next
      case OutOfBounds
      with LoadString_in_bounds show ?thesis by blast
    qed (use True in \<open>simp_all add: LoadStrings.simps [of D G r]\<close>)
  qed
qed

lemma LoadStrings_bounds:
  "LoadStrings D G r len buffer strs = Success (r', buffer', strs') \<Longrightarrow>
   length buffer \<le> BUFFER_SIZE \<Longrightarrow> length strs \<le> MAX_NUM_TEXT_STRINGS \<Longrightarrow>
   length buffer' \<le> BUFFER_SIZE \<and> length strs' \<le> MAX_NUM_TEXT_STRINGS"
proof (induction D G r len buffer strs rule: LoadStrings.induct)
  case (1 D G r len buffer strs)
  show ?case
  proof (cases "len > 0")
    case False
    with "1.prems" show ?thesis
      by (simp add: LoadStrings.simps [of D G r] split: if_splits)
  next
    case True
    with "1.prems" obtain r1 len1 b1 s1 where
      step: "LoadString D G r len buffer strs = Success (r1, len1, b1, s1)"
      and rest: "LoadStrings D G r1 len1 b1 s1 = Success (r', buffer', strs')"
      by (auto simp: LoadStrings.simps [of D G r] split: outcome.splits)
    from LoadString_bounds [OF step "1.prems"(2)]
    have "length b1 \<le> BUFFER_SIZE" "length s1 \<le> MAX_NUM_TEXT_STRINGS"
      by simp_all
    from "1.IH" [OF True step refl refl refl rest this] show ?thesis .
  qed
qed

text \<open>
  Claim C7. A TEXT block that \<^verbatim>\<open>TextData::Load\<close> loads has at most 512 strings and at
  most 64 KiB of text, and no run of \<^verbatim>\<open>TextData::Load\<close> writes outside the arrays
  \<^verbatim>\<open>strings\<close>, \<^verbatim>\<open>buffer\<close> and \<^verbatim>\<open>lang_buffer\<close>. When the block has bytes left after 512
  strings the load fails, and so does every read of a text that does not fit in
  what is left of the 64 KiB buffer.
\<close>

theorem TextData_Load_limits:
  "(TextData_Load D G rcd_file = Success (td, r') \<longrightarrow>
      string_count td \<le> 512 \<and> length (strings td) = string_count td \<and>
      length (text_data td) \<le> 64 * 1024) \<and>
   TextData_Load D G rcd_file \<noteq> OutOfBounds \<and>
   (0 < len \<and> 512 \<le> length strs \<longrightarrow> LoadStrings D G r len buffer strs = Failure) \<and>
   (64 * 1024 < length buffer + n \<longrightarrow>
      ReadUtf8Text D r n buffer BUFFER_SIZE BUFFER_SIZE = Failure)"
proof (intro conjI impI)
  assume "TextData_Load D G rcd_file = Success (td, r')"
  then obtain b s where
    ld: "LoadStrings D G rcd_file (size rcd_file) [] [] = Success (r', b, s)"
    and td: "td = \<lparr>strings = s, string_count = length s, text_data = b\<rparr>"
    by (auto simp: TextData_Load_def on_success_Success split: if_splits)
  from LoadStrings_bounds [OF ld] td
  show "string_count td \<le> 512" "length (strings td) = string_count td"
    "length (text_data td) \<le> 64 * 1024"
    by (simp_all add: BUFFER_SIZE_def MAX_NUM_TEXT_STRINGS_def)
next
  show "TextData_Load D G rcd_file \<noteq> OutOfBounds"
    by (simp add: TextData_Load_def on_success_OutOfBounds LoadStrings_in_bounds
        split: prod.splits)
next
  assume "0 < len \<and> 512 \<le> length strs"
  then show "LoadStrings D G r len buffer strs = Failure"
    by (simp add: LoadStrings.simps [of D G r] LoadString_def MAX_NUM_TEXT_STRINGS_def)
next
  assume "64 * 1024 < length buffer + n"
  then show "ReadUtf8Text D r n buffer BUFFER_SIZE BUFFER_SIZE = Failure"
    by (simp add: ReadUtf8Text_def BUFFER_SIZE_def)
qed

theorem TextData_Load_limits_witness:
  "TextData_Load example_DecodeUtf8Char example_GetLanguageIndex
     (example_reader ''TEXT'' 2 (text_payload 23 15))
   = Success
       (\<lparr>strings = [\<lparr>str_name = Some 0, languages = [0 \<mapsto> 5]\<rparr>], string_count = 1,
         text_data = tag_bytes ''NAME'' @ 0 # tag_bytes ''Hello'' @ [0]\<rparr>,
        (example_reader ''TEXT'' 2 (text_payload 23 15))\<lparr>fp := []\<rparr>) \<and>
   length (tag_bytes ''NAME'' @ 0 # tag_bytes ''Hello'' @ [0]) \<le> 64 * 1024 \<and>
   TextData_Load example_DecodeUtf8Char example_GetLanguageIndex
     (example_reader ''TEXT'' 2 (text_payload 23 15)) \<noteq> OutOfBounds \<and>
   LoadStrings example_DecodeUtf8Char example_GetLanguageIndex
     (example_reader ''TEXT'' 2 (text_payload 23 15)) 23 (replicate (64 * 1024) 0)
     (replicate 512 \<lparr>str_name = None, languages = Map.empty\<rparr>) = Failure \<and>
   ReadUtf8Text example_DecodeUtf8Char (example_reader ''TEXT'' 2 (text_payload 23 15)) 1
     (replicate (64 * 1024) 0) BUFFER_SIZE BUFFER_SIZE = Failure"
proof -
  note inst = TextData_Load_limits [where D = example_DecodeUtf8Char
      and G = example_GetLanguageIndex
      and rcd_file = "example_reader ''TEXT'' 2 (text_payload 23 15)"
      and td = "\<lparr>strings = [\<lparr>str_name = Some 0, languages = [0 \<mapsto> 5]\<rparr>], string_count = 1,
         text_data = tag_bytes ''NAME'' @ 0 # tag_bytes ''Hello'' @ [0]\<rparr>"
      and r' = "(example_reader ''TEXT'' 2 (text_payload 23 15))\<lparr>fp := []\<rparr>"
      and r = "example_reader ''TEXT'' 2 (text_payload 23 15)"
      and len = 23 and n = 1 and buffer = "replicate (64 * 1024) 0"
      and strs = "replicate 512 \<lparr>str_name = None, languages = Map.empty\<rparr>"]
  have many: "0 < (23 :: uint32) \<and>
      512 \<le> length (replicate 512 \<lparr>str_name = None, languages = Map.empty :: nat \<rightharpoonup> nat\<rparr>)"
    by simp
  have full: "64 * 1024 < length (replicate (64 * 1024) (0 :: byte)) + 1"
    by simp
  from inst [THEN conjunct1, THEN mp, OF TextData_Load_example]
  have "length (tag_bytes ''NAME'' @ 0 # tag_bytes ''Hello'' @ [0]) \<le> 64 * 1024"
    by simp
  moreover note inst [THEN conjunct2, THEN conjunct1]
    inst [THEN conjunct2, THEN conjunct2, THEN conjunct1, THEN mp, OF many]
    inst [THEN conjunct2, THEN conjunct2, THEN conjunct2, THEN mp, OF full]
  ultimately show ?thesis
    by (intro conjI TextData_Load_example)
qed

section \<open>Claim C6: blocks with an unknown tag\<close>

lemma Load_block_unknown:
  "name (ls_rcd_file s) \<notin> set recognized_tags \<Longrightarrow>
   Load_block c e blk_num s =
     (case SkipBytes (ls_rcd_file s) (size (ls_rcd_file s)) of
        None \<Rightarrow>
          Stop ''Error skipping unknown block.''
            (s\<lparr>ls_stderr := ls_stderr s @ [(name (ls_rcd_file s), version (ls_rcd_file s))]\<rparr>)
      | Some r \<Rightarrow>
          Next (s\<lparr>ls_rcd_file := r,
                  ls_stderr := ls_stderr s @ [(name (ls_rcd_file s), version (ls_rcd_file s))]\<rparr>))"
  by (simp add: Load_block_def Let_def recognized_tags_def)

text \<open>
  Claim C6. When the header that \<^verbatim>\<open>SpriteManager::Load\<close> reads has a tag that is none
  of the tags of the dispatcher, and the payload that the header declares is in
  the file, the dispatcher writes the tag and the version to \<^verbatim>\<open>stderr\<close>, skips exactly
  the declared number of bytes, changes nothing else and goes on with the header of
  the next block, the block number one higher. The load stops at such a block only
  when the file ends before the declared payload does.
\<close>

theorem unknown_tag_skipped:
  assumes "ReadBlockHeader (ls_rcd_file s) = Some r" and "name r \<notin> set recognized_tags"
  shows "(unat (size r) \<le> length (fp r) \<longrightarrow>
           Load_block c e blk_num (s\<lparr>ls_rcd_file := r\<rparr>) = Next (skipped r s) \<and>
           Load_loop c e blk_num s = Load_loop c e (blk_num + 1) (skipped r s)) \<and>
         (length (fp r) < unat (size r) \<longrightarrow>
           Load_loop c e blk_num s =
             LoadError ''Error skipping unknown block.''
               (s\<lparr>ls_rcd_file := r, ls_stderr := ls_stderr s @ [(name r, version r)]\<rparr>))"
proof -
  from assms(2) have blk: "Load_block c e blk_num (s\<lparr>ls_rcd_file := r\<rparr>) =
     (case SkipBytes r (size r) of
        None \<Rightarrow>
          Stop ''Error skipping unknown block.''
            (s\<lparr>ls_rcd_file := r, ls_stderr := ls_stderr s @ [(name r, version r)]\<rparr>)
      | Some r' \<Rightarrow>
          Next (s\<lparr>ls_rcd_file := r', ls_stderr := ls_stderr s @ [(name r, version r)]\<rparr>))"
    by (simp add: Load_block_unknown split: option.splits)
  show ?thesis
    using assms(1)
    by (simp add: blk Load_loop.simps [of c e blk_num s] SkipBytes_def skipped_def)
qed

lemmas header_eval =
  ReadBlockHeader_def GetBlob_def GetUInt32_def start_state_def block_bytes_def
  tag_bytes_def le32_def tag_of_bytes_def char_of_def bit_Suc_0_iff

lemma unknown_header:
  "ReadBlockHeader (ls_rcd_file (start_state unknown_then_text)) = Some unknown_block"
  by (simp add: unknown_then_text_def unknown_block_def header_eval)

lemma text_header:
  "ReadBlockHeader (ls_rcd_file (skipped unknown_block (start_state unknown_then_text)))
     = Some (example_reader ''TEXT'' 2 (text_payload 23 15))"
  by (simp add: skipped_def unknown_block_def example_reader_def header_eval text_payload_def
       le16_def)

lemma Load_block_TEXT:
  "name (ls_rcd_file s) = ''TEXT'' \<Longrightarrow>
   TextData_Load (DecodeUtf8Char e) (GetLanguageIndex e) (ls_rcd_file s) = Success (td, r) \<Longrightarrow>
   Load_block c e blk_num s =
     Next (s\<lparr>ls_rcd_file := r, ls_texts := map_insert (ls_texts s) blk_num (Some td),
             ls_this := (ls_this s)\<lparr>blocks := blocks (ls_this s) @ [TextBlock td]\<rparr>\<rparr>)"
  by (simp add: Load_block_def Let_def)

lemma Load_loop_end: "fp (ls_rcd_file s) = [] \<Longrightarrow> Load_loop c e blk_num s = Loaded s"
  by (simp add: Load_loop.simps [of c e blk_num s] ReadBlockHeader_def GetBlob_def)

lemma text_block_loaded:
  "Load_loop example_headers example_externals 2
     (skipped unknown_block (start_state unknown_then_text)) = Loaded after_unknown_then_text"
proof -
  let ?s = "skipped unknown_block (start_state unknown_then_text)"
  let ?r = "example_reader ''TEXT'' 2 (text_payload 23 15)"
  have "Load_block example_headers example_externals 2 (?s\<lparr>ls_rcd_file := ?r\<rparr>)
      = Next after_unknown_then_text"
    by (subst Load_block_TEXT [where td = example_text and r = "?r\<lparr>fp := []\<rparr>"])
      (simp_all add: example_reader_def example_externals_def example_text_def
        TextData_Load_example [unfolded example_reader_def] after_unknown_then_text_def
        skipped_def start_state_def unknown_block_def map_insert_def empty_SpriteManager_def)
  then have "Load_loop example_headers example_externals 2 ?s
      = Load_loop example_headers example_externals (2 + 1) after_unknown_then_text"
    by (simp add: Load_loop.simps [of _ _ 2 ?s] text_header)
  also have "\<dots> = Loaded after_unknown_then_text"
    by (rule Load_loop_end) (simp add: after_unknown_then_text_def)
  finally show ?thesis .
qed

lemma truncated_header:
  "ReadBlockHeader (ls_rcd_file (start_state truncated_unknown)) = Some truncated_block"
  by (simp add: truncated_unknown_def truncated_block_def header_eval)

theorem unknown_tag_skipped_witness:
  "ReadBlockHeader (ls_rcd_file (start_state unknown_then_text)) = Some unknown_block \<and>
   name unknown_block \<notin> set recognized_tags \<and>
   unat (size unknown_block) \<le> length (fp unknown_block) \<and>
   Load_block example_headers example_externals 1
       ((start_state unknown_then_text)\<lparr>ls_rcd_file := unknown_block\<rparr>)
     = Next (skipped unknown_block (start_state unknown_then_text)) \<and>
   fp (ls_rcd_file (skipped unknown_block (start_state unknown_then_text)))
     = block_bytes ''TEXT'' 2 (text_payload 23 15) \<and>
   ls_stderr (skipped unknown_block (start_state unknown_then_text)) = [(''XXXX'', 1)] \<and>
   Load_loop example_headers example_externals 1 (start_state unknown_then_text)
     = Loaded after_unknown_then_text \<and>
   ReadBlockHeader (ls_rcd_file (start_state truncated_unknown)) = Some truncated_block \<and>
   name truncated_block \<notin> set recognized_tags \<and>
   length (fp truncated_block) < unat (size truncated_block) \<and>
   Load_loop example_headers example_externals 1 (start_state truncated_unknown)
     = LoadError ''Error skipping unknown block.''
         ((start_state truncated_unknown)\<lparr>ls_rcd_file := truncated_block,
            ls_stderr := [(''XXXX'', 1)]\<rparr>)"
proof -
  have unk: "name unknown_block \<notin> set recognized_tags"
    "name truncated_block \<notin> set recognized_tags"
    by (simp_all add: unknown_block_def truncated_block_def recognized_tags_def)
  have len: "unat (size unknown_block) \<le> length (fp unknown_block)"
    "length (fp truncated_block) < unat (size truncated_block)"
    by (simp_all add: unknown_block_def truncated_block_def)
  note skip = unknown_tag_skipped [OF unknown_header unk(1),
      of example_headers example_externals 1, THEN conjunct1, THEN mp, OF len(1)]
  note trunc = unknown_tag_skipped [OF truncated_header unk(2),
      of example_headers example_externals 1, THEN conjunct2, THEN mp, OF len(2)]
  have nxt: "(1 :: uint32) + 1 = 2"
    by simp
  have loaded: "Load_loop example_headers example_externals 1 (start_state unknown_then_text)
      = Loaded after_unknown_then_text"
    using skip [THEN conjunct2] unfolding nxt text_block_loaded .
  have pos: "fp (ls_rcd_file (skipped unknown_block (start_state unknown_then_text)))
      = block_bytes ''TEXT'' 2 (text_payload 23 15)"
    "ls_stderr (skipped unknown_block (start_state unknown_then_text)) = [(''XXXX'', 1)]"
    by (simp_all add: skipped_def unknown_block_def start_state_def)
  have err: "Load_loop example_headers example_externals 1 (start_state truncated_unknown)
     = LoadError ''Error skipping unknown block.''
         ((start_state truncated_unknown)\<lparr>ls_rcd_file := truncated_block,
            ls_stderr := [(''XXXX'', 1)]\<rparr>)"
    using trunc by (simp add: start_state_def truncated_block_def)
  show ?thesis
    by (intro conjI unknown_header unk len skip [THEN conjunct1] pos loaded truncated_header err)
qed

section \<open>Claim C5: what a failing block leaves\<close>

subsection \<open>Steps of a loader and the fields they implement\<close>




lemma write_fields_Nil [simp]: "write_fields fs [] s = s"
  by (cases fs) simp_all
















lemma map_fst_inside [simp]: "map fst (inside get put fs) = map fst fs"
  by (simp add: inside_def case_prod_unfold)

lemma length_inside [simp]: "length (inside get put fs) = length fs"
  by (simp add: inside_def)



subsection \<open>The handlers of the sprite store\<close>




lemma GetUInt8_reader:
  "GetUInt8 r = Some (v, r1) \<Longrightarrow> r1 = r\<lparr>fp := drop 1 (fp r)\<rparr>"
  by (auto simp: GetUInt8_def split: list.splits)
















subsection \<open>The loaders of the GUI sprites\<close>





lemma u16_at_0 [simp]: "u16_at 0 r = first_u16 r"
  by (simp add: u16_at_def advance_def)

lemma GetUInt16_first: "GetUInt16 r = Some (v, r') \<Longrightarrow> first_u16 r = v"
  by (simp add: first_u16_def)



















subsection \<open>What the dispatcher leaves when a block fails\<close>












lemma tags_of_dispatcher:
  "set recognized_tags =
     {''INFO''} \<union> set staged_tags \<union> set in_place_tags \<union> set gui_tags \<union> set external_tags"
  by (auto simp: recognized_tags_def staged_tags_def in_place_tags_def gui_tags_def
      external_tags_def)

subsection \<open>The blocks before the failing block\<close>



subsection \<open>Runs that fail at their second block\<close>





















lemma length_array_fields [simp]: "length (array_fields get put n) = n"
  by (simp add: array_fields_def)




subsection \<open>The claim\<close>




end
